theory Spec2Isabelle
  imports Complex_Main
begin

section \<open>Values, exceptions and the world a script runs in\<close>

text \<open>
  The repository is a set of Python scripts. Each script is embedded as a function on an
  explicit world: what it printed, the lines still to be read from standard input, and
  the module namespace. A raised exception is a value; a script that stops with one
  returns it together with the world reached so far.
\<close>

datatype pyexc =
    StopIteration | ZeroDivisionError | TypeError | ValueError | AssertionError
  | NameError | IndexError | KeyError | AttributeError | EOFError | OverflowError
  | ModuleNotFoundError | OSError | FileNotFoundError | FileExistsError
  | NotADirectoryError | IsADirectoryError | InvalidOperation

text \<open>
  The values the scripts compute. A float is modelled by the real number it stands for
  (rounding is not modelled). A set lists its elements without duplicates, a dict its
  items in insertion order. A fraction is modelled by its value, a decimal by
  coefficient and exponent. An instance carries its class name and its attributes. The
  text that \<open>str.format\<close> renders is not computed: \<open>VFormat\<close> keeps the template and
  the arguments. A module or function bound to a name is kept by its name only.
\<close>

datatype pyval =
    VNone
  | VBool bool
  | VInt int
  | VFloat real
  | VComplex complex
  | VStr string
  | VBytes string
  | VList "pyval list"
  | VTuple "pyval list"
  | VSet "pyval list"
  | VFrozenset "pyval list"
  | VDict "(pyval \<times> pyval) list"
  | VType string
  | VDecimal int int
  | VFraction real
  | VObject string "(string \<times> pyval) list"
  | VFormat string "pyval list" "(string \<times> pyval) list"
  | VModule string
  | VFunction string

text \<open>
  What a script writes to standard output: the arguments of one \<open>print\<close> call, or the
  prompt of one \<open>input\<close> call.
\<close>

datatype out_event = Print "pyval list" | Prompt string

text \<open>
  The file system: the files and directories with their absolute paths (lists of path
  components; the root is the empty path and always a directory). A file has a mode and
  a content, a directory a mode.
\<close>

type_synonym path = "string list"

datatype node = File nat string | Dir nat

text \<open>The calls a script makes to the operating system, in the order it makes them.\<close>

datatype oscall =
    Getcwd | Getcwdb | Chdir string | Listdir | Mkdir string | Rename string string
  | Chmod string nat | Remove string | Rmdir string | OpenWrite string

text \<open>
  The world of a running script: what it wrote to standard output, the lines still to
  be read from standard input, the module namespace, the modules it imported, the random
  numbers it will draw, the address of each object (for \<open>id\<close>), the file system with
  the current directory, and the calls made to the operating system.
\<close>

record world =
  out :: "out_event list"
  inp :: "string list"
  globals :: "string \<Rightarrow> pyval option"
  imported :: "string list"
  rnd :: "nat \<Rightarrow> nat"
  address :: "pyval \<Rightarrow> nat"
  files :: "(path \<times> node) list"
  cwd :: path
  calls :: "oscall list"

text \<open>
  A computation either does not return (\<open>None\<close>), or returns an exception or a value
  together with the new world.
\<close>

type_synonym 'a py = "world \<Rightarrow> ((pyexc + 'a) \<times> world) option"

definition ret :: "'a \<Rightarrow> 'a py" where
  "ret x = (\<lambda>w. Some (Inr x, w))"

definition raise :: "pyexc \<Rightarrow> 'a py" where
  "raise e = (\<lambda>w. Some (Inl e, w))"

definition bnd :: "'a py \<Rightarrow> ('a \<Rightarrow> 'b py) \<Rightarrow> 'b py" where
  "bnd m f = (\<lambda>w. case m w of
       None \<Rightarrow> None
     | Some (Inl e, w') \<Rightarrow> Some (Inl e, w')
     | Some (Inr x, w') \<Rightarrow> f x w')"

definition then_py :: "unit py \<Rightarrow> 'b py \<Rightarrow> 'b py" where
  "then_py m k = bnd m (\<lambda>_. k)"

fun block :: "unit py list \<Rightarrow> unit py" where
  "block [] = ret ()"
| "block (st # sts) = then_py st (block sts)"

text \<open>\<open>print(a, b, ...)\<close> appends one entry, the list of its arguments, to the output.\<close>

definition emit :: "pyval list \<Rightarrow> world \<Rightarrow> world" where
  "emit vs w = w\<lparr>out := out w @ [Print vs]\<rparr>"

definition print_values :: "pyval list \<Rightarrow> unit py" where
  "print_values vs = (\<lambda>w. Some (Inr (), emit vs w))"

text \<open>Arguments are evaluated from left to right.\<close>

fun eval_args :: "'a py list \<Rightarrow> 'a list py" where
  "eval_args [] = ret []"
| "eval_args (e # es) = bnd e (\<lambda>v. bnd (eval_args es) (\<lambda>vs. ret (v # vs)))"

definition print :: "pyval py list \<Rightarrow> unit py" where
  "print es = bnd (eval_args es) print_values"

text \<open>A literal; a pure operation that may raise; operations applied to expressions.\<close>

definition lit :: "pyval \<Rightarrow> pyval py" where
  "lit v = ret v"

definition lift :: "pyexc + 'a \<Rightarrow> 'a py" where
  "lift r = (\<lambda>w. Some (r, w))"

definition op1 :: "('a \<Rightarrow> pyexc + 'b) \<Rightarrow> 'a py \<Rightarrow> 'b py" where
  "op1 f e = bnd e (\<lambda>a. lift (f a))"

definition op2 :: "('a \<Rightarrow> 'b \<Rightarrow> pyexc + 'c) \<Rightarrow> 'a py \<Rightarrow> 'b py \<Rightarrow> 'c py" where
  "op2 f e1 e2 = bnd e1 (\<lambda>a. bnd e2 (\<lambda>b. lift (f a b)))"

text \<open>
  Module-level names live in the namespace of the world: reading an unbound name raises
  \<open>NameError\<close>, \<open>del\<close> unbinds a name.
\<close>

definition name :: "string \<Rightarrow> pyval py" where
  "name x = (\<lambda>w. case globals w x of
       None \<Rightarrow> Some (Inl NameError, w)
     | Some v \<Rightarrow> Some (Inr v, w))"

definition bind_name :: "string \<Rightarrow> pyval \<Rightarrow> unit py" where
  "bind_name x v = (\<lambda>w. Some (Inr (), w\<lparr>globals := (globals w)(x := Some v)\<rparr>))"

definition assign :: "string \<Rightarrow> pyval py \<Rightarrow> unit py" where
  "assign x e = bnd e (bind_name x)"

definition del_name :: "string \<Rightarrow> unit py" where
  "del_name x = (\<lambda>w. case globals w x of
       None \<Rightarrow> Some (Inl NameError, w)
     | Some v \<Rightarrow> Some (Inr (), w\<lparr>globals := (globals w)(x := None)\<rparr>))"

definition pass :: "unit py" where
  "pass = ret ()"

text \<open>An expression statement: the value is computed and dropped.\<close>

definition expr_stmt :: "'a py \<Rightarrow> unit py" where
  "expr_stmt e = bnd e (\<lambda>_. ret ())"

section \<open>try, except, finally\<close>

text \<open>
  \<open>try: body except E1: h1 except E2: h2 ...\<close>: an exception of the body goes to the first
  clause that matches it and the statement then ends as that handler does; an exception
  that no clause matches leaves the statement. A bare \<open>except:\<close> matches everything.
\<close>

definition except :: "pyexc \<Rightarrow> unit py \<Rightarrow> (pyexc \<Rightarrow> bool) \<times> unit py" where
  "except cls handler = ((\<lambda>e. e = cls), handler)"

definition except_all :: "unit py \<Rightarrow> (pyexc \<Rightarrow> bool) \<times> unit py" where
  "except_all handler = ((\<lambda>e. True), handler)"

definition try_except :: "unit py \<Rightarrow> ((pyexc \<Rightarrow> bool) \<times> unit py) list \<Rightarrow> unit py" where
  "try_except body handlers = (\<lambda>w. case body w of
       None \<Rightarrow> None
     | Some (Inr u, w') \<Rightarrow> Some (Inr u, w')
     | Some (Inl e, w') \<Rightarrow>
         (case find (\<lambda>h. fst h e) handlers of
            None \<Rightarrow> Some (Inl e, w')
          | Some h \<Rightarrow> snd h w'))"

text \<open>
  \<open>finally\<close>: the clause runs however the statement before it ended; the statement then
  ends as it had, unless the clause itself raises.
\<close>

definition try_finally :: "unit py \<Rightarrow> unit py \<Rightarrow> unit py" where
  "try_finally m fin = (\<lambda>w. case m w of
       None \<Rightarrow> None
     | Some (r, w') \<Rightarrow>
         (case fin w' of
            None \<Rightarrow> None
          | Some (Inl e, w'') \<Rightarrow> Some (Inl e, w'')
          | Some (Inr u, w'') \<Rightarrow> Some (r, w'')))"

definition try_except_finally ::
    "unit py \<Rightarrow> ((pyexc \<Rightarrow> bool) \<times> unit py) list \<Rightarrow> unit py \<Rightarrow> unit py" where
  "try_except_finally body handlers fin = try_finally (try_except body handlers) fin"

section \<open>Generators (example33.py)\<close>

text \<open>
  A generator object is its suspended frame. \<open>next\<close> resumes the frame and runs it to the
  next \<open>yield\<close> (the value is returned) or to the end of the body (\<open>StopIteration\<close>); in
  both cases the frame changes, so \<open>next\<close> returns the new frame as well.
\<close>

type_synonym ('g, 'a) gen_next = "'g \<Rightarrow> world \<Rightarrow> (pyexc + 'a) \<times> 'g \<times> world"

text \<open>\<open>k\<close> successive calls of \<open>next\<close> on one generator, with the result of each call.\<close>

fun next_times :: "('g, 'a) gen_next \<Rightarrow> nat \<Rightarrow> 'g \<Rightarrow> world \<Rightarrow> (pyexc + 'a) list \<times> 'g \<times> world" where
  "next_times nxt 0 g w = ([], g, w)"
| "next_times nxt (Suc k) g w =
     (case nxt g w of (r, g', w') \<Rightarrow>
        (case next_times nxt k g' w' of (rs, g'', w'') \<Rightarrow> (r # rs, g'', w'')))"

text \<open>
  \<open>for item in g: body(item)\<close>. The loop ends when \<open>next\<close> raises \<open>StopIteration\<close>; any
  other exception, from \<open>next\<close> or from the body, leaves the loop. The loop need not end.
\<close>

partial_function (option) for_gen ::
  "('g, 'a) gen_next \<Rightarrow> ('a \<Rightarrow> unit py) \<Rightarrow> 'g \<Rightarrow> world \<Rightarrow> ((pyexc + unit) \<times> world) option" where
  "for_gen nxt body g w =
     (case nxt g w of
        (Inl e, g', w') \<Rightarrow> if e = StopIteration then Some (Inr (), w') else Some (Inl e, w')
      | (Inr v, g', w') \<Rightarrow>
          (case body v w' of
             None \<Rightarrow> None
           | Some (Inl e, w'') \<Rightarrow> Some (Inl e, w'')
           | Some (Inr u, w'') \<Rightarrow> for_gen nxt body g' w''))"

text \<open>The yields of a generator in order, as \<open>list(g)\<close> collects them.\<close>

partial_function (option) gen_list ::
  "('g, 'a) gen_next \<Rightarrow> 'g \<Rightarrow> 'a list \<Rightarrow> world \<Rightarrow> ((pyexc + 'a list) \<times> world) option" where
  "gen_list nxt g acc w =
     (case nxt g w of
        (Inl e, g', w') \<Rightarrow> if e = StopIteration then Some (Inr acc, w') else Some (Inl e, w')
      | (Inr v, g', w') \<Rightarrow> gen_list nxt g' (acc @ [v]) w')"

subsection \<open>my_generator\<close>

text \<open>
  The frame of \<open>my_generator\<close>: not started, suspended at one of its three \<open>yield\<close>s
  (with the local \<open>n\<close>), or finished.
\<close>

datatype my_generator_frame =
    MG_created
  | MG_yield1 int
  | MG_yield2 int
  | MG_yield3 int
  | MG_finished

fun my_generator_next :: "(my_generator_frame, int) gen_next" where
  "my_generator_next MG_created w =
     (let n = 1; w1 = emit [VStr ''This is printed first''] w
      in (Inr n, MG_yield1 n, w1))"
| "my_generator_next (MG_yield1 n0) w =
     (let n = n0 + 1; w1 = emit [VStr ''This is printed second''] w
      in (Inr n, MG_yield2 n, w1))"
| "my_generator_next (MG_yield2 n0) w =
     (let n = n0 + 1; w1 = emit [VStr ''This is printed third''] w
      in (Inr n, MG_yield3 n, w1))"
| "my_generator_next (MG_yield3 n) w = (Inl StopIteration, MG_finished, w)"
| "my_generator_next MG_finished w = (Inl StopIteration, MG_finished, w)"

definition my_generator :: my_generator_frame where
  "my_generator = MG_created"

subsection \<open>reverse_string\<close>

text \<open>
  \<open>s[i]\<close> on a string: a negative index counts from the end, an index out of range
  raises \<open>IndexError\<close>, and the result is the string of that one character.
\<close>

definition str_getitem :: "'c list \<Rightarrow> int \<Rightarrow> pyexc + 'c list" where
  "str_getitem s i =
     (let n = int (length s); j = (if i < 0 then n + i else i)
      in if 0 \<le> j \<and> j < n then Inr [s ! nat j] else Inl IndexError)"

text \<open>
  The frame of \<open>reverse_string\<close>: not started (only the argument is bound), or inside
  the \<open>for\<close> loop over \<open>range(length-1, -1, -1)\<close>, whose iterator is represented by the
  next index it will produce.
\<close>

datatype 'c reverse_string_frame =
    RS_created "'c list"
  | RS_loop "'c list" int int
  | RS_finished

fun reverse_string_loop :: "'c list \<Rightarrow> int \<Rightarrow> int \<Rightarrow> world
    \<Rightarrow> (pyexc + 'c list) \<times> 'c reverse_string_frame \<times> world" where
  "reverse_string_loop my_string len i w =
     (if i > -1 then
        (case str_getitem my_string i of
           Inl e \<Rightarrow> (Inl e, RS_finished, w)
         | Inr c \<Rightarrow> (Inr c, RS_loop my_string len (i - 1), w))
      else (Inl StopIteration, RS_finished, w))"

fun reverse_string_next :: "('c reverse_string_frame, 'c list) gen_next" where
  "reverse_string_next (RS_created my_string) w =
     (let len = int (length my_string) in reverse_string_loop my_string len (len - 1) w)"
| "reverse_string_next (RS_loop my_string len i) w = reverse_string_loop my_string len i w"
| "reverse_string_next RS_finished w = (Inl StopIteration, RS_finished, w)"

definition reverse_string :: "'c list \<Rightarrow> 'c reverse_string_frame" where
  "reverse_string my_string = RS_created my_string"

text \<open>
  The yields of \<open>reverse_string(s)\<close> concatenated into one string, as
  \<open>''.join(reverse_string(s))\<close> does.
\<close>

definition join_reverse_string :: "'c list \<Rightarrow> world \<Rightarrow> ((pyexc + 'c list) \<times> world) option" where
  "join_reverse_string s w =
     (case gen_list reverse_string_next (reverse_string s) [] w of
        None \<Rightarrow> None
      | Some (Inl e, w') \<Rightarrow> Some (Inl e, w')
      | Some (Inr ys, w') \<Rightarrow> Some (Inr (concat ys), w'))"

section \<open>Numbers and division\<close>

text \<open>
  The numbers of the scripts: \<open>bool\<close>, \<open>int\<close> and \<open>float\<close>. A float is modelled by the
  real number it stands for; rounding is not modelled.
\<close>

fun num_of :: "pyval \<Rightarrow> real option" where
  "num_of (VBool b) = Some (if b then 1 else 0)"
| "num_of (VInt i) = Some (of_int i)"
| "num_of (VFloat r) = Some r"
| "num_of _ = None"

text \<open>The same with \<open>complex\<close>: every number of the scripts as a complex number.\<close>

definition cnum_of :: "pyval \<Rightarrow> complex option" where
  "cnum_of v = (case v of VComplex z \<Rightarrow> Some z | _ \<Rightarrow> map_option of_real (num_of v))"

text \<open>
  \<open>a / b\<close>: true division. A zero divisor raises \<open>ZeroDivisionError\<close>; the quotient of
  two real numbers is a float, a quotient with a complex operand is complex.
\<close>

definition py_truediv :: "pyval \<Rightarrow> pyval \<Rightarrow> pyexc + pyval" where
  "py_truediv a b =
     (case (num_of a, num_of b) of
        (Some x, Some y) \<Rightarrow> if y = 0 then Inl ZeroDivisionError else Inr (VFloat (x / y))
      | _ \<Rightarrow>
        (case (cnum_of a, cnum_of b) of
           (Some x, Some y) \<Rightarrow> if y = 0 then Inl ZeroDivisionError else Inr (VComplex (x / y))
         | _ \<Rightarrow> Inl TypeError))"

text \<open>
  \<open>a == b\<close>. Numbers are equal when their values are, whatever their types, and a number
  never equals a value that is not one. Lists and tuples are equal when their elements
  are, in order; sets and dicts when they have the same elements or items, in any order.
\<close>

definition eq_value :: "pyval \<Rightarrow> complex option" where
  "eq_value v =
     (case v of
        VFraction q \<Rightarrow> Some (of_real q)
      | VDecimal c e \<Rightarrow>
          Some (of_real (if 0 \<le> e then of_int c * 10 ^ nat e else of_int c / 10 ^ nat (- e)))
      | _ \<Rightarrow> cnum_of v)"

fun py_eq :: "pyval \<Rightarrow> pyval \<Rightarrow> bool" where
  "py_eq (VList xs) b = (case b of VList ys \<Rightarrow> list_all2 py_eq xs ys | _ \<Rightarrow> False)"
| "py_eq (VTuple xs) b = (case b of VTuple ys \<Rightarrow> list_all2 py_eq xs ys | _ \<Rightarrow> False)"
| "py_eq (VSet xs) b =
     (let same = (\<lambda>ys. length xs = length ys \<and> list_all (\<lambda>x. list_ex (py_eq x) ys) xs)
      in case b of VSet ys \<Rightarrow> same ys | VFrozenset ys \<Rightarrow> same ys | _ \<Rightarrow> False)"
| "py_eq (VFrozenset xs) b =
     (let same = (\<lambda>ys. length xs = length ys \<and> list_all (\<lambda>x. list_ex (py_eq x) ys) xs)
      in case b of VSet ys \<Rightarrow> same ys | VFrozenset ys \<Rightarrow> same ys | _ \<Rightarrow> False)"
| "py_eq (VDict kvs) b =
     (case b of
        VDict kvs' \<Rightarrow>
          length kvs = length kvs' \<and>
          list_all (\<lambda>kv. list_ex (\<lambda>kv'. py_eq (fst kv) (fst kv') \<and> py_eq (snd kv) (snd kv')) kvs') kvs
      | _ \<Rightarrow> False)"
| "py_eq a b =
     (case (eq_value a, eq_value b) of
        (Some x, Some y) \<Rightarrow> x = y
      | (None, None) \<Rightarrow> a = b
      | _ \<Rightarrow> False)"

text \<open>\<open>b ** e\<close> on integers: an integer for \<open>e \<ge> 0\<close>, a float otherwise.\<close>

definition py_pow_int :: "int \<Rightarrow> int \<Rightarrow> pyexc + pyval" where
  "py_pow_int b e =
     (if 0 \<le> e then Inr (VInt (b ^ nat e))
      else if b = 0 then Inl ZeroDivisionError
      else Inr (VFloat (1 / of_int b ^ nat (- e))))"

section \<open>Custom iterators (example17.py)\<close>

text \<open>
  An object of class \<open>Pow_of_Two\<close>: the attribute \<open>max\<close> is set by the constructor, the
  attribute \<open>n\<close> exists only once \<open>__iter__\<close> has run.
\<close>

record Pow_of_Two =
  self_max :: int
  self_n :: "int option"

definition Pow_of_Two_init :: "int \<Rightarrow> Pow_of_Two" where
  "Pow_of_Two_init mx = \<lparr>self_max = mx, self_n = None\<rparr>"

text \<open>\<open>__iter__\<close> sets \<open>n\<close> to 0 and returns the object itself.\<close>

definition Pow_of_Two_iter :: "Pow_of_Two \<Rightarrow> Pow_of_Two" where
  "Pow_of_Two_iter self = self\<lparr>self_n := Some 0\<rparr>"

definition Pow_of_Two_next :: "(Pow_of_Two, pyval) gen_next" where
  "Pow_of_Two_next self w =
     (case self_n self of
        None \<Rightarrow> (Inl AttributeError, self, w)
      | Some n \<Rightarrow>
          if n \<le> self_max self then
            (case py_pow_int 2 n of
               Inl e \<Rightarrow> (Inl e, self, w)
             | Inr result \<Rightarrow> (Inr result, self\<lparr>self_n := Some (n + 1)\<rparr>, w))
          else (Inl StopIteration, self, w))"

text \<open>An object of class \<open>Infinite_Iter\<close>; \<open>num\<close> exists once \<open>__iter__\<close> has run.\<close>

record Infinite_Iter =
  self_num :: "int option"

definition Infinite_Iter_init :: Infinite_Iter where
  "Infinite_Iter_init = \<lparr>self_num = None\<rparr>"

definition Infinite_Iter_iter :: "Infinite_Iter \<Rightarrow> Infinite_Iter" where
  "Infinite_Iter_iter self = self\<lparr>self_num := Some 1\<rparr>"

definition Infinite_Iter_next :: "(Infinite_Iter, pyval) gen_next" where
  "Infinite_Iter_next self w =
     (case self_num self of
        None \<Rightarrow> (Inl AttributeError, self, w)
      | Some num \<Rightarrow> (Inr (VInt num), self\<lparr>self_num := Some (num + 2)\<rparr>, w))"

section \<open>Decorators (decorators34.py)\<close>

text \<open>
  A function of the script is a function from its arguments to a computation; a decorator
  takes such a function and returns one.
\<close>

definition make_decorated :: "unit py \<Rightarrow> unit py" where
  "make_decorated func =
     then_py (print [lit (VStr ''I got decorated.'')]) func"

definition simple_func :: "unit py" where
  "simple_func = print [lit (VStr ''I am a simple function'')]"

definition my_smart_div :: "(pyval \<Rightarrow> pyval \<Rightarrow> pyval py) \<Rightarrow> pyval \<Rightarrow> pyval \<Rightarrow> pyval py" where
  "my_smart_div func x y =
     then_py (print [lit (VStr ''I am dividing x, and y'')])
       (if py_eq y (VInt 0) then
          then_py (print [lit (VStr ''Oops! Division by Zero is illegal... !!!'')]) (ret VNone)
        else func x y)"

text \<open>The function \<open>go_divide\<close> as written, and as the name is bound after decoration.\<close>

definition go_divide_undecorated :: "pyval \<Rightarrow> pyval \<Rightarrow> pyval py" where
  "go_divide_undecorated a b = lift (py_truediv a b)"

definition go_divide :: "pyval \<Rightarrow> pyval \<Rightarrow> pyval py" where
  "go_divide = my_smart_div go_divide_undecorated"

section \<open>Built-in conversions, comparisons and input\<close>

text \<open>
  \<open>int(s)\<close> on a string: white space around the number is dropped, one sign may come
  first, then decimal digits, where single underscores may separate digits. Anything else
  raises \<open>ValueError\<close>. Characters are the 8-bit characters of the model.
\<close>

definition is_space :: "char \<Rightarrow> bool" where
  "is_space c = (c \<in> set [CHR '' '', CHR 0x09, CHR 0x0A, CHR 0x0B, CHR 0x0C, CHR 0x0D,
                           CHR 0x1C, CHR 0x1D, CHR 0x1E, CHR 0x1F])"

definition strip :: "string \<Rightarrow> string" where
  "strip s = rev (dropWhile is_space (rev (dropWhile is_space s)))"

definition digit_of :: "char \<Rightarrow> nat option" where
  "digit_of c = (let k = (of_char c :: nat) in if 48 \<le> k \<and> k \<le> 57 then Some (k - 48) else None)"

fun parse_digits :: "string \<Rightarrow> nat \<Rightarrow> bool \<Rightarrow> nat option" where
  "parse_digits [] acc after_digit = (if after_digit then Some acc else None)"
| "parse_digits (c # cs) acc after_digit =
     (if c = CHR ''_'' then
        (if after_digit \<and> cs \<noteq> [] then parse_digits cs acc False else None)
      else
        (case digit_of c of
           None \<Rightarrow> None
         | Some d \<Rightarrow> parse_digits cs (10 * acc + d) True))"

definition int_of_str :: "string \<Rightarrow> pyexc + int" where
  "int_of_str s =
     (case strip s of
        [] \<Rightarrow> Inl ValueError
      | c # cs \<Rightarrow>
          (if c = CHR ''-'' then
             (case parse_digits cs 0 False of None \<Rightarrow> Inl ValueError | Some n \<Rightarrow> Inr (- int n))
           else if c = CHR ''+'' then
             (case parse_digits cs 0 False of None \<Rightarrow> Inl ValueError | Some n \<Rightarrow> Inr (int n))
           else
             (case parse_digits (c # cs) 0 False of None \<Rightarrow> Inl ValueError | Some n \<Rightarrow> Inr (int n))))"

text \<open>Truncation towards zero, as \<open>int\<close> does on a float.\<close>

definition trunc :: "real \<Rightarrow> int" where
  "trunc r = (if 0 \<le> r then \<lfloor>r\<rfloor> else \<lceil>r\<rceil>)"

fun py_int :: "pyval \<Rightarrow> pyexc + pyval" where
  "py_int (VInt i) = Inr (VInt i)"
| "py_int (VBool b) = Inr (VInt (if b then 1 else 0))"
| "py_int (VFloat r) = Inr (VInt (trunc r))"
| "py_int (VStr s) = (case int_of_str s of Inl e \<Rightarrow> Inl e | Inr i \<Rightarrow> Inr (VInt i))"
| "py_int (VBytes s) = (case int_of_str s of Inl e \<Rightarrow> Inl e | Inr i \<Rightarrow> Inr (VInt i))"
| "py_int (VFraction q) = Inr (VInt (trunc q))"
| "py_int (VDecimal c e) =
     Inr (VInt (if 0 \<le> e then c * 10 ^ nat e else trunc (of_int c / 10 ^ nat (- e))))"
| "py_int _ = Inl TypeError"

text \<open>\<open>float(x)\<close> on a number.\<close>

definition py_float :: "pyval \<Rightarrow> pyexc + pyval" where
  "py_float v = (case num_of v of None \<Rightarrow> Inl TypeError | Some r \<Rightarrow> Inr (VFloat r))"

text \<open>
  The truth value of a value, as \<open>if\<close> and \<open>while\<close> take it: zero, \<open>None\<close> and empty
  containers are false.
\<close>

fun truthy :: "pyval \<Rightarrow> bool" where
  "truthy VNone = False"
| "truthy (VBool b) = b"
| "truthy (VInt i) = (i \<noteq> 0)"
| "truthy (VFloat r) = (r \<noteq> 0)"
| "truthy (VComplex z) = (z \<noteq> 0)"
| "truthy (VStr s) = (s \<noteq> [])"
| "truthy (VBytes s) = (s \<noteq> [])"
| "truthy (VList xs) = (xs \<noteq> [])"
| "truthy (VTuple xs) = (xs \<noteq> [])"
| "truthy (VSet xs) = (xs \<noteq> [])"
| "truthy (VFrozenset xs) = (xs \<noteq> [])"
| "truthy (VDict kvs) = (kvs \<noteq> [])"
| "truthy (VDecimal c e) = (c \<noteq> 0)"
| "truthy (VFraction q) = (q \<noteq> 0)"
| "truthy _ = True"

definition if_else :: "pyval py \<Rightarrow> 'a py \<Rightarrow> 'a py \<Rightarrow> 'a py" where
  "if_else cond a b = bnd cond (\<lambda>c. if truthy c then a else b)"

definition if_then :: "pyval py \<Rightarrow> unit py \<Rightarrow> unit py" where
  "if_then cond a = if_else cond a pass"

text \<open>
  \<open>a < b\<close> and \<open>a > b\<close>: numbers by value, strings by the order of their characters;
  other pairs raise \<open>TypeError\<close>.
\<close>

fun str_less :: "string \<Rightarrow> string \<Rightarrow> bool" where
  "str_less [] [] = False"
| "str_less [] (d # ds) = True"
| "str_less (c # cs) [] = False"
| "str_less (c # cs) (d # ds) =
     ((of_char c :: nat) < of_char d \<or> (c = d \<and> str_less cs ds))"

definition py_lt :: "pyval \<Rightarrow> pyval \<Rightarrow> pyexc + pyval" where
  "py_lt a b =
     (case (num_of a, num_of b) of
        (Some x, Some y) \<Rightarrow> Inr (VBool (x < y))
      | _ \<Rightarrow>
        (case (a, b) of
           (VStr s, VStr t) \<Rightarrow> Inr (VBool (str_less s t))
         | _ \<Rightarrow> Inl TypeError))"

definition py_gt :: "pyval \<Rightarrow> pyval \<Rightarrow> pyexc + pyval" where
  "py_gt a b = py_lt b a"

text \<open>
  \<open>input(prompt)\<close> writes the prompt and takes the next line of standard input; at the
  end of the input it raises \<open>EOFError\<close>.
\<close>

definition input :: "string \<Rightarrow> pyval py" where
  "input prompt = (\<lambda>w.
     (let w1 = w\<lparr>out := out w @ [Prompt prompt]\<rparr>
      in case inp w1 of
           [] \<Rightarrow> Some (Inl EOFError, w1)
         | l # ls \<Rightarrow> Some (Inr (VStr l), w1\<lparr>inp := ls\<rparr>)))"

section \<open>str.format\<close>

text \<open>
  \<open>template.format(args, kwargs)\<close>. The template is read from left to right: \<open>{{\<close> and
  \<open>}}\<close> are literal braces, \<open>{name:spec}\<close> is a replacement field, where \<open>name\<close> is empty
  (the next positional argument), a number (that positional argument) or a keyword, and
  \<open>spec\<close> is an optional width followed by an optional type character. The exceptions of
  \<open>format\<close> are modelled: a malformed template and a type character that does not fit
  the argument (\<open>ValueError\<close>), a missing positional (\<open>IndexError\<close>) or keyword
  (\<open>KeyError\<close>) argument, a format specification for a value that takes none
  (\<open>TypeError\<close>). Nested fields, conversions and fill or precision are not modelled (such
  a template counts as malformed); no script uses them.
\<close>

datatype scan_mode = Outside | Opened | InField string | Closed

text \<open>The fields of a template up to its end or its first malformed place.\<close>

fun fields :: "scan_mode \<Rightarrow> string \<Rightarrow> string list \<times> bool" where
  "fields Outside [] = ([], True)"
| "fields Opened [] = ([], False)"
| "fields (InField acc) [] = ([], False)"
| "fields Closed [] = ([], False)"
| "fields Outside (c # cs) =
     (if c = CHR ''{'' then fields Opened cs
      else if c = CHR ''}'' then fields Closed cs
      else fields Outside cs)"
| "fields Opened (c # cs) =
     (if c = CHR ''{'' then fields Outside cs
      else if c = CHR ''}'' then (case fields Outside cs of (fs, ok) \<Rightarrow> ([] # fs, ok))
      else fields (InField [c]) cs)"
| "fields (InField acc) (c # cs) =
     (if c = CHR ''}'' then (case fields Outside cs of (fs, ok) \<Rightarrow> (acc # fs, ok))
      else if c = CHR ''{'' then ([], False)
      else fields (InField (acc @ [c])) cs)"
| "fields Closed (c # cs) =
     (if c = CHR ''}'' then fields Outside cs else ([], False))"

definition is_digit :: "char \<Rightarrow> bool" where
  "is_digit c = (digit_of c \<noteq> None)"

definition check_spec :: "string \<Rightarrow> pyval \<Rightarrow> pyexc option" where
  "check_spec spec v =
     (if spec = [] then None
      else
        (let ty = dropWhile is_digit spec;
             int_like = (case v of VInt i \<Rightarrow> True | VBool b \<Rightarrow> True | _ \<Rightarrow> False);
             float_like = (case v of VFloat r \<Rightarrow> True | _ \<Rightarrow> False);
             str_like = (case v of VStr s \<Rightarrow> True | _ \<Rightarrow> False)
         in if \<not> (int_like \<or> float_like \<or> str_like) then Some TypeError
            else if ty = [] then None
            else if length ty \<noteq> 1 then Some ValueError
            else if hd ty \<in> set ''bcdoxXn'' then (if int_like then None else Some ValueError)
            else if hd ty \<in> set ''eEfFgG%'' then
              (if int_like \<or> float_like then None else Some ValueError)
            else if hd ty = CHR ''s'' then (if str_like then None else Some ValueError)
            else Some ValueError))"

text \<open>
  The numbering of the positional fields: not yet fixed, automatic with the next index,
  or manual.
\<close>

datatype numbering = Unset | Automatic nat | Manual

fun resolve :: "string list \<Rightarrow> numbering \<Rightarrow> pyval list \<Rightarrow> (string \<times> pyval) list \<Rightarrow> pyexc option" where
  "resolve [] nb args kwargs = None"
| "resolve (f # fs) nb args kwargs =
     (let nm = takeWhile (\<lambda>c. c \<noteq> CHR '':'') f;
          spec = drop 1 (dropWhile (\<lambda>c. c \<noteq> CHR '':'') f)
      in if nm = [] then
           (case nb of
              Manual \<Rightarrow> Some ValueError
            | _ \<Rightarrow>
              (let k = (case nb of Automatic k \<Rightarrow> k | _ \<Rightarrow> 0)
               in if k < length args then
                    (case check_spec spec (args ! k) of
                       Some e \<Rightarrow> Some e
                     | None \<Rightarrow> resolve fs (Automatic (k + 1)) args kwargs)
                  else Some IndexError))
         else if list_all is_digit nm then
           (case nb of
              Automatic k \<Rightarrow> Some ValueError
            | _ \<Rightarrow>
              (case parse_digits nm 0 False of
                 None \<Rightarrow> Some ValueError
               | Some k \<Rightarrow>
                   if k < length args then
                     (case check_spec spec (args ! k) of
                        Some e \<Rightarrow> Some e
                      | None \<Rightarrow> resolve fs Manual args kwargs)
                   else Some IndexError))
         else
           (case map_of kwargs nm of
              None \<Rightarrow> Some KeyError
            | Some v \<Rightarrow>
                (case check_spec spec v of
                   Some e \<Rightarrow> Some e
                 | None \<Rightarrow> resolve fs nb args kwargs)))"

definition str_format :: "string \<Rightarrow> pyval list \<Rightarrow> (string \<times> pyval) list \<Rightarrow> pyexc + pyval" where
  "str_format template args kwargs =
     (case fields Outside template of (fs, ok) \<Rightarrow>
        (case resolve fs Unset args kwargs of
           Some e \<Rightarrow> Inl e
         | None \<Rightarrow> if ok then Inr (VFormat template args kwargs) else Inl ValueError))"

text \<open>\<open>template.format(e1, ..., en)\<close> with positional arguments only.\<close>

definition format :: "string \<Rightarrow> pyval py list \<Rightarrow> pyval py" where
  "format template es = bnd (eval_args es) (\<lambda>args. lift (str_format template args []))"

section \<open>Exception handling (error_and_exception25.py, example26.py)\<close>

definition error_and_exception25 :: "unit py" where
  "error_and_exception25 = block [
     try_except (block [
         expr_stmt (lit (VStr (CHR 0x0A # ''    The code which can give raise to an exception is written here.''
                               @ CHR 0x0A # ''    ''))),
         assign ''a'' (lit (VStr ''hi'')),
         assign ''b'' (op1 py_int (name ''a'')),
         print [lit (VStr ''Value of b:''), name ''b'']])
       [except_all (print [lit (VStr ''Exception Caught!'')])],
     try_except (block [
         assign ''x'' (lit (VInt 5)),
         assign ''y'' (lit (VInt 0)),
         assign ''z'' (op2 py_truediv (name ''x'') (name ''y''))])
       [except ZeroDivisionError (print [lit (VStr ''Division by Zero is not possible.'')])],
     try_except (raise TypeError)
       [except TypeError (print [lit (VStr ''Type Exception Caught!'')])],
     try_except_finally (block [
         print [lit (VStr ''Im in Try block'')],
         raise TypeError])
       [except_all (print [lit (VStr ''Im in Except block'')])]
       (print [lit (VStr ''Im in finally block'')])]"

definition example26 :: "unit py" where
  "example26 =
     try_except_finally (block [
         assign ''a'' (op1 py_int (input ''Please enter the first number:'')),
         assign ''b'' (op1 py_int (input ''Please enter the second number:'')),
         if_then (op2 py_lt (name ''a'') (lit (VInt 0))) (raise TypeError),
         assign ''c'' (op2 py_truediv (name ''a'') (name ''b'')),
         print [format ''{} / {} = {}'' [name ''a'', name ''b'', name ''c'']]])
       [except ZeroDivisionError (print [lit (VStr ''Division by zero is not possible...'')]),
        except ValueError (print [lit (VStr ''The data types are not proper...'')]),
        except TypeError (print [lit (VStr ''The data is not in range...'')]),
        except_all (print [lit (VStr ''default exception handling if none of the exception matches...'')])]
       (print [lit (VStr ''Anyways i will exceute'')])"

section \<open>Modules\<close>

text \<open>
  The modules of the repository (one per script, found first by \<open>import\<close> since the
  script's directory heads the search path) and the standard-library modules the scripts
  import. \<open>import\<close> records the module in the world and binds a name; a module that is
  neither raises \<open>ModuleNotFoundError\<close>. What importing a module of the repository would
  run is not modelled.
\<close>

definition repo_modules :: "string list" where
  "repo_modules =
     [''array_imple3'', ''decorators34'', ''directory_and_filemanage9'',
      ''error_and_exception25'', ''example10'', ''example12'', ''example13'', ''example14'',
      ''example16'', ''example17'', ''example19'', ''example2'', ''example21'', ''example26'',
      ''example28'', ''example29'', ''example33'', ''example38'', ''example5'', ''example6'',
      ''example7'', ''global_local_nonlocal15'', ''multiple_inheritance20'',
      ''statements_and_comments31'', ''strings11'']"

definition stdlib_modules :: "string list" where
  "stdlib_modules = [''os'', ''stat'', ''math'', ''decimal'', ''fractions'', ''random'', ''re'']"

definition load_module :: "string \<Rightarrow> unit py" where
  "load_module m = (\<lambda>w.
     if m \<in> set repo_modules \<or> m \<in> set stdlib_modules
     then Some (Inr (), w\<lparr>imported := imported w @ [m]\<rparr>)
     else Some (Inl ModuleNotFoundError, w))"

text \<open>\<open>import m\<close>, \<open>import m as x\<close>, \<open>from m import f\<close> and \<open>from m import f as x\<close>.\<close>

definition import_as :: "string \<Rightarrow> string \<Rightarrow> unit py" where
  "import_as m x = then_py (load_module m) (bind_name x (VModule m))"

definition import_module :: "string \<Rightarrow> unit py" where
  "import_module m = import_as m m"

definition from_import_as :: "string \<Rightarrow> string \<Rightarrow> string \<Rightarrow> unit py" where
  "from_import_as m f x = then_py (load_module m) (bind_name x (VFunction f))"

definition from_import :: "string \<Rightarrow> string \<Rightarrow> unit py" where
  "from_import m f = from_import_as m f f"

section \<open>The file system and the os module\<close>

text \<open>
  Paths are split at \<open>/\<close>; a relative path starts at the current directory. The
  components \<open>.\<close> and \<open>..\<close> and symbolic links are not modelled, and every operation is
  permitted: an operation fails only for the state of the paths it names. The errors are
  those of a POSIX system.
\<close>

fun split_path :: "string \<Rightarrow> string \<Rightarrow> path" where
  "split_path [] cur = (if cur = [] then [] else [cur])"
| "split_path (c # cs) cur =
     (if c = CHR ''/'' then (if cur = [] then split_path cs [] else cur # split_path cs [])
      else split_path cs (cur @ [c]))"

definition resolve_path :: "path \<Rightarrow> string \<Rightarrow> path" where
  "resolve_path cur s =
     (case s of
        [] \<Rightarrow> cur
      | c # cs \<Rightarrow> if c = CHR ''/'' then split_path s [] else cur @ split_path s [])"

definition render_path :: "path \<Rightarrow> string" where
  "render_path p = (if p = [] then ''/'' else concat (map (\<lambda>c. CHR ''/'' # c) p))"

definition lookup :: "(path \<times> node) list \<Rightarrow> path \<Rightarrow> node option" where
  "lookup fsl p = (if p = [] then Some (Dir 493) else map_of fsl p)"

text \<open>
  Following a path from the root: a missing component is \<open>FileNotFoundError\<close>, a file
  where a directory is needed is \<open>NotADirectoryError\<close>.
\<close>

fun walk :: "(path \<times> node) list \<Rightarrow> path \<Rightarrow> string list \<Rightarrow> pyexc + node" where
  "walk fsl pre [] =
     (case lookup fsl pre of None \<Rightarrow> Inl FileNotFoundError | Some n \<Rightarrow> Inr n)"
| "walk fsl pre (c # cs) =
     (case lookup fsl pre of
        None \<Rightarrow> Inl FileNotFoundError
      | Some (File m d) \<Rightarrow> Inl NotADirectoryError
      | Some (Dir m) \<Rightarrow> walk fsl (pre @ [c]) cs)"

definition stat_path :: "(path \<times> node) list \<Rightarrow> path \<Rightarrow> pyexc + node" where
  "stat_path fsl p = walk fsl [] p"

text \<open>The directory in which a new entry \<open>p\<close> is made must exist.\<close>

definition check_parent :: "(path \<times> node) list \<Rightarrow> path \<Rightarrow> pyexc option" where
  "check_parent fsl p =
     (case stat_path fsl (butlast p) of
        Inl e \<Rightarrow> Some e
      | Inr (File m d) \<Rightarrow> Some NotADirectoryError
      | Inr (Dir m) \<Rightarrow> None)"

definition inside :: "path \<Rightarrow> path \<Rightarrow> bool" where
  "inside q p = (length p < length q \<and> take (length p) q = p)"

definition is_empty_dir :: "(path \<times> node) list \<Rightarrow> path \<Rightarrow> bool" where
  "is_empty_dir fsl p = list_all (\<lambda>(q, n). \<not> inside q p) fsl"

definition remove_entry :: "path \<Rightarrow> (path \<times> node) list \<Rightarrow> (path \<times> node) list" where
  "remove_entry p fsl = filter (\<lambda>(q, n). q \<noteq> p) fsl"

definition called :: "oscall \<Rightarrow> world \<Rightarrow> world" where
  "called c w = w\<lparr>calls := calls w @ [c]\<rparr>"

definition os_getcwd :: "pyval py" where
  "os_getcwd = (\<lambda>w. Some (Inr (VStr (render_path (cwd w))), called Getcwd w))"

definition os_getcwdb :: "pyval py" where
  "os_getcwdb = (\<lambda>w. Some (Inr (VBytes (render_path (cwd w))), called Getcwdb w))"

definition os_chdir :: "string \<Rightarrow> unit py" where
  "os_chdir s = (\<lambda>w0.
     (let w = called (Chdir s) w0; p = resolve_path (cwd w) s
      in case stat_path (files w) p of
           Inl e \<Rightarrow> Some (Inl e, w)
         | Inr (File m d) \<Rightarrow> Some (Inl NotADirectoryError, w)
         | Inr (Dir m) \<Rightarrow> Some (Inr (), w\<lparr>cwd := p\<rparr>)))"

definition os_listdir :: "pyval py" where
  "os_listdir = (\<lambda>w0.
     (let w = called Listdir w0
      in case stat_path (files w) (cwd w) of
           Inl e \<Rightarrow> Some (Inl e, w)
         | Inr (File m d) \<Rightarrow> Some (Inl NotADirectoryError, w)
         | Inr (Dir m) \<Rightarrow>
             Some (Inr (VList (map (\<lambda>(q, n). VStr (last q))
                                  (filter (\<lambda>(q, n). q \<noteq> [] \<and> butlast q = cwd w) (files w)))), w)))"

definition os_mkdir :: "string \<Rightarrow> unit py" where
  "os_mkdir s = (\<lambda>w0.
     (let w = called (Mkdir s) w0; p = resolve_path (cwd w) s
      in if p = [] then Some (Inl FileExistsError, w)
         else case check_parent (files w) p of
           Some e \<Rightarrow> Some (Inl e, w)
         | None \<Rightarrow>
            (case lookup (files w) p of
               Some n \<Rightarrow> Some (Inl FileExistsError, w)
             | None \<Rightarrow> Some (Inr (), w\<lparr>files := files w @ [(p, Dir 511)]\<rparr>))))"

text \<open>
  \<open>os.rename(src, dst)\<close> moves an entry and everything below it. An existing \<open>dst\<close> is
  replaced when it is a file and \<open>src\<close> is one, or an empty directory and \<open>src\<close> is a
  directory. The current directory moves along with a renamed directory.
\<close>

definition moved :: "path \<Rightarrow> path \<Rightarrow> path \<Rightarrow> path" where
  "moved ps pd q = (if take (length ps) q = ps then pd @ drop (length ps) q else q)"

definition os_rename :: "string \<Rightarrow> string \<Rightarrow> unit py" where
  "os_rename src dst = (\<lambda>w0.
     (let w = called (Rename src dst) w0;
          ps = resolve_path (cwd w) src;
          pd = resolve_path (cwd w) dst
      in case stat_path (files w) ps of
           Inl e \<Rightarrow> Some (Inl e, w)
         | Inr sn \<Rightarrow>
            (case check_parent (files w) pd of
               Some e \<Rightarrow> Some (Inl e, w)
             | None \<Rightarrow>
                 if ps = pd then Some (Inr (), w)
                 else if ps = [] \<or> pd = [] \<or> inside pd ps then Some (Inl OSError, w)
                 else
                   (let target = lookup (files w) pd;
                        refused =
                          (case (sn, target) of
                             (Dir m, Some (File m' d)) \<Rightarrow> Some NotADirectoryError
                           | (Dir m, Some (Dir m')) \<Rightarrow>
                               if is_empty_dir (files w) pd then None else Some OSError
                           | (File m d, Some (Dir m')) \<Rightarrow> Some IsADirectoryError
                           | _ \<Rightarrow> None)
                    in case refused of
                         Some e \<Rightarrow> Some (Inl e, w)
                       | None \<Rightarrow>
                           Some (Inr (),
                             w\<lparr>files := map (\<lambda>(q, n). (moved ps pd q, n)) (remove_entry pd (files w)),
                               cwd := moved ps pd (cwd w)\<rparr>)))))"

definition set_mode :: "nat \<Rightarrow> node \<Rightarrow> node" where
  "set_mode m n = (case n of File m0 d \<Rightarrow> File m d | Dir m0 \<Rightarrow> Dir m)"

definition os_chmod :: "string \<Rightarrow> nat \<Rightarrow> unit py" where
  "os_chmod s m = (\<lambda>w0.
     (let w = called (Chmod s m) w0; p = resolve_path (cwd w) s
      in case stat_path (files w) p of
           Inl e \<Rightarrow> Some (Inl e, w)
         | Inr n \<Rightarrow>
             Some (Inr (), w\<lparr>files := map (\<lambda>(q, n). (q, if q = p then set_mode m n else n)) (files w)\<rparr>)))"

text \<open>\<open>stat.S_IRWXU\<close>: read, write and execute for the owner, octal 700.\<close>

definition S_IRWXU :: nat where
  "S_IRWXU = 448"

text \<open>\<open>os.remove\<close> removes a file; on a directory it fails.\<close>

definition os_remove :: "string \<Rightarrow> unit py" where
  "os_remove s = (\<lambda>w0.
     (let w = called (Remove s) w0; p = resolve_path (cwd w) s
      in case stat_path (files w) p of
           Inl e \<Rightarrow> Some (Inl e, w)
         | Inr (Dir m) \<Rightarrow> Some (Inl IsADirectoryError, w)
         | Inr (File m d) \<Rightarrow> Some (Inr (), w\<lparr>files := remove_entry p (files w)\<rparr>)))"

text \<open>\<open>os.rmdir\<close> removes an empty directory; on a file it fails.\<close>

definition os_rmdir :: "string \<Rightarrow> unit py" where
  "os_rmdir s = (\<lambda>w0.
     (let w = called (Rmdir s) w0; p = resolve_path (cwd w) s
      in case stat_path (files w) p of
           Inl e \<Rightarrow> Some (Inl e, w)
         | Inr (File m d) \<Rightarrow> Some (Inl NotADirectoryError, w)
         | Inr (Dir m) \<Rightarrow>
             if p = [] \<or> \<not> is_empty_dir (files w) p then Some (Inl OSError, w)
             else Some (Inr (), w\<lparr>files := remove_entry p (files w)\<rparr>)))"

text \<open>
  \<open>open(name, 'w')\<close> makes the file or empties it and gives its path as the handle;
  \<open>write\<close> appends to the content and returns the number of characters written.
\<close>

definition open_write :: "string \<Rightarrow> path py" where
  "open_write s = (\<lambda>w0.
     (let w = called (OpenWrite s) w0; p = resolve_path (cwd w) s
      in if p = [] then Some (Inl IsADirectoryError, w)
         else case check_parent (files w) p of
           Some e \<Rightarrow> Some (Inl e, w)
         | None \<Rightarrow>
            (case lookup (files w) p of
               Some (Dir m) \<Rightarrow> Some (Inl IsADirectoryError, w)
             | Some (File m d) \<Rightarrow>
                 Some (Inr p, w\<lparr>files := map (\<lambda>(q, n). (q, if q = p then File m [] else n)) (files w)\<rparr>)
             | None \<Rightarrow> Some (Inr p, w\<lparr>files := files w @ [(p, File 438 [])]\<rparr>))))"

definition file_write :: "path \<Rightarrow> string \<Rightarrow> pyval py" where
  "file_write p text = (\<lambda>w.
     Some (Inr (VInt (int (length text))),
       w\<lparr>files := map (\<lambda>(q, n). (q, if q = p then (case n of File m d \<Rightarrow> File m (d @ text) | Dir m \<Rightarrow> n) else n))
                       (files w)\<rparr>))"

text \<open>
  \<open>with open(name, 'w') as x: body\<close>: the file is opened, the name bound, the body run,
  and the file closed however the body ends.
\<close>

definition with_open_write :: "string \<Rightarrow> string \<Rightarrow> (path \<Rightarrow> unit py) \<Rightarrow> unit py" where
  "with_open_write s x body =
     bnd (open_write s) (\<lambda>p.
       then_py (bind_name x (VObject ''TextIOWrapper'' [(''name'', VStr s)])) (body p))"

section \<open>Directory and file management (directory_and_filemanage9.py)\<close>

definition directory_and_filemanage9 :: "unit py" where
  "directory_and_filemanage9 = block [
     import_module ''os'',
     import_module ''stat'',
     print [os_getcwd],
     print [os_getcwdb],
     os_chdir ''/Users/srinu/Documents/frontend-prep/backend/python'',
     print [os_getcwd],
     print [os_listdir],
     os_mkdir ''test_folder'',
     os_rename ''test_folder'' ''New_folder'',
     os_chmod ''New_folder'' S_IRWXU,
     os_remove ''Test.txt'',
     os_rmdir ''Test.txt'']"

section \<open>Operators and statements\<close>

text \<open>The result of \<open>==\<close>, \<open>!=\<close>, \<open>is\<close>, \<open>not\<close>, \<open>and\<close>, \<open>or\<close> as expressions.\<close>

definition eq_py :: "pyval py \<Rightarrow> pyval py \<Rightarrow> pyval py" where
  "eq_py e1 e2 = bnd e1 (\<lambda>a. bnd e2 (\<lambda>b. ret (VBool (py_eq a b))))"

text \<open>
  \<open>a is b\<close> on the constants the scripts compare (\<open>True\<close>, small integers): the same
  object exactly when the same constant.
\<close>

definition is_same :: "pyval py \<Rightarrow> pyval py \<Rightarrow> pyval py" where
  "is_same e1 e2 = bnd e1 (\<lambda>a. bnd e2 (\<lambda>b. ret (VBool (a = b))))"

definition not_py :: "pyval py \<Rightarrow> pyval py" where
  "not_py e = bnd e (\<lambda>a. ret (VBool (\<not> truthy a)))"

definition and_py :: "pyval py \<Rightarrow> pyval py \<Rightarrow> pyval py" where
  "and_py e1 e2 = bnd e1 (\<lambda>a. if truthy a then e2 else ret a)"

definition or_py :: "pyval py \<Rightarrow> pyval py \<Rightarrow> pyval py" where
  "or_py e1 e2 = bnd e1 (\<lambda>a. if truthy a then ret a else e2)"

text \<open>
  \<open>+\<close>, \<open>-\<close>, \<open>*\<close>: on integers (and booleans) the result is an integer, with a float
  operand a float, with a complex operand complex; \<open>+\<close> also joins two strings, lists
  or tuples, and \<open>*\<close> repeats one. Two decimals are added and multiplied exactly (the
  precision of the decimal context is not modelled).
\<close>

fun int_of :: "pyval \<Rightarrow> int option" where
  "int_of (VBool b) = Some (if b then 1 else 0)"
| "int_of (VInt i) = Some i"
| "int_of _ = None"

definition arith ::
    "(int \<Rightarrow> int \<Rightarrow> int) \<Rightarrow> (real \<Rightarrow> real \<Rightarrow> real) \<Rightarrow> (complex \<Rightarrow> complex \<Rightarrow> complex)
     \<Rightarrow> pyval \<Rightarrow> pyval \<Rightarrow> pyexc + pyval" where
  "arith fi fr fc a b =
     (case (int_of a, int_of b) of
        (Some i, Some j) \<Rightarrow> Inr (VInt (fi i j))
      | _ \<Rightarrow>
        (case (num_of a, num_of b) of
           (Some x, Some y) \<Rightarrow> Inr (VFloat (fr x y))
         | _ \<Rightarrow>
           (case (cnum_of a, cnum_of b) of
              (Some x, Some y) \<Rightarrow> Inr (VComplex (fc x y))
            | _ \<Rightarrow> Inl TypeError)))"

text \<open>A decimal, or an integer as a decimal with exponent 0.\<close>

definition is_decimal :: "pyval \<Rightarrow> bool" where
  "is_decimal v = (case v of VDecimal c e \<Rightarrow> True | _ \<Rightarrow> False)"

definition dec_of :: "pyval \<Rightarrow> (int \<times> int) option" where
  "dec_of v = (case v of VDecimal c e \<Rightarrow> Some (c, e) | _ \<Rightarrow> map_option (\<lambda>i. (i, 0)) (int_of v))"

text \<open>A sequence repeated \<open>k\<close> times; none for \<open>k \<le> 0\<close>.\<close>

definition repeat :: "int \<Rightarrow> 'a list \<Rightarrow> 'a list" where
  "repeat k xs = concat (replicate (nat k) xs)"

definition py_add :: "pyval \<Rightarrow> pyval \<Rightarrow> pyexc + pyval" where
  "py_add a b =
     (case (a, b) of
        (VStr s, VStr t) \<Rightarrow> Inr (VStr (s @ t))
      | (VList xs, VList ys) \<Rightarrow> Inr (VList (xs @ ys))
      | (VTuple xs, VTuple ys) \<Rightarrow> Inr (VTuple (xs @ ys))
      | _ \<Rightarrow>
        if is_decimal a \<or> is_decimal b then
          (case (dec_of a, dec_of b) of
             (Some (c, e), Some (c', e')) \<Rightarrow>
               (let m = min e e'
                in Inr (VDecimal (c * 10 ^ nat (e - m) + c' * 10 ^ nat (e' - m)) m))
           | _ \<Rightarrow> Inl TypeError)
        else arith (+) (+) (+) a b)"

definition py_sub :: "pyval \<Rightarrow> pyval \<Rightarrow> pyexc + pyval" where
  "py_sub a b = arith (-) (-) (-) a b"

definition py_mul :: "pyval \<Rightarrow> pyval \<Rightarrow> pyexc + pyval" where
  "py_mul a b =
     (case (a, int_of b) of
        (VStr s, Some k) \<Rightarrow> Inr (VStr (repeat k s))
      | (VList xs, Some k) \<Rightarrow> Inr (VList (repeat k xs))
      | (VTuple xs, Some k) \<Rightarrow> Inr (VTuple (repeat k xs))
      | _ \<Rightarrow>
        (case (int_of a, b) of
           (Some k, VStr s) \<Rightarrow> Inr (VStr (repeat k s))
         | (Some k, VList xs) \<Rightarrow> Inr (VList (repeat k xs))
         | (Some k, VTuple xs) \<Rightarrow> Inr (VTuple (repeat k xs))
         | _ \<Rightarrow>
           if is_decimal a \<or> is_decimal b then
             (case (dec_of a, dec_of b) of
                (Some (c, e), Some (c', e')) \<Rightarrow> Inr (VDecimal (c * c') (e + e'))
              | _ \<Rightarrow> Inl TypeError)
           else arith (*) (*) (*) a b))"

text \<open>
  \<open>x in c\<close>: an element of a list, tuple or set, a key of a dict, a substring of a string;
  on anything else \<open>TypeError\<close>.
\<close>

fun is_substring :: "string \<Rightarrow> string \<Rightarrow> bool" where
  "is_substring s [] = (s = [])"
| "is_substring s (c # cs) = (take (length s) (c # cs) = s \<or> is_substring s cs)"

definition py_in :: "pyval \<Rightarrow> pyval \<Rightarrow> pyexc + pyval" where
  "py_in x c =
     (case c of
        VList xs \<Rightarrow> Inr (VBool (list_ex (py_eq x) xs))
      | VTuple xs \<Rightarrow> Inr (VBool (list_ex (py_eq x) xs))
      | VSet xs \<Rightarrow> Inr (VBool (list_ex (py_eq x) xs))
      | VFrozenset xs \<Rightarrow> Inr (VBool (list_ex (py_eq x) xs))
      | VDict kvs \<Rightarrow> Inr (VBool (list_ex (\<lambda>kv. py_eq x (fst kv)) kvs))
      | VStr t \<Rightarrow> (case x of VStr s \<Rightarrow> Inr (VBool (is_substring s t)) | _ \<Rightarrow> Inl TypeError)
      | _ \<Rightarrow> Inl TypeError)"

definition py_not_in :: "pyval \<Rightarrow> pyval \<Rightarrow> pyexc + pyval" where
  "py_not_in x c = (case py_in x c of Inl e \<Rightarrow> Inl e | Inr v \<Rightarrow> Inr (VBool (\<not> truthy v)))"

text \<open>\<open>assert e\<close> raises \<open>AssertionError\<close> when \<open>e\<close> is false.\<close>

definition assert :: "pyval py \<Rightarrow> unit py" where
  "assert e = bnd e (\<lambda>c. if truthy c then ret () else raise AssertionError)"

text \<open>
  Loops. A statement of a loop body says how control goes on: to the next statement, out
  of the loop (\<open>break\<close>) or to the next round (\<open>continue\<close>).
\<close>

datatype flow = Normal | Break | Continue

definition stmt :: "unit py \<Rightarrow> flow py" where
  "stmt s = bnd s (\<lambda>_. ret Normal)"

fun loop_body :: "flow py list \<Rightarrow> flow py" where
  "loop_body [] = ret Normal"
| "loop_body (st # sts) = bnd st (\<lambda>f. case f of Normal \<Rightarrow> loop_body sts | _ \<Rightarrow> ret f)"

text \<open>\<open>for x in xs: body\<close> at module level: each element is bound to the name \<open>x\<close>.\<close>

fun for_list :: "'a list \<Rightarrow> ('a \<Rightarrow> flow py) \<Rightarrow> unit py" where
  "for_list [] b = ret ()"
| "for_list (x # xs) b = bnd (b x) (\<lambda>f. case f of Break \<Rightarrow> ret () | _ \<Rightarrow> for_list xs b)"

definition for_in :: "string \<Rightarrow> pyval list py \<Rightarrow> flow py \<Rightarrow> unit py" where
  "for_in x e b = bnd e (\<lambda>xs. for_list xs (\<lambda>v. then_py (bind_name x v) b))"

text \<open>\<open>range(a, b)\<close>: the integers from \<open>a\<close> up to but not including \<open>b\<close>.\<close>

definition py_range :: "int \<Rightarrow> int \<Rightarrow> pyval list py" where
  "py_range a b = ret (map (\<lambda>k. VInt (a + int k)) [0..<nat (b - a)])"

text \<open>\<open>while cond: body\<close>; the loop need not end.\<close>

partial_function (option) while_loop ::
    "pyval py \<Rightarrow> flow py \<Rightarrow> world \<Rightarrow> ((pyexc + unit) \<times> world) option" where
  "while_loop cond b w =
     (case cond w of
        None \<Rightarrow> None
      | Some (Inl e, w') \<Rightarrow> Some (Inl e, w')
      | Some (Inr c, w') \<Rightarrow>
          if truthy c then
            (case b w' of
               None \<Rightarrow> None
             | Some (Inl e, w'') \<Rightarrow> Some (Inl e, w'')
             | Some (Inr f, w'') \<Rightarrow>
                 if f = Break then Some (Inr (), w'') else while_loop cond b w'')
          else Some (Inr (), w'))"

text \<open>The functions of the math module; a float stands for the real number.\<close>

definition math_pi :: pyval where
  "math_pi = VFloat pi"

definition math_cos :: "pyval \<Rightarrow> pyexc + pyval" where
  "math_cos v = (case num_of v of None \<Rightarrow> Inl TypeError | Some r \<Rightarrow> Inr (VFloat (cos r)))"

definition break_loop :: "flow py" where
  "break_loop = ret Break"

definition continue_loop :: "flow py" where
  "continue_loop = ret Continue"

text \<open>An \<open>if\<close> without \<open>else\<close> inside a loop body.\<close>

definition if_flow :: "pyval py \<Rightarrow> flow py \<Rightarrow> flow py" where
  "if_flow cond a = if_else cond a (ret Normal)"

section \<open>Keywords and identifiers (example5.py)\<close>

text \<open>
  A \<open>def\<close> or \<open>class\<close> statement only binds a name to a function or class; it is
  modelled by the definition of that function, and a call by its application. Local
  variables of a function are variables of the definition.
\<close>

definition a_void_function :: "pyval py" where
  "a_void_function =
     (let a = VInt 1; b = VInt 2
      in bnd (lift (py_add a b)) (\<lambda>c. ret VNone))"

definition ExampleClass_function1 :: "pyval \<Rightarrow> unit py" where
  "ExampleClass_function1 parameters =
     print [lit (VStr ''Invoking function1 with params...''), lit parameters]"

definition ExampleClass_function2 :: "pyval \<Rightarrow> unit py" where
  "ExampleClass_function2 parameters =
     print [lit (VStr ''Invoking function2 with params...''), lit parameters]"

definition function_name :: "pyval \<Rightarrow> unit py" where
  "function_name parameter = block [print [lit (VStr ''hi'')], pass]"

definition read1 :: "unit py" where
  "read1 = print [name ''globalVar'']"

text \<open>\<open>write1\<close> declares the name global and assigns the module's variable.\<close>

definition write1 :: "unit py" where
  "write1 = assign ''globalVar'' (lit (VInt 5))"

text \<open>\<open>write2\<close> assigns a local variable of its own.\<close>

definition write2 :: "unit py" where
  "write2 = (let globalVar = VInt 15 in ret ())"

definition lambda_a :: "pyval \<Rightarrow> pyexc + pyval" where
  "lambda_a x = py_mul x (VInt 2)"

text \<open>
  \<open>inner_func\<close> assigns the variable \<open>a\<close> of \<open>outer_func\<close> (\<open>nonlocal\<close>): it takes the
  variable's value and returns the new one.
\<close>

definition outer_func_inner_func :: "pyval \<Rightarrow> pyval py" where
  "outer_func_inner_func a0 =
     (let a = VInt 10
      in then_py (print [lit (VStr ''inner function''), lit a]) (ret a))"

definition outer_func :: "unit py" where
  "outer_func =
     (let a = VInt 5
      in bnd (outer_func_inner_func a) (\<lambda>a.
           print [lit (VStr ''outer function''), lit a]))"

definition function1 :: "unit py" where
  "function1 = pass"

definition functionWithReturnValue :: "pyval py" where
  "functionWithReturnValue = (let a = VInt 10 in ret a)"

text \<open>
  The frame of \<open>generator\<close>: not started, inside the loop over \<open>range(6)\<close> (with the next
  index of the range), or finished.
\<close>

datatype generator_frame = G_created | G_loop int | G_finished

definition generator_loop :: "int \<Rightarrow> world \<Rightarrow> (pyexc + pyval) \<times> generator_frame \<times> world" where
  "generator_loop i w =
     (if i < 6 then
        (case py_mul (VInt i) (VInt i) of
           Inl e \<Rightarrow> (Inl e, G_finished, w)
         | Inr v \<Rightarrow> (Inr v, G_loop (i + 1), w))
      else (Inl StopIteration, G_finished, w))"

fun generator_next :: "(generator_frame, pyval) gen_next" where
  "generator_next G_created w = generator_loop 0 w"
| "generator_next (G_loop i) w = generator_loop i w"
| "generator_next G_finished w = (Inl StopIteration, G_finished, w)"

definition generator :: generator_frame where
  "generator = G_created"

definition example5 :: "unit py" where
  "example5 = block [
     print [eq_py (lit (VInt 5)) (lit (VInt 5))],
     print [op2 py_gt (lit (VInt 5)) (lit (VInt 5))],
     print [eq_py (lit VNone) (lit (VInt 0))],
     print [eq_py (lit VNone) (lit (VList []))],
     print [eq_py (lit VNone) (lit (VBool False))],
     print [eq_py (lit VNone) (lit VNone)],
     assign ''x'' a_void_function,
     print [name ''x''],
     print [and_py (lit (VBool True)) (lit (VBool False))],
     print [or_py (lit (VBool True)) (lit (VBool False))],
     print [not_py (lit (VBool True))],
     import_as ''math'' ''myMath'',
     print [op1 math_cos (lit math_pi)],
     assert (op2 py_gt (lit (VInt 5)) (lit (VInt 5))),
     assert (eq_py (lit (VInt 5)) (lit (VInt 5))),
     for_in ''i'' (py_range 1 11) (loop_body [
       if_flow (eq_py (name ''i'') (lit (VInt 5))) break_loop,
       stmt (print [name ''i''])]),
     for_in ''i'' (py_range 1 11) (loop_body [
       if_flow (eq_py (name ''i'') (lit (VInt 5))) continue_loop,
       stmt (print [name ''i''])]),
     assign ''obj1'' (lit (VType ''ExampleClass'')),
     ExampleClass_function1 (VInt 1),
     ExampleClass_function2 (VInt 2),
     function_name (VInt 1),
     assign ''a'' (lit (VInt 10)),
     print [name ''a''],
     del_name ''a'',
     print [name ''a''],
     assign ''num'' (lit (VInt 2)),
     if_else (eq_py (name ''num'') (lit (VInt 1)))
       (print [lit (VStr ''One'')])
       (if_else (eq_py (name ''num'') (lit (VInt 2)))
          (print [lit (VStr ''Two'')])
          (print [lit (VStr ''Something Else'')])),
     try_except_finally (block [
         assign ''x'' (lit (VInt 9)),
         raise ZeroDivisionError])
       [except ZeroDivisionError (print [lit (VStr ''Division Cannot be performed'')])]
       (print [lit (VStr ''Execution success'')]),
     for_in ''i'' (py_range 1 10) (stmt (print [name ''i''])),
     import_module ''math'',
     from_import ''math'' ''cos'',
     print [op1 math_cos (lit (VInt 10))],
     assign ''globalVar'' (lit (VInt 10)),
     read1,
     write1,
     read1,
     write2,
     read1,
     assign ''a'' (lit (VList [VInt 1, VInt 2, VInt 3, VInt 4])),
     print [op2 py_in (lit (VInt 4)) (name ''a'')],
     print [op2 py_not_in (lit (VInt 5)) (name ''a'')],
     print [is_same (lit (VBool True)) (lit (VBool True))],
     print [is_same (lit (VInt 1)) (lit (VInt 2))],
     assign ''a'' (lit (VFunction ''<lambda>'')),
     for_in ''i'' (py_range 1 5) (stmt (print [op1 lambda_a (name ''i'')])),
     outer_func,
     print [functionWithReturnValue],
     assign ''i'' (lit (VInt 5)),
     while_loop (op2 py_gt (name ''i'') (lit (VInt 0))) (loop_body [
       stmt (print [name ''i'']),
       stmt (assign ''i'' (op2 py_sub (name ''i'') (lit (VInt 1))))]),
     with_open_write ''example.txt'' ''my_file'' (\<lambda>my_file.
       expr_stmt (file_write my_file ''Hello World!!'')),
     assign ''g'' (lit (VObject ''generator'' [])),
     for_gen generator_next (\<lambda>v. then_py (bind_name ''i'' v) (print [name ''i''])) generator]"

section \<open>Running a script\<close>

text \<open>
  A script starts in a fresh process: nothing printed, an empty namespace, no module
  imported, no call made. What it is given is the file system with the current directory,
  the standard input, the random numbers and the addresses of objects.
\<close>

definition start :: "(path \<times> node) list \<Rightarrow> path \<Rightarrow> string list \<Rightarrow> (nat \<Rightarrow> nat) \<Rightarrow> (pyval \<Rightarrow> nat) \<Rightarrow> world" where
  "start fsl dir stdin r addr =
     \<lparr>out = [], inp = stdin, globals = (\<lambda>x. None), imported = [], rnd = r, address = addr,
      files = fsl, cwd = dir, calls = []\<rparr>"

text \<open>
  A file system on which the calls of \<open>directory_and_filemanage9.py\<close> find what they
  name: the directory of the script's \<open>chdir\<close> with a file \<open>Test.txt\<close> in it.
\<close>

definition python_dir :: path where
  "python_dir = [''Users'', ''srinu'', ''Documents'', ''frontend-prep'', ''backend'', ''python'']"

definition author_files :: "(path \<times> node) list" where
  "author_files =
     [([''Users''], Dir 493),
      ([''Users'', ''srinu''], Dir 493),
      ([''Users'', ''srinu'', ''Documents''], Dir 493),
      ([''Users'', ''srinu'', ''Documents'', ''frontend-prep''], Dir 493),
      ([''Users'', ''srinu'', ''Documents'', ''frontend-prep'', ''backend''], Dir 493),
      (python_dir, Dir 493),
      (python_dir @ [''Test.txt''], File 420 [])]"

section \<open>Sequences, dicts and sets\<close>

text \<open>
  An index into a sequence of length \<open>n\<close>: negative indices count from the end; out of
  range is \<open>IndexError\<close>.
\<close>

definition norm_index :: "nat \<Rightarrow> int \<Rightarrow> pyexc + nat" where
  "norm_index n i =
     (let j = (if i < 0 then int n + i else i)
      in if 0 \<le> j \<and> j < int n then Inr (nat j) else Inl IndexError)"

text \<open>The bounds of a slice \<open>[lo:hi]\<close>: missing bounds are the ends, others are clipped.\<close>

definition slice_bound :: "nat \<Rightarrow> int \<Rightarrow> nat" where
  "slice_bound n i = (let j = (if i < 0 then int n + i else i) in nat (max 0 (min (int n) j)))"

definition slice :: "'a list \<Rightarrow> int option \<Rightarrow> int option \<Rightarrow> 'a list" where
  "slice xs lo hi =
     (let n = length xs;
          l = (case lo of None \<Rightarrow> 0 | Some i \<Rightarrow> slice_bound n i);
          h = (case hi of None \<Rightarrow> n | Some i \<Rightarrow> slice_bound n i)
      in take (h - l) (drop l xs))"

definition py_slice :: "pyval \<Rightarrow> int option \<Rightarrow> int option \<Rightarrow> pyexc + pyval" where
  "py_slice v lo hi =
     (case v of
        VList xs \<Rightarrow> Inr (VList (slice xs lo hi))
      | VTuple xs \<Rightarrow> Inr (VTuple (slice xs lo hi))
      | VStr s \<Rightarrow> Inr (VStr (slice s lo hi))
      | _ \<Rightarrow> Inl TypeError)"

text \<open>Values that can be elements of a set or keys of a dict: not lists, sets or dicts.\<close>

fun hashable :: "pyval \<Rightarrow> bool" where
  "hashable (VList xs) = False"
| "hashable (VSet xs) = False"
| "hashable (VDict kvs) = False"
| "hashable (VTuple xs) = list_all hashable xs"
| "hashable _ = True"

text \<open>The value of a key in the items of a dict.\<close>

fun dict_find :: "pyval \<Rightarrow> (pyval \<times> pyval) list \<Rightarrow> pyval option" where
  "dict_find k [] = None"
| "dict_find k (kv # kvs) = (if py_eq k (fst kv) then Some (snd kv) else dict_find k kvs)"

text \<open>\<open>c[k]\<close>: an element of a sequence by index, a value of a dict by key (\<open>KeyError\<close>).\<close>

definition py_getitem :: "pyval \<Rightarrow> pyval \<Rightarrow> pyexc + pyval" where
  "py_getitem c k =
     (case c of
        VList xs \<Rightarrow>
          (case int_of k of None \<Rightarrow> Inl TypeError
           | Some i \<Rightarrow> (case norm_index (length xs) i of Inl e \<Rightarrow> Inl e | Inr j \<Rightarrow> Inr (xs ! j)))
      | VTuple xs \<Rightarrow>
          (case int_of k of None \<Rightarrow> Inl TypeError
           | Some i \<Rightarrow> (case norm_index (length xs) i of Inl e \<Rightarrow> Inl e | Inr j \<Rightarrow> Inr (xs ! j)))
      | VStr s \<Rightarrow>
          (case int_of k of None \<Rightarrow> Inl TypeError
           | Some i \<Rightarrow> (case norm_index (length s) i of Inl e \<Rightarrow> Inl e | Inr j \<Rightarrow> Inr (VStr [s ! j])))
      | VDict kvs \<Rightarrow>
          if \<not> hashable k then Inl TypeError
          else (case dict_find k kvs of None \<Rightarrow> Inl KeyError | Some v \<Rightarrow> Inr v)
      | _ \<Rightarrow> Inl TypeError)"

text \<open>
  \<open>c[k] = v\<close>, as the new value of the container: an element of a list is replaced, an
  item of a dict is replaced in its place or added at the end.
\<close>

fun dict_put :: "pyval \<Rightarrow> pyval \<Rightarrow> (pyval \<times> pyval) list \<Rightarrow> (pyval \<times> pyval) list" where
  "dict_put k v [] = [(k, v)]"
| "dict_put k v (kv # kvs) =
     (if py_eq k (fst kv) then (fst kv, v) # kvs else kv # dict_put k v kvs)"

definition py_setitem :: "pyval \<Rightarrow> pyval \<Rightarrow> pyval \<Rightarrow> pyexc + pyval" where
  "py_setitem c k v =
     (case c of
        VList xs \<Rightarrow>
          (case int_of k of None \<Rightarrow> Inl TypeError
           | Some i \<Rightarrow> (case norm_index (length xs) i of Inl e \<Rightarrow> Inl e | Inr j \<Rightarrow> Inr (VList (xs[j := v]))))
      | VDict kvs \<Rightarrow> if \<not> hashable k then Inl TypeError else Inr (VDict (dict_put k v kvs))
      | _ \<Rightarrow> Inl TypeError)"

text \<open>\<open>del c[k]\<close>, as the new value of the container.\<close>

definition py_delitem :: "pyval \<Rightarrow> pyval \<Rightarrow> pyexc + pyval" where
  "py_delitem c k =
     (case c of
        VList xs \<Rightarrow>
          (case int_of k of None \<Rightarrow> Inl TypeError
           | Some i \<Rightarrow>
              (case norm_index (length xs) i of
                 Inl e \<Rightarrow> Inl e
               | Inr j \<Rightarrow> Inr (VList (take j xs @ drop (Suc j) xs))))
      | VDict kvs \<Rightarrow>
          if \<not> hashable k then Inl TypeError
          else (case dict_find k kvs of
                  None \<Rightarrow> Inl KeyError
                | Some v \<Rightarrow> Inr (VDict (filter (\<lambda>kv. \<not> py_eq k (fst kv)) kvs)))
      | _ \<Rightarrow> Inl TypeError)"

text \<open>\<open>len(c)\<close>.\<close>

definition py_len :: "pyval \<Rightarrow> pyexc + pyval" where
  "py_len c =
     (case c of
        VList xs \<Rightarrow> Inr (VInt (int (length xs)))
      | VTuple xs \<Rightarrow> Inr (VInt (int (length xs)))
      | VSet xs \<Rightarrow> Inr (VInt (int (length xs)))
      | VFrozenset xs \<Rightarrow> Inr (VInt (int (length xs)))
      | VDict kvs \<Rightarrow> Inr (VInt (int (length kvs)))
      | VStr s \<Rightarrow> Inr (VInt (int (length s)))
      | VBytes s \<Rightarrow> Inr (VInt (int (length s)))
      | _ \<Rightarrow> Inl TypeError)"

text \<open>
  The elements a \<open>for\<close> loop, \<open>list\<close>, \<open>set\<close> or \<open>sorted\<close> takes from a value: the elements of
  a sequence or set, the keys of a dict, the characters of a string.
\<close>

definition py_iter :: "pyval \<Rightarrow> pyexc + pyval list" where
  "py_iter c =
     (case c of
        VList xs \<Rightarrow> Inr xs
      | VTuple xs \<Rightarrow> Inr xs
      | VSet xs \<Rightarrow> Inr xs
      | VFrozenset xs \<Rightarrow> Inr xs
      | VDict kvs \<Rightarrow> Inr (map fst kvs)
      | VStr s \<Rightarrow> Inr (map (\<lambda>c. VStr [c]) s)
      | _ \<Rightarrow> Inl TypeError)"

definition iter_of :: "pyval py \<Rightarrow> pyval list py" where
  "iter_of e = op1 py_iter e"

text \<open>
  Statements on a container held by a module-level name: the container is read, changed,
  and the name bound to the changed container.
\<close>

definition update_name :: "string \<Rightarrow> (pyval \<Rightarrow> pyexc + pyval) \<Rightarrow> unit py" where
  "update_name x f = bnd (name x) (\<lambda>c. bnd (lift (f c)) (bind_name x))"

definition set_item :: "string \<Rightarrow> pyval py \<Rightarrow> pyval py \<Rightarrow> unit py" where
  "set_item x ek ev = bnd ev (\<lambda>v. bnd (name x) (\<lambda>c. bnd ek (\<lambda>k. bnd (lift (py_setitem c k v)) (bind_name x))))"

definition del_item :: "string \<Rightarrow> pyval py \<Rightarrow> unit py" where
  "del_item x ek = bnd (name x) (\<lambda>c. bnd ek (\<lambda>k. bnd (lift (py_delitem c k)) (bind_name x)))"

text \<open>\<open>x[k1][k2] = v\<close> and \<open>del x[k1][k2]\<close>: the inner container is changed inside the outer.\<close>

definition set_item2 :: "string \<Rightarrow> pyval py \<Rightarrow> pyval py \<Rightarrow> pyval py \<Rightarrow> unit py" where
  "set_item2 x ek1 ek2 ev =
     bnd ev (\<lambda>v. bnd (name x) (\<lambda>c. bnd ek1 (\<lambda>k1. bnd (lift (py_getitem c k1)) (\<lambda>inner.
       bnd ek2 (\<lambda>k2. bnd (lift (py_setitem inner k2 v)) (\<lambda>inner'.
         bnd (lift (py_setitem c k1 inner')) (bind_name x)))))))"

definition del_item2 :: "string \<Rightarrow> pyval py \<Rightarrow> pyval py \<Rightarrow> unit py" where
  "del_item2 x ek1 ek2 =
     bnd (name x) (\<lambda>c. bnd ek1 (\<lambda>k1. bnd (lift (py_getitem c k1)) (\<lambda>inner.
       bnd ek2 (\<lambda>k2. bnd (lift (py_delitem inner k2)) (\<lambda>inner'.
         bnd (lift (py_setitem c k1 inner')) (bind_name x))))))"

text \<open>Short forms of literals, subscripts and slices.\<close>

definition int_lit :: "int \<Rightarrow> pyval py" where
  "int_lit i = lit (VInt i)"

definition str_lit :: "string \<Rightarrow> pyval py" where
  "str_lit s = lit (VStr s)"

definition subscript :: "pyval py \<Rightarrow> pyval py \<Rightarrow> pyval py" where
  "subscript e k = op2 py_getitem e k"

definition slice_of :: "pyval py \<Rightarrow> int option \<Rightarrow> int option \<Rightarrow> pyval py" where
  "slice_of e lo hi = op1 (\<lambda>v. py_slice v lo hi) e"

definition len_of :: "pyval py \<Rightarrow> pyval py" where
  "len_of e = op1 py_len e"

text \<open>
  Methods of lists, dicts and sets. A method that changes its object gives the changed
  object; one that also returns a value gives the pair of the value and the object.
\<close>

fun remove_first :: "pyval \<Rightarrow> pyval list \<Rightarrow> pyval list" where
  "remove_first v [] = []"
| "remove_first v (x # xs) = (if py_eq v x then xs else x # remove_first v xs)"

definition method_append :: "pyval \<Rightarrow> pyval \<Rightarrow> pyexc + pyval" where
  "method_append c v = (case c of VList xs \<Rightarrow> Inr (VList (xs @ [v])) | _ \<Rightarrow> Inl AttributeError)"

text \<open>\<open>remove\<close>: the first equal element of a list (\<open>ValueError\<close> if none), the element of
  a set (\<open>KeyError\<close> if none).\<close>

definition method_remove :: "pyval \<Rightarrow> pyval \<Rightarrow> pyexc + pyval" where
  "method_remove c v =
     (case c of
        VList xs \<Rightarrow> if list_ex (py_eq v) xs then Inr (VList (remove_first v xs)) else Inl ValueError
      | VSet xs \<Rightarrow>
          if \<not> hashable v then Inl TypeError
          else if list_ex (py_eq v) xs then Inr (VSet (remove_first v xs)) else Inl KeyError
      | _ \<Rightarrow> Inl AttributeError)"

text \<open>\<open>pop(k)\<close>: the element of a list at an index, the value of a dict at a key.\<close>

definition method_pop :: "pyval \<Rightarrow> pyval \<Rightarrow> pyexc + pyval \<times> pyval" where
  "method_pop c k =
     (case c of
        VList xs \<Rightarrow>
          (case int_of k of None \<Rightarrow> Inl TypeError
           | Some i \<Rightarrow>
              (case norm_index (length xs) i of
                 Inl e \<Rightarrow> Inl e
               | Inr j \<Rightarrow> Inr (xs ! j, VList (take j xs @ drop (Suc j) xs))))
      | VDict kvs \<Rightarrow>
          if \<not> hashable k then Inl TypeError
          else (case dict_find k kvs of
                  None \<Rightarrow> Inl KeyError
                | Some v \<Rightarrow> Inr (v, VDict (filter (\<lambda>kv. \<not> py_eq k (fst kv)) kvs)))
      | _ \<Rightarrow> Inl AttributeError)"

text \<open>
  \<open>pop()\<close>: the last element of a list (\<open>IndexError\<close> if empty); some element of a set
  (\<open>KeyError\<close> if empty), here the first the model lists.
\<close>

definition method_pop0 :: "pyval \<Rightarrow> pyexc + pyval \<times> pyval" where
  "method_pop0 c =
     (case c of
        VList xs \<Rightarrow> if xs = [] then Inl IndexError else Inr (last xs, VList (butlast xs))
      | VSet xs \<Rightarrow> (case xs of [] \<Rightarrow> Inl KeyError | x # xs' \<Rightarrow> Inr (x, VSet xs'))
      | _ \<Rightarrow> Inl AttributeError)"

text \<open>\<open>popitem()\<close>: the item of a dict added last, as a pair (\<open>KeyError\<close> if empty).\<close>

definition method_popitem :: "pyval \<Rightarrow> pyexc + pyval \<times> pyval" where
  "method_popitem c =
     (case c of
        VDict kvs \<Rightarrow>
          if kvs = [] then Inl KeyError
          else Inr (VTuple [fst (last kvs), snd (last kvs)], VDict (butlast kvs))
      | _ \<Rightarrow> Inl AttributeError)"

definition method_clear :: "pyval \<Rightarrow> pyexc + pyval" where
  "method_clear c =
     (case c of
        VList xs \<Rightarrow> Inr (VList [])
      | VDict kvs \<Rightarrow> Inr (VDict [])
      | VSet xs \<Rightarrow> Inr (VSet [])
      | _ \<Rightarrow> Inl AttributeError)"

text \<open>\<open>d.get(k)\<close>: the value at the key, or \<open>None\<close>.\<close>

definition method_get :: "pyval \<Rightarrow> pyval \<Rightarrow> pyexc + pyval" where
  "method_get c k =
     (case c of
        VDict kvs \<Rightarrow>
          if \<not> hashable k then Inl TypeError
          else (case dict_find k kvs of None \<Rightarrow> Inr VNone | Some v \<Rightarrow> Inr v)
      | _ \<Rightarrow> Inl AttributeError)"

text \<open>A method call on the object of a name that changes the object, without and with a result.\<close>

definition call_update :: "string \<Rightarrow> (pyval \<Rightarrow> pyexc + pyval) \<Rightarrow> unit py" where
  "call_update x f = update_name x f"

definition call_result :: "string \<Rightarrow> (pyval \<Rightarrow> pyexc + pyval \<times> pyval) \<Rightarrow> pyval py" where
  "call_result x f =
     bnd (name x) (\<lambda>c. bnd (lift (f c)) (\<lambda>rc. then_py (bind_name x (snd rc)) (ret (fst rc))))"

section \<open>Arrays (array_imple3.py)\<close>

definition array_imple3 :: "unit py" where
  "array_imple3 = block [
     assign ''arr'' (lit (VList [VInt 10, VInt 20, VInt 30, VInt 40, VInt 50])),
     print [name ''arr''],
     print [subscript (name ''arr'') (int_lit 0), subscript (name ''arr'') (int_lit 1),
            subscript (name ''arr'') (int_lit 2), subscript (name ''arr'') (int_lit (- 1)),
            subscript (name ''arr'') (int_lit (- 2))],
     assign ''brands'' (lit (VList [VStr ''Coke'', VStr ''Apple'', VStr ''Google'',
                                    VStr ''Microsoft'', VStr ''Toyota''])),
     assign ''brands_length'' (len_of (name ''brands'')),
     print [name ''brands_length''],
     call_update ''brands'' (\<lambda>c. method_append c (VStr ''Intel'')),
     print [name ''brands''],
     del_item ''brands'' (int_lit 0),
     print [name ''brands''],
     call_update ''brands'' (\<lambda>c. method_remove c (VStr ''Intel'')),
     print [name ''brands''],
     expr_stmt (call_result ''brands'' (\<lambda>c. method_pop c (VInt 3))),
     print [name ''brands''],
     set_item ''brands'' (int_lit 0) (str_lit ''banana''),
     set_item ''brands'' (int_lit (- 1)) (str_lit ''mango''),
     print [name ''brands''],
     assign ''concat'' (lit (VList [VInt 1, VInt 2, VInt 3])),
     assign ''concat'' (op2 py_add (name ''concat'') (lit (VList [VInt 4, VInt 5, VInt 6]))),
     print [name ''concat''],
     assign ''repeat'' (lit (VList [VStr ''a''])),
     assign ''repeat'' (op2 py_mul (name ''repeat'') (int_lit 5)),
     print [name ''repeat''],
     assign ''fruits'' (lit (VList [VStr ''Apple'', VStr ''Banana'', VStr ''Mango'',
                                    VStr ''Grapes'', VStr ''Orange''])),
     print [slice_of (name ''fruits'') (Some 1) (Some 4)],
     print [slice_of (name ''fruits'') None (Some 3)],
     print [slice_of (name ''fruits'') (Some (- 4)) None],
     print [slice_of (name ''fruits'') (Some (- 3)) (Some (- 1))],
     assign ''multd'' (lit (VList [VList [VInt 1, VInt 2], VList [VInt 3, VInt 4],
                                   VList [VInt 5, VInt 6], VList [VInt 7, VInt 8]])),
     print [name ''multd''],
     print [subscript (name ''multd'') (int_lit 0)],
     print [subscript (name ''multd'') (int_lit 3)],
     print [subscript (subscript (name ''multd'') (int_lit 3)) (int_lit 1)],
     print [subscript (subscript (name ''multd'') (int_lit 2)) (int_lit 0)]]"

section \<open>Classes and objects\<close>

text \<open>
  A script has a table of its classes, each with its method resolution order (itself
  first) and its class attributes, and a table of the methods the classes define. A
  method takes the object and the arguments and gives its result together with the
  object, which it may have changed.
\<close>

type_synonym hierarchy = "(string \<times> string list \<times> (string \<times> pyval) list) list"

type_synonym pymethod = "pyval \<Rightarrow> pyval list \<Rightarrow> (pyval \<times> pyval) py"

type_synonym pymethods = "((string \<times> string) \<times> pymethod) list"

definition mro_of :: "hierarchy \<Rightarrow> string \<Rightarrow> string list" where
  "mro_of h c = (case map_of h c of None \<Rightarrow> [] | Some d \<Rightarrow> fst d)"

text \<open>The first class of a resolution order that defines the method.\<close>

fun find_in_mro :: "pymethods \<Rightarrow> string list \<Rightarrow> string \<Rightarrow> pymethod option" where
  "find_in_mro ms [] m = None"
| "find_in_mro ms (c # rest) m =
     (case map_of ms (c, m) of
        None \<Rightarrow> find_in_mro ms rest m
      | Some f \<Rightarrow> Some f)"

text \<open>\<open>obj.m(args)\<close>: the method is looked up in the classes of the object.\<close>

definition invoke :: "hierarchy \<Rightarrow> pymethods \<Rightarrow> pyval \<Rightarrow> string \<Rightarrow> pyval list \<Rightarrow> (pyval \<times> pyval) py" where
  "invoke h ms obj m args =
     (case obj of
        VObject c attrs \<Rightarrow>
          (case find_in_mro ms (mro_of h c) m of
             None \<Rightarrow> raise AttributeError
           | Some f \<Rightarrow> f obj args)
      | _ \<Rightarrow> raise AttributeError)"

text \<open>
  \<open>super().m(args)\<close> in a method of class \<open>c\<close>: the lookup starts after \<open>c\<close>; the end of
  every order is \<open>object\<close>, whose \<open>__init__\<close> takes no argument and does nothing.
\<close>

definition invoke_super ::
    "hierarchy \<Rightarrow> pymethods \<Rightarrow> string \<Rightarrow> pyval \<Rightarrow> string \<Rightarrow> pyval list \<Rightarrow> (pyval \<times> pyval) py" where
  "invoke_super h ms c obj m args =
     (case obj of
        VObject c0 attrs \<Rightarrow>
          (case find_in_mro ms (drop 1 (dropWhile (\<lambda>k. k \<noteq> c) (mro_of h c0))) m of
             None \<Rightarrow>
               if m = ''__init__'' then (if args = [] then ret (VNone, obj) else raise TypeError)
               else raise AttributeError
           | Some f \<Rightarrow> f obj args)
      | _ \<Rightarrow> raise AttributeError)"

text \<open>
  \<open>C(args)\<close>: a new object of the class, initialised by \<open>__init__\<close> where a class of the
  resolution order defines it; without one the class takes no arguments.
\<close>

definition construct :: "hierarchy \<Rightarrow> pymethods \<Rightarrow> string \<Rightarrow> pyval list \<Rightarrow> pyval py" where
  "construct h ms c args =
     (case find_in_mro ms (mro_of h c) ''__init__'' of
        None \<Rightarrow> if args = [] then ret (VObject c []) else raise TypeError
      | Some f \<Rightarrow> bnd (f (VObject c []) args) (\<lambda>r. ret (snd r)))"

text \<open>A method call on the object of a module-level name.\<close>

definition call_method :: "hierarchy \<Rightarrow> pymethods \<Rightarrow> string \<Rightarrow> string \<Rightarrow> pyval list \<Rightarrow> pyval py" where
  "call_method h ms x m args =
     bnd (name x) (\<lambda>obj. bnd (invoke h ms obj m args) (\<lambda>r.
       then_py (bind_name x (snd r)) (ret (fst r))))"

text \<open>\<open>obj.a\<close>: an attribute of the object itself, else of its classes.\<close>

fun find_attr :: "hierarchy \<Rightarrow> string list \<Rightarrow> string \<Rightarrow> pyval option" where
  "find_attr h [] a = None"
| "find_attr h (c # rest) a =
     (case map_of h c of
        None \<Rightarrow> find_attr h rest a
      | Some d \<Rightarrow>
          (case map_of (snd d) a of
             None \<Rightarrow> find_attr h rest a
           | Some v \<Rightarrow> Some v))"

definition py_getattr :: "hierarchy \<Rightarrow> pyval \<Rightarrow> string \<Rightarrow> pyexc + pyval" where
  "py_getattr h obj a =
     (case obj of
        VObject c attrs \<Rightarrow>
          if a = ''__class__'' then Inr (VType c)
          else
            (case map_of attrs a of
               Some v \<Rightarrow> Inr v
             | None \<Rightarrow>
                 (case find_attr h (mro_of h c) a of None \<Rightarrow> Inl AttributeError | Some v \<Rightarrow> Inr v))
      | VType c \<Rightarrow>
          (case find_attr h (mro_of h c) a of None \<Rightarrow> Inl AttributeError | Some v \<Rightarrow> Inr v)
      | _ \<Rightarrow> Inl AttributeError)"

definition attr :: "hierarchy \<Rightarrow> pyval py \<Rightarrow> string \<Rightarrow> pyval py" where
  "attr h e a = op1 (\<lambda>obj. py_getattr h obj a) e"

text \<open>\<open>obj.a = v\<close> as the changed object.\<close>

fun put_attr :: "string \<Rightarrow> pyval \<Rightarrow> (string \<times> pyval) list \<Rightarrow> (string \<times> pyval) list" where
  "put_attr a v [] = [(a, v)]"
| "put_attr a v (kv # kvs) = (if fst kv = a then (a, v) # kvs else kv # put_attr a v kvs)"

definition py_setattr :: "pyval \<Rightarrow> string \<Rightarrow> pyval \<Rightarrow> pyexc + pyval" where
  "py_setattr obj a v =
     (case obj of
        VObject c attrs \<Rightarrow> Inr (VObject c (put_attr a v attrs))
      | _ \<Rightarrow> Inl AttributeError)"

definition set_attr :: "string \<Rightarrow> string \<Rightarrow> pyval py \<Rightarrow> unit py" where
  "set_attr x a ev = bnd ev (\<lambda>v. update_name x (\<lambda>obj. py_setattr obj a v))"

text \<open>A method without parameters that returns nothing and leaves the object as it is.\<close>

definition plain_method :: "unit py \<Rightarrow> pymethod" where
  "plain_method m = (\<lambda>self args. if args = [] then then_py m (ret (VNone, self)) else raise TypeError)"

section \<open>A class with a constructor (example2.py)\<close>

definition example2_classes :: hierarchy where
  "example2_classes = [(''MyComplexNumber'', [''MyComplexNumber''], [])]"

definition MyComplexNumber_init :: pymethod where
  "MyComplexNumber_init self args =
     (case args of
        [real', imag] \<Rightarrow>
          then_py (print [str_lit ''My Complex Number Constructor Executing...''])
            (bnd (lift (py_setattr self ''real_part'' real')) (\<lambda>self.
             bnd (lift (py_setattr self ''imag_part'' imag)) (\<lambda>self.
             ret (VNone, self))))
      | _ \<Rightarrow> raise TypeError)"

definition MyComplexNumber_displayComplex :: pymethod where
  "MyComplexNumber_displayComplex =
     (\<lambda>self args.
        if args = [] then
          then_py (print [format ''{0} + {1}j''
                            [lift (py_getattr example2_classes self ''real_part''),
                             lift (py_getattr example2_classes self ''imag_part'')]])
            (ret (VNone, self))
        else raise TypeError)"

definition example2_methods :: pymethods where
  "example2_methods =
     [((''MyComplexNumber'', ''__init__''), MyComplexNumber_init),
      ((''MyComplexNumber'', ''displayComplex''), MyComplexNumber_displayComplex)]"

definition example2 :: "unit py" where
  "example2 = block [
     assign ''cmplx1'' (construct example2_classes example2_methods ''MyComplexNumber'' [VInt 40, VInt 50]),
     expr_stmt (call_method example2_classes example2_methods ''cmplx1'' ''displayComplex'' []),
     assign ''cmplx2'' (construct example2_classes example2_methods ''MyComplexNumber'' [VInt 10, VInt 20]),
     set_attr ''cmplx2'' ''my_property'' (int_lit 30),
     print [name ''cmplx2'',
            attr example2_classes (name ''cmplx2'') ''real_part'',
            attr example2_classes (name ''cmplx2'') ''my_property'']]"

section \<open>Multiple inheritance (multiple_inheritance20.py)\<close>

definition multiple_inheritance20_classes :: hierarchy where
  "multiple_inheritance20_classes =
     [(''Base1'', [''Base1''], []),
      (''Base2'', [''Base2''], []),
      (''Base3'', [''Base3''], []),
      (''MultiDerived'', [''MultiDerived'', ''Base1'', ''Base2'', ''Base3''], [])]"

definition Base1_fun1 :: pymethod where
  "Base1_fun1 = plain_method (print [str_lit ''Fun1 is executing...''])"

definition Base2_fun2 :: pymethod where
  "Base2_fun2 = plain_method (print [str_lit ''Fun2 in executing...''])"

definition Base3_fun3 :: pymethod where
  "Base3_fun3 = plain_method (print [str_lit ''Fun3 is executing...''])"

definition MultiDerived_multiDerived :: pymethod where
  "MultiDerived_multiDerived = plain_method (print [str_lit ''multiDerived function is executing...''])"

definition multiple_inheritance20_methods :: pymethods where
  "multiple_inheritance20_methods =
     [((''Base1'', ''fun1''), Base1_fun1),
      ((''Base2'', ''fun2''), Base2_fun2),
      ((''Base3'', ''fun3''), Base3_fun3),
      ((''MultiDerived'', ''multiDerived''), MultiDerived_multiDerived)]"

definition multiple_inheritance20 :: "unit py" where
  "multiple_inheritance20 = block [
     assign ''md1'' (construct multiple_inheritance20_classes multiple_inheritance20_methods ''MultiDerived'' []),
     expr_stmt (call_method multiple_inheritance20_classes multiple_inheritance20_methods ''md1'' ''multiDerived'' []),
     expr_stmt (call_method multiple_inheritance20_classes multiple_inheritance20_methods ''md1'' ''fun1'' []),
     expr_stmt (call_method multiple_inheritance20_classes multiple_inheritance20_methods ''md1'' ''fun2'' []),
     expr_stmt (call_method multiple_inheritance20_classes multiple_inheritance20_methods ''md1'' ''fun3'' [])]"

section \<open>Inheritance and polymorphism (example19.py)\<close>

definition example19_classes :: hierarchy where
  "example19_classes =
     [(''myBird'', [''myBird''], []),
      (''myPenguin'', [''myPenguin'', ''myBird''], []),
      (''MyParrot'', [''MyParrot''], []),
      (''MyPenguin'', [''MyPenguin''], [])]"

definition myBird_init :: pymethod where
  "myBird_init = plain_method (print [str_lit ''myBird class constructor is executing...''])"

definition myBird_whatType :: pymethod where
  "myBird_whatType = plain_method (print [str_lit ''I am a Bird...''])"

definition myBird_canSwim :: pymethod where
  "myBird_canSwim = plain_method (print [str_lit ''I can Swim...''])"

definition myBird_methods :: pymethods where
  "myBird_methods =
     [((''myBird'', ''__init__''), myBird_init),
      ((''myBird'', ''whatType''), myBird_whatType),
      ((''myBird'', ''canSwim''), myBird_canSwim)]"

definition myPenguin_init :: pymethod where
  "myPenguin_init =
     (\<lambda>self args.
        if args = [] then
          bnd (invoke_super example19_classes myBird_methods ''myPenguin'' self ''__init__'' []) (\<lambda>r.
            then_py (print [str_lit ''myPenguin class constructor is executing...''])
              (ret (VNone, snd r)))
        else raise TypeError)"

definition myPenguin_whoisThis :: pymethod where
  "myPenguin_whoisThis = plain_method (print [str_lit ''I am Penguin...''])"

definition myPenguin_canRun :: pymethod where
  "myPenguin_canRun = plain_method (print [str_lit ''I can run faster...''])"

definition MyParrot_canFly :: pymethod where
  "MyParrot_canFly = plain_method (print [str_lit ''Parrot can fly...''])"

definition MyParrot_canSwim :: pymethod where
  "MyParrot_canSwim = plain_method (print [str_lit ''Parrot Cannot Swim...''])"

definition MyPenguin_canFly :: pymethod where
  "MyPenguin_canFly = plain_method (print [str_lit ''Penguin cannot fly...''])"

definition MyPenguin_canSwim :: pymethod where
  "MyPenguin_canSwim = plain_method (print [str_lit ''Penguin can swim...''])"

definition example19_methods :: pymethods where
  "example19_methods =
     myBird_methods @
     [((''myPenguin'', ''__init__''), myPenguin_init),
      ((''myPenguin'', ''whoisThis''), myPenguin_whoisThis),
      ((''myPenguin'', ''canRun''), myPenguin_canRun),
      ((''MyParrot'', ''canFly''), MyParrot_canFly),
      ((''MyParrot'', ''canSwim''), MyParrot_canSwim),
      ((''MyPenguin'', ''canFly''), MyPenguin_canFly),
      ((''MyPenguin'', ''canSwim''), MyPenguin_canSwim)]"

definition flying_bird_test :: "pyval \<Rightarrow> unit py" where
  "flying_bird_test bird =
     bnd (invoke example19_classes example19_methods bird ''canFly'' []) (\<lambda>r.
     bnd (invoke example19_classes example19_methods (snd r) ''canSwim'' []) (\<lambda>r.
     ret ()))"

definition example19 :: "unit py" where
  "example19 = block [
     assign ''pg1'' (construct example19_classes example19_methods ''myPenguin'' []),
     expr_stmt (call_method example19_classes example19_methods ''pg1'' ''canRun'' []),
     expr_stmt (call_method example19_classes example19_methods ''pg1'' ''canSwim'' []),
     expr_stmt (call_method example19_classes example19_methods ''pg1'' ''whatType'' []),
     expr_stmt (call_method example19_classes example19_methods ''pg1'' ''whoisThis'' []),
     assign ''bird_parrot'' (construct example19_classes example19_methods ''MyParrot'' []),
     assign ''bird_penguin'' (construct example19_classes example19_methods ''MyPenguin'' []),
     bnd (name ''bird_parrot'') flying_bird_test,
     bnd (name ''bird_penguin'') flying_bird_test]"

section \<open>Class and instance attributes, encapsulation (example28.py)\<close>

text \<open>
  The class \<open>myBird\<close> of this script is that of \<open>example19.py\<close>, word for word; its
  \<open>myPenguin\<close> differs and carries the suffix 28.
\<close>

definition example28_classes :: hierarchy where
  "example28_classes =
     [(''myBird'', [''myBird''], []),
      (''myParrot'', [''myParrot''], [(''species'', VStr ''bird'')]),
      (''myPenguin'', [''myPenguin'', ''myBird''], []),
      (''personalComputer'', [''personalComputer''], [])]"

definition myParrot_init :: pymethod where
  "myParrot_init self args =
     (case args of
        [name', age] \<Rightarrow>
          then_py (print [str_lit ''myParrot class constructor is executing...''])
            (bnd (lift (py_setattr self ''name'' name')) (\<lambda>self.
             bnd (lift (py_setattr self ''age'' age)) (\<lambda>self.
             ret (VNone, self))))
      | _ \<Rightarrow> raise TypeError)"

definition myParrot_canSing :: pymethod where
  "myParrot_canSing self args =
     (case args of
        [thisSong] \<Rightarrow>
          bnd (format ''{} can sing {}'' [lift (py_getattr example28_classes self ''name''), lit thisSong])
            (\<lambda>s. ret (s, self))
      | _ \<Rightarrow> raise TypeError)"

definition myPenguin28_init :: pymethod where
  "myPenguin28_init =
     (\<lambda>self args.
        if args = [] then
          bnd (invoke_super example28_classes myBird_methods ''myPenguin'' self ''__init__'' []) (\<lambda>r.
            then_py (print [str_lit ''Penguin is ready''])
              (ret (VNone, snd r)))
        else raise TypeError)"

definition myPenguin28_whoIsThis :: pymethod where
  "myPenguin28_whoIsThis = plain_method (print [str_lit ''I am Penguin.''])"

definition myPenguin28_canRun :: pymethod where
  "myPenguin28_canRun = plain_method (print [str_lit ''I can run faster.''])"

definition personalComputer_init :: pymethod where
  "personalComputer_init =
     (\<lambda>self args.
        if args = [] then
          bnd (lift (py_setattr self ''maxComputerPrice'' (VInt 20000))) (\<lambda>self. ret (VNone, self))
        else raise TypeError)"

definition personalComputer_mySell :: pymethod where
  "personalComputer_mySell =
     (\<lambda>self args.
        if args = [] then
          then_py (print [format ''selling price: {}''
                            [lift (py_getattr example28_classes self ''maxComputerPrice'')]])
            (ret (VNone, self))
        else raise TypeError)"

definition personalComputer_setMaxComputerPrice :: pymethod where
  "personalComputer_setMaxComputerPrice self args =
     (case args of
        [price] \<Rightarrow> bnd (lift (py_setattr self ''maxComputerPrice'' price)) (\<lambda>self. ret (VNone, self))
      | _ \<Rightarrow> raise TypeError)"

definition example28_methods :: pymethods where
  "example28_methods =
     myBird_methods @
     [((''myParrot'', ''__init__''), myParrot_init),
      ((''myParrot'', ''canSing''), myParrot_canSing),
      ((''myPenguin'', ''__init__''), myPenguin28_init),
      ((''myPenguin'', ''whoIsThis''), myPenguin28_whoIsThis),
      ((''myPenguin'', ''canRun''), myPenguin28_canRun),
      ((''personalComputer'', ''__init__''), personalComputer_init),
      ((''personalComputer'', ''mySell''), personalComputer_mySell),
      ((''personalComputer'', ''setMaxComputerPrice''), personalComputer_setMaxComputerPrice)]"

definition example28 :: "unit py" where
  "example28 = block [
     assign ''mp1'' (construct example28_classes example28_methods ''myParrot'' [VStr ''MyParrpt1'', VInt 10]),
     assign ''mp2'' (construct example28_classes example28_methods ''myParrot'' [VStr ''MyParrot2'', VInt 12]),
     print [format ''mp1 is {}''
              [attr example28_classes (attr example28_classes (name ''mp1'') ''__class__'') ''species'']],
     print [format ''mp2 is also a {}''
              [attr example28_classes (attr example28_classes (name ''mp2'') ''__class__'') ''species'']],
     print [format ''{} is {} years of age''
              [attr example28_classes (name ''mp1'') ''name'', attr example28_classes (name ''mp1'') ''age'']],
     print [format ''{} is {} years of age''
              [attr example28_classes (name ''mp2'') ''name'', attr example28_classes (name ''mp2'') ''age'']],
     print [call_method example28_classes example28_methods ''mp1'' ''canSing'' [VStr ''chirp'']],
     assign ''pg1'' (construct example28_classes example28_methods ''myPenguin'' []),
     expr_stmt (call_method example28_classes example28_methods ''pg1'' ''whoIsThis'' []),
     expr_stmt (call_method example28_classes example28_methods ''pg1'' ''canSwim'' []),
     expr_stmt (call_method example28_classes example28_methods ''pg1'' ''canRun'' []),
     assign ''pc'' (construct example28_classes example28_methods ''personalComputer'' []),
     expr_stmt (call_method example28_classes example28_methods ''pc'' ''mySell'' []),
     set_attr ''pc'' ''maxComputerPrice'' (int_lit 30000),
     expr_stmt (call_method example28_classes example28_methods ''pc'' ''mySell'' []),
     expr_stmt (call_method example28_classes example28_methods ''pc'' ''setMaxComputerPrice'' [VInt 40000]),
     expr_stmt (call_method example28_classes example28_methods ''pc'' ''mySell'' [])]"

section \<open>Types of values\<close>

fun type_name :: "pyval \<Rightarrow> string" where
  "type_name VNone = ''NoneType''"
| "type_name (VBool b) = ''bool''"
| "type_name (VInt i) = ''int''"
| "type_name (VFloat r) = ''float''"
| "type_name (VComplex z) = ''complex''"
| "type_name (VStr s) = ''str''"
| "type_name (VBytes s) = ''bytes''"
| "type_name (VList xs) = ''list''"
| "type_name (VTuple xs) = ''tuple''"
| "type_name (VSet xs) = ''set''"
| "type_name (VFrozenset xs) = ''frozenset''"
| "type_name (VDict kvs) = ''dict''"
| "type_name (VType c) = ''type''"
| "type_name (VDecimal c e) = ''Decimal''"
| "type_name (VFraction q) = ''Fraction''"
| "type_name (VObject c attrs) = c"
| "type_name (VFormat t args kwargs) = ''str''"
| "type_name (VModule m) = ''module''"
| "type_name (VFunction f) = ''function''"

definition type_of :: "pyval py \<Rightarrow> pyval py" where
  "type_of e = bnd e (\<lambda>v. ret (VType (type_name v)))"

text \<open>
  \<open>isinstance(x, cls)\<close> for the built-in classes \<open>int\<close>, \<open>float\<close> and \<open>complex\<close>: a
  \<open>bool\<close> is an \<open>int\<close>.
\<close>

definition isinstance :: "pyval py \<Rightarrow> string \<Rightarrow> pyval py" where
  "isinstance e cls =
     bnd e (\<lambda>v. ret (VBool (type_name v = cls \<or> (cls = ''int'' \<and> type_name v = ''bool''))))"

text \<open>\<open>id(x)\<close>: the address the world gives the object.\<close>

definition id_of :: "pyval py \<Rightarrow> pyval py" where
  "id_of e = bnd e (\<lambda>v w. Some (Inr (VInt (int (address w v))), w))"

section \<open>Type conversion (example12.py)\<close>

definition example12 :: "unit py" where
  "example12 = block [
     assign ''num_int'' (int_lit 123),
     assign ''num_float'' (lit (VFloat 1.23)),
     assign ''new_num'' (op2 py_add (name ''num_int'') (name ''num_float'')),
     print [str_lit ''Interger Number:'', name ''num_int'', str_lit ''Type:'', type_of (name ''num_int'')],
     print [str_lit ''Float Number:'', name ''num_float'', str_lit ''Type:'', type_of (name ''num_float'')],
     print [str_lit ''Added New Number:'', name ''new_num'', str_lit ''Type:'', type_of (name ''new_num'')],
     assign ''num_int1'' (int_lit 123),
     assign ''num_str1'' (str_lit ''123''),
     print [str_lit ''Integer data type:'', name ''num_int1'', str_lit ''Type:'', type_of (name ''num_int1'')],
     print [str_lit ''String data type:'', name ''num_str1'', str_lit ''Type:'', type_of (name ''num_str1'')],
     assign ''num_str1'' (op1 py_int (name ''num_str1'')),
     print [str_lit ''Data type of the string after Type casting'', type_of (name ''num_str1'')],
     assign ''num_sum'' (op2 py_add (name ''num_int1'') (name ''num_str1'')),
     print [str_lit ''Sum of num_str1 & num_int1:'', name ''num_sum'', str_lit ''Type:'', type_of (name ''num_sum'')]]"

section \<open>Names and scope (example14.py, example16.py, global_local_nonlocal15.py)\<close>

text \<open>
  Both functions of \<open>example14.py\<close> declare \<open>a\<close> global: they assign and read the
  module's variable.
\<close>

definition outer_func14_inner_func :: "unit py" where
  "outer_func14_inner_func = block [
     assign ''a'' (int_lit 30),
     print [str_lit ''a value:'', name ''a'']]"

definition outer_func14 :: "unit py" where
  "outer_func14 = block [
     assign ''a'' (int_lit 20),
     outer_func14_inner_func,
     print [str_lit ''a value:'', name ''a'']]"

definition example14 :: "unit py" where
  "example14 = block [
     assign ''a'' (int_lit 2),
     print [str_lit ''id(2)'', id_of (int_lit 2)],
     print [str_lit ''id(a)'', id_of (name ''a'')],
     assign ''a'' (int_lit 2),
     print [id_of (name ''a'')],
     assign ''a'' (op2 py_add (name ''a'') (int_lit 1)),
     print [id_of (name ''a'')],
     print [id_of (int_lit 3)],
     assign ''b'' (int_lit 2),
     print [id_of (int_lit 2)],
     print [id_of (name ''b'')],
     assign ''a'' (int_lit 10),
     print [name ''a''],
     outer_func14,
     print [name ''a'']]"

text \<open>
  In \<open>example16.py\<close>, \<open>func1\<close> has a local \<open>x\<close>; \<open>func2\<close> declares \<open>x\<close> global and assigns
  the module's variable, which \<open>func1\<close> does not read.
\<close>

definition func1_func2 :: "unit py" where
  "func1_func2 = assign ''x'' (int_lit 25)"

definition func1 :: "unit py" where
  "func1 =
     (let x = VInt 20
      in block [
           print [str_lit ''Before calling function2:'', lit x],
           print [str_lit ''Calling func2 now...''],
           func1_func2,
           print [str_lit ''After calling func2:'', lit x]])"

definition example16 :: "unit py" where
  "example16 = block [
     func1,
     print [str_lit ''Global x'', name ''x'']]"

text \<open>\<open>funct1\<close> declares \<open>x\<close> global; \<open>y\<close> is its local.\<close>

definition funct1 :: "unit py" where
  "funct1 =
     (let y = VStr ''local''
      in block [
           assign ''x'' (op2 py_mul (name ''x'') (int_lit 2)),
           print [name ''x''],
           print [lit y]])"

text \<open>\<open>func2\<close> assigns a local \<open>a\<close>.\<close>

definition func2 :: "unit py" where
  "func2 =
     (let a = VInt 10
      in print [str_lit ''Local variable a:'', lit a])"

text \<open>\<open>inner\<close> assigns the variable \<open>b\<close> of \<open>outer\<close> (\<open>nonlocal\<close>) and returns its new value.\<close>

definition outer_inner :: "pyval \<Rightarrow> pyval py" where
  "outer_inner b0 =
     (let b = VStr ''nonlocal''
      in then_py (print [str_lit ''Inner b:'', lit b]) (ret b))"

definition outer :: "unit py" where
  "outer =
     (let b = VStr ''local''
      in then_py (print [str_lit ''Outer b:'', lit b])
           (bnd (outer_inner b) (\<lambda>b.
              print [str_lit ''Outer b:'', lit b])))"

definition global_local_nonlocal15 :: "unit py" where
  "global_local_nonlocal15 = block [
     assign ''x'' (str_lit ''global''),
     print [str_lit ''Global x:'', name ''x''],
     funct1,
     print [str_lit ''Global x after funct1 invocation:'', name ''x''],
     assign ''a'' (int_lit 5),
     print [str_lit ''Global a:'', name ''a''],
     func2,
     print [str_lit ''Global a:'', name ''a''],
     outer]"

section \<open>Statements and comments (statements_and_comments31.py)\<close>

definition statements_and_comments31 :: "unit py" where
  "statements_and_comments31 = block [
     expr_stmt (str_lit (CHR 0x0A # ''Multi-line comments'' @ CHR 0x0A # ''can also be written like this''
                          @ [CHR 0x0A])),
     assign ''a'' (int_lit 1),
     assign ''b'' (op2 py_add (op2 py_add (op2 py_add (op2 py_add (op2 py_add
                     (int_lit 1) (int_lit 2)) (int_lit 3)) (int_lit 4)) (int_lit 5)) (int_lit 6)),
     assign ''c'' (op2 py_add (op2 py_add (op2 py_add (op2 py_add (op2 py_add
                     (int_lit 1) (int_lit 2)) (int_lit 3)) (int_lit 4)) (int_lit 5)) (int_lit 6)),
     assign ''d'' (int_lit 2),
     assign ''e'' (int_lit 1),
     assign ''f'' (int_lit 0),
     for_in ''i'' (py_range 1 10) (loop_body [
       stmt (print [name ''i'']),
       if_flow (eq_py (name ''i'') (int_lit 5)) break_loop]),
     print [str_lit ''End of the program...'']]"

section \<open>Functions and arguments (example21.py)\<close>

definition findMax :: "pyval \<Rightarrow> pyval \<Rightarrow> pyval py" where
  "findMax a b = if_else (lift (py_gt a b)) (ret a) (ret b)"

text \<open>The default of a parameter is the argument of a call that leaves it out.\<close>

definition hello_msg :: pyval where
  "hello_msg = VStr '', how are you?''"

definition hello :: "pyval \<Rightarrow> pyval \<Rightarrow> unit py" where
  "hello name' msg = print [str_lit ''Hello'', lit name', lit msg]"

text \<open>The loop of \<open>sumAll\<close> over its arguments, with the local \<open>sum\<close> (here \<open>sum_acc\<close>).\<close>

fun sumAll_loop :: "pyval list \<Rightarrow> pyval \<Rightarrow> pyexc + pyval" where
  "sumAll_loop [] sum_acc = Inr sum_acc"
| "sumAll_loop (i # args) sum_acc =
     (case py_add sum_acc i of Inl e \<Rightarrow> Inl e | Inr s \<Rightarrow> sumAll_loop args s)"

definition sumAll :: "pyval list \<Rightarrow> pyval py" where
  "sumAll args = (let sum_acc = VInt 0 in lift (sumAll_loop args sum_acc))"

definition defaultArg :: "pyval \<Rightarrow> pyval \<Rightarrow> pyval \<Rightarrow> unit py" where
  "defaultArg a b c = print [format ''a = {}, b = {}, c = {}...'' [lit a, lit b, lit c]]"

definition example21 :: "unit py" where
  "example21 = block [
     print [str_lit ''Max of 10 and 20 is:'', findMax (VInt 10) (VInt 20)],
     hello (VStr ''srinu'') (VStr '', What's up?''),
     hello (VStr ''stranger'') hello_msg,
     print [str_lit ''Sum of all Integers between 1 and 5 is:'',
            sumAll [VInt 1, VInt 2, VInt 3, VInt 4, VInt 5]],
     defaultArg (VInt 10) (VInt 20) (VInt 30),
     defaultArg (VInt 10) (VInt 20) (VInt 0),
     defaultArg (VInt 10) (VInt 0) (VInt 0),
     defaultArg (VInt 0) (VInt 0) (VInt 0),
     defaultArg (VInt 111) (VInt 222) (VInt 333)]"

section \<open>The scripts of the decorators, generators and iterators\<close>

text \<open>
  \<open>decorators34.py\<close>: the decorated \<open>simple_func\<close> is called twice, once as \<open>decor\<close> and
  once under its own name after \<open>@make_decorated\<close>; then \<open>go_divide(20, 2)\<close> is printed.
\<close>

definition decorators34 :: "unit py" where
  "decorators34 = block [
     make_decorated simple_func,
     make_decorated simple_func,
     print [str_lit ''20/2'', go_divide (VInt 20) (VInt 2)]]"

text \<open>\<open>next(g)\<close> in a script: the value, and the generator as it is afterwards.\<close>

definition next_of :: "('g, 'a) gen_next \<Rightarrow> 'g \<Rightarrow> ('a \<times> 'g) py" where
  "next_of nxt g = (\<lambda>w. case nxt g w of
       (Inl e, g', w') \<Rightarrow> Some (Inl e, w')
     | (Inr v, g', w') \<Rightarrow> Some (Inr (v, g'), w'))"

definition example33 :: "unit py" where
  "example33 =
     bnd (ret my_generator) (\<lambda>a.
     bnd (next_of my_generator_next a) (\<lambda>r.
     bnd (next_of my_generator_next (snd r)) (\<lambda>r.
     bnd (next_of my_generator_next (snd r)) (\<lambda>r.
     block [
       print [str_lit ''Using for loop...''],
       for_gen my_generator_next
         (\<lambda>item. then_py (bind_name ''item'' (VInt item)) (print [name ''item'']))
         my_generator,
       for_gen reverse_string_next
         (\<lambda>char. then_py (bind_name ''char'' (VStr char)) (print [name ''char'']))
         (reverse_string ''World'')]))))"

text \<open>
  The iterator of a list: the list and the position of the next element; at the end
  \<open>next\<close> raises \<open>StopIteration\<close>.
\<close>

definition list_iter :: "pyval list \<Rightarrow> pyval list \<times> nat" where
  "list_iter xs = (xs, 0)"

definition list_iter_next :: "(pyval list \<times> nat, pyval) gen_next" where
  "list_iter_next it w =
     (if snd it < length (fst it) then (Inr (fst it ! snd it), (fst it, snd it + 1), w)
      else (Inl StopIteration, it, w))"

definition Pow_of_Two_doc :: pyval where
  "Pow_of_Two_doc = VStr (''class to implement an iterator '' @ CHR 0x0A # ''    of power of two'')"

definition Infinite_Iter_doc :: pyval where
  "Infinite_Iter_doc = VStr (''Infinite Iterator to return all'' @ CHR 0x0A # ''    odd numbers'')"

text \<open>\<open>print(next(g))\<close>, followed by the rest of the script with the generator as it is then.\<close>

definition print_next :: "('g, pyval) gen_next \<Rightarrow> 'g \<Rightarrow> ('g \<Rightarrow> unit py) \<Rightarrow> unit py" where
  "print_next nxt g rest = bnd (next_of nxt g) (\<lambda>r. then_py (print [lit (fst r)]) (rest (snd r)))"

definition example17 :: "unit py" where
  "example17 =
     (let our_iter = list_iter [VInt 44, VInt 77, VInt 11, VInt 33] in
      print_next list_iter_next our_iter (\<lambda>our_iter.
      print_next list_iter_next our_iter (\<lambda>our_iter.
      print_next list_iter_next our_iter (\<lambda>our_iter.
      print_next list_iter_next our_iter (\<lambda>our_iter.
      then_py (print [lit Pow_of_Two_doc])
       (let a = Pow_of_Two_init 4; i = Pow_of_Two_iter a in
        print_next Pow_of_Two_next i (\<lambda>i.
        print_next Pow_of_Two_next i (\<lambda>i.
        print_next Pow_of_Two_next i (\<lambda>i.
         (let i = Infinite_Iter_init; a = Infinite_Iter_iter i in
          then_py (print [lit Infinite_Iter_doc])
           (print_next Infinite_Iter_next a (\<lambda>a.
            print_next Infinite_Iter_next a (\<lambda>a.
            print_next Infinite_Iter_next a (\<lambda>a.
            print_next Infinite_Iter_next a (\<lambda>a. ret ())))))))))))))))"

section \<open>More built-in functions on containers\<close>

text \<open>
  \<open>sorted(c)\<close>: the elements in ascending order, equal elements in their first order;
  elements that \<open><\<close> cannot compare raise \<open>TypeError\<close>.
\<close>

fun insert_sorted :: "pyval \<Rightarrow> pyval list \<Rightarrow> pyexc + pyval list" where
  "insert_sorted x [] = Inr [x]"
| "insert_sorted x (y # ys) =
     (case py_lt x y of
        Inl e \<Rightarrow> Inl e
      | Inr b \<Rightarrow>
          if truthy b then Inr (x # y # ys)
          else (case insert_sorted x ys of Inl e \<Rightarrow> Inl e | Inr r \<Rightarrow> Inr (y # r)))"

fun sort_into :: "pyval list \<Rightarrow> pyval list \<Rightarrow> pyexc + pyval list" where
  "sort_into [] acc = Inr acc"
| "sort_into (x # xs) acc =
     (case insert_sorted x acc of Inl e \<Rightarrow> Inl e | Inr acc' \<Rightarrow> sort_into xs acc')"

definition py_sorted :: "pyval \<Rightarrow> pyexc + pyval" where
  "py_sorted c =
     (case py_iter c of
        Inl e \<Rightarrow> Inl e
      | Inr xs \<Rightarrow> (case sort_into xs [] of Inl e \<Rightarrow> Inl e | Inr ys \<Rightarrow> Inr (VList ys)))"

text \<open>\<open>max(c)\<close> and \<open>min(c)\<close>: the first greatest and the first least element; an empty
  argument raises \<open>ValueError\<close>.\<close>

fun best :: "(pyval \<Rightarrow> pyval \<Rightarrow> pyexc + pyval) \<Rightarrow> pyval list \<Rightarrow> pyval \<Rightarrow> pyexc + pyval" where
  "best better [] m = Inr m"
| "best better (x # xs) m =
     (case better x m of
        Inl e \<Rightarrow> Inl e
      | Inr b \<Rightarrow> best better xs (if truthy b then x else m))"

definition py_max :: "pyval \<Rightarrow> pyexc + pyval" where
  "py_max c =
     (case py_iter c of
        Inl e \<Rightarrow> Inl e
      | Inr [] \<Rightarrow> Inl ValueError
      | Inr (x # xs) \<Rightarrow> best py_gt xs x)"

definition py_min :: "pyval \<Rightarrow> pyexc + pyval" where
  "py_min c =
     (case py_iter c of
        Inl e \<Rightarrow> Inl e
      | Inr [] \<Rightarrow> Inl ValueError
      | Inr (x # xs) \<Rightarrow> best py_lt xs x)"

text \<open>
  Sets. \<open>add_all\<close> adds elements that are not yet there; an element that cannot be
  hashed raises \<open>TypeError\<close>. The model lists a set in the order its elements came in;
  Python fixes no order.
\<close>

fun add_all :: "pyval list \<Rightarrow> pyval list \<Rightarrow> pyexc + pyval list" where
  "add_all [] acc = Inr acc"
| "add_all (x # xs) acc =
     (if \<not> hashable x then Inl TypeError
      else add_all xs (if list_ex (py_eq x) acc then acc else acc @ [x]))"

text \<open>The display \<open>{a, b, ...}\<close>, and \<open>set(c)\<close>, \<open>frozenset(c)\<close>, \<open>list(c)\<close>.\<close>

definition make_set :: "pyval list \<Rightarrow> pyexc + pyval" where
  "make_set xs = (case add_all xs [] of Inl e \<Rightarrow> Inl e | Inr ys \<Rightarrow> Inr (VSet ys))"

definition py_set :: "pyval \<Rightarrow> pyexc + pyval" where
  "py_set c = (case py_iter c of Inl e \<Rightarrow> Inl e | Inr xs \<Rightarrow> make_set xs)"

definition py_frozenset :: "pyval \<Rightarrow> pyexc + pyval" where
  "py_frozenset c =
     (case py_iter c of
        Inl e \<Rightarrow> Inl e
      | Inr xs \<Rightarrow> (case add_all xs [] of Inl e \<Rightarrow> Inl e | Inr ys \<Rightarrow> Inr (VFrozenset ys)))"

definition py_list :: "pyval \<Rightarrow> pyexc + pyval" where
  "py_list c = (case py_iter c of Inl e \<Rightarrow> Inl e | Inr xs \<Rightarrow> Inr (VList xs))"

text \<open>The elements of a set or frozenset, and a set of the same kind with other elements.\<close>

definition set_elems :: "pyval \<Rightarrow> pyval list option" where
  "set_elems v = (case v of VSet xs \<Rightarrow> Some xs | VFrozenset xs \<Rightarrow> Some xs | _ \<Rightarrow> None)"

definition same_kind :: "pyval \<Rightarrow> pyval list \<Rightarrow> pyval" where
  "same_kind v xs = (case v of VFrozenset ys \<Rightarrow> VFrozenset xs | _ \<Rightarrow> VSet xs)"

definition union_elems :: "pyval list \<Rightarrow> pyval list \<Rightarrow> pyval list" where
  "union_elems xs ys = xs @ filter (\<lambda>y. \<not> list_ex (py_eq y) xs) ys"

definition inter_elems :: "pyval list \<Rightarrow> pyval list \<Rightarrow> pyval list" where
  "inter_elems xs ys = filter (\<lambda>x. list_ex (py_eq x) ys) xs"

definition diff_elems :: "pyval list \<Rightarrow> pyval list \<Rightarrow> pyval list" where
  "diff_elems xs ys = filter (\<lambda>x. \<not> list_ex (py_eq x) ys) xs"

definition symdiff_elems :: "pyval list \<Rightarrow> pyval list \<Rightarrow> pyval list" where
  "symdiff_elems xs ys = diff_elems xs ys @ diff_elems ys xs"

text \<open>The operators \<open>|\<close>, \<open>&\<close>, \<open>-\<close>, \<open>^\<close> take two sets; the result is of the kind of the left one.\<close>

definition set_operator :: "(pyval list \<Rightarrow> pyval list \<Rightarrow> pyval list) \<Rightarrow> pyval \<Rightarrow> pyval \<Rightarrow> pyexc + pyval" where
  "set_operator f a b =
     (case (set_elems a, set_elems b) of
        (Some xs, Some ys) \<Rightarrow> Inr (same_kind a (f xs ys))
      | _ \<Rightarrow> Inl TypeError)"

text \<open>The methods \<open>union\<close>, \<open>intersection\<close>, \<open>difference\<close>, \<open>symmetric_difference\<close> take
  anything that can be iterated.\<close>

definition set_method :: "(pyval list \<Rightarrow> pyval list \<Rightarrow> pyval list) \<Rightarrow> pyval \<Rightarrow> pyval \<Rightarrow> pyexc + pyval" where
  "set_method f a b =
     (case set_elems a of
        None \<Rightarrow> Inl AttributeError
      | Some xs \<Rightarrow>
          (case py_iter b of
             Inl e \<Rightarrow> Inl e
           | Inr ys0 \<Rightarrow>
               (case add_all ys0 [] of
                  Inl e \<Rightarrow> Inl e
                | Inr ys \<Rightarrow> Inr (same_kind a (f xs ys)))))"

text \<open>\<open>s.add(x)\<close>, \<open>s.update(c1, c2, ...)\<close>, \<open>s.discard(x)\<close> on a set (a frozenset has none).\<close>

definition method_add :: "pyval \<Rightarrow> pyval \<Rightarrow> pyexc + pyval" where
  "method_add s x =
     (case s of
        VSet xs \<Rightarrow> (case add_all [x] xs of Inl e \<Rightarrow> Inl e | Inr ys \<Rightarrow> Inr (VSet ys))
      | _ \<Rightarrow> Inl AttributeError)"

fun update_all :: "pyval list \<Rightarrow> pyval list \<Rightarrow> pyexc + pyval list" where
  "update_all [] acc = Inr acc"
| "update_all (c # cs) acc =
     (case py_iter c of
        Inl e \<Rightarrow> Inl e
      | Inr xs \<Rightarrow> (case add_all xs acc of Inl e \<Rightarrow> Inl e | Inr acc' \<Rightarrow> update_all cs acc'))"

definition method_update :: "pyval \<Rightarrow> pyval list \<Rightarrow> pyexc + pyval" where
  "method_update s cs =
     (case s of
        VSet xs \<Rightarrow> (case update_all cs xs of Inl e \<Rightarrow> Inl e | Inr ys \<Rightarrow> Inr (VSet ys))
      | _ \<Rightarrow> Inl AttributeError)"

definition method_discard :: "pyval \<Rightarrow> pyval \<Rightarrow> pyexc + pyval" where
  "method_discard s x =
     (case s of
        VSet xs \<Rightarrow> if \<not> hashable x then Inl TypeError else Inr (VSet (remove_first x xs))
      | _ \<Rightarrow> Inl AttributeError)"

text \<open>\<open>t.count(x)\<close> and \<open>t.index(x)\<close> on a tuple or list (\<open>ValueError\<close> if \<open>x\<close> is not there).\<close>

fun index_of :: "pyval \<Rightarrow> pyval list \<Rightarrow> nat option" where
  "index_of x [] = None"
| "index_of x (y # ys) = (if py_eq x y then Some 0 else map_option Suc (index_of x ys))"

definition seq_elems :: "pyval \<Rightarrow> pyval list option" where
  "seq_elems v = (case v of VList xs \<Rightarrow> Some xs | VTuple xs \<Rightarrow> Some xs | _ \<Rightarrow> None)"

definition method_count :: "pyval \<Rightarrow> pyval \<Rightarrow> pyexc + pyval" where
  "method_count c x =
     (case seq_elems c of
        None \<Rightarrow> Inl AttributeError
      | Some xs \<Rightarrow> Inr (VInt (int (length (filter (py_eq x) xs)))))"

definition method_index :: "pyval \<Rightarrow> pyval \<Rightarrow> pyexc + pyval" where
  "method_index c x =
     (case seq_elems c of
        None \<Rightarrow> Inl AttributeError
      | Some xs \<Rightarrow> (case index_of x xs of None \<Rightarrow> Inl ValueError | Some i \<Rightarrow> Inr (VInt (int i))))"

text \<open>\<open>d.items()\<close> and \<open>enumerate(c)\<close>, as the pairs a loop or \<open>list\<close> takes from them.\<close>

definition dict_items :: "pyval \<Rightarrow> pyexc + pyval" where
  "dict_items d =
     (case d of
        VDict kvs \<Rightarrow> Inr (VList (map (\<lambda>kv. VTuple [fst kv, snd kv]) kvs))
      | _ \<Rightarrow> Inl AttributeError)"

definition py_enumerate :: "pyval \<Rightarrow> pyexc + pyval" where
  "py_enumerate c =
     (case py_iter c of
        Inl e \<Rightarrow> Inl e
      | Inr xs \<Rightarrow> Inr (VList (map (\<lambda>ix. VTuple [VInt (int (fst ix)), snd ix]) (zip [0..<length xs] xs))))"

text \<open>
  \<open>x1, ..., xn = e\<close>: the value is taken apart and must have exactly \<open>n\<close> elements
  (\<open>ValueError\<close> otherwise).
\<close>

fun bind_names :: "string list \<Rightarrow> pyval list \<Rightarrow> unit py" where
  "bind_names [] vs = ret ()"
| "bind_names (x # xs) vs = then_py (bind_name x (hd vs)) (bind_names xs (tl vs))"

definition unpack :: "string list \<Rightarrow> pyval \<Rightarrow> unit py" where
  "unpack xs v =
     (case py_iter v of
        Inl e \<Rightarrow> raise e
      | Inr vs \<Rightarrow> if length vs = length xs then bind_names xs vs else raise ValueError)"

definition unpack_assign :: "string list \<Rightarrow> pyval py \<Rightarrow> unit py" where
  "unpack_assign xs e = bnd e (unpack xs)"

text \<open>\<open>for x, y in e: body\<close>: each element is taken apart into the two names.\<close>

definition for_in2 :: "string \<Rightarrow> string \<Rightarrow> pyval list py \<Rightarrow> flow py \<Rightarrow> unit py" where
  "for_in2 x y e b = bnd e (\<lambda>vs. for_list vs (\<lambda>v. then_py (unpack [x, y] v) b))"

text \<open>
  A dict comprehension \<open>{k: v for x in xs}\<close>: the items are put into a new dict one by
  one; \<open>f\<close> gives key and value for an element.
\<close>

fun dict_comp :: "pyval list \<Rightarrow> (pyval \<Rightarrow> pyexc + pyval \<times> pyval) \<Rightarrow> pyval \<Rightarrow> pyexc + pyval" where
  "dict_comp [] f d = Inr d"
| "dict_comp (x # xs) f d =
     (case f x of
        Inl e \<Rightarrow> Inl e
      | Inr kv \<Rightarrow>
          (case py_setitem d (fst kv) (snd kv) of
             Inl e \<Rightarrow> Inl e
           | Inr d' \<Rightarrow> dict_comp xs f d'))"

text \<open>\<open>template.format(args, k1=v1, ...)\<close> with keyword arguments.\<close>

definition format_kw :: "string \<Rightarrow> pyval py list \<Rightarrow> (string \<times> pyval) list \<Rightarrow> pyval py" where
  "format_kw template es kwargs = bnd (eval_args es) (\<lambda>args. lift (str_format template args kwargs))"

section \<open>Dictionaries (example10.py, example29.py)\<close>

text \<open>The item of the comprehension \<open>{x: x*x for x in range(6)}\<close> for one \<open>x\<close>.\<close>

definition squares1_item :: "pyval \<Rightarrow> pyexc + pyval \<times> pyval" where
  "squares1_item x = (case py_mul x x of Inl e \<Rightarrow> Inl e | Inr v \<Rightarrow> Inr (x, v))"

definition example10 :: "unit py" where
  "example10 = block [
     assign ''new_dict'' (lit (VDict [(VInt 1, VStr ''Hello''), (VInt 2, VStr ''Hi''), (VInt 3, VStr ''Hola'')])),
     print [name ''new_dict''],
     print [subscript (name ''new_dict'') (int_lit 1)],
     print [op1 (\<lambda>d. method_get d (VInt 2)) (name ''new_dict'')],
     set_item ''new_dict'' (int_lit 1) (str_lit ''Hey''),
     print [name ''new_dict''],
     set_item ''new_dict'' (int_lit 4) (str_lit ''Namste''),
     print [name ''new_dict''],
     assign ''squares'' (lit (VDict [(VInt 1, VInt 1), (VInt 2, VInt 4), (VInt 3, VInt 9),
                                     (VInt 4, VInt 16), (VInt 5, VInt 25)])),
     print [name ''squares''],
     print [call_result ''squares'' (\<lambda>d. method_pop d (VInt 4))],
     print [name ''squares''],
     print [call_result ''squares'' method_popitem],
     print [name ''squares''],
     del_item ''squares'' (int_lit 1),
     print [name ''squares''],
     call_update ''squares'' method_clear,
     print [name ''squares''],
     del_name ''squares'',
     assign ''squares1'' (bnd (py_range 0 6) (\<lambda>xs. lift (dict_comp xs squares1_item (VDict [])))),
     print [name ''squares1''],
     assign ''squares2'' (lit (VDict [(VInt 1, VInt 1), (VInt 3, VInt 9), (VInt 5, VInt 25),
                                      (VInt 7, VInt 49), (VInt 9, VInt 81)])),
     print [op2 py_in (int_lit 1) (name ''squares2'')],
     print [op2 py_not_in (int_lit 2) (name ''squares2'')],
     print [op2 py_in (int_lit 49) (name ''squares2'')],
     for_in ''i'' (iter_of (name ''squares2''))
       (stmt (print [subscript (name ''squares2'') (name ''i'')])),
     print [len_of (name ''squares2'')],
     print [op1 py_sorted (name ''squares2'')]]"

definition example29 :: "unit py" where
  "example29 = block [
     assign ''people'' (lit (VDict [
        (VInt 1, VDict [(VStr ''name'', VStr ''John''), (VStr ''age'', VStr ''24''), (VStr ''sex'', VStr ''Male'')]),
        (VInt 2, VDict [(VStr ''name'', VStr ''Marie''), (VStr ''age'', VStr ''25''), (VStr ''sex'', VStr ''Female'')])])),
     print [name ''people''],
     print [subscript (subscript (name ''people'') (int_lit 2)) (str_lit ''name'')],
     print [subscript (name ''people'') (int_lit 1)],
     print [subscript (subscript (name ''people'') (int_lit 1)) (str_lit ''name'')],
     print [subscript (subscript (name ''people'') (int_lit 1)) (str_lit ''age'')],
     print [subscript (subscript (name ''people'') (int_lit 1)) (str_lit ''sex'')],
     set_item ''people'' (int_lit 3) (lit (VDict [])),
     set_item2 ''people'' (int_lit 3) (str_lit ''name'') (str_lit ''Luna''),
     set_item2 ''people'' (int_lit 3) (str_lit ''age'') (str_lit ''24''),
     set_item2 ''people'' (int_lit 3) (str_lit ''sex'') (str_lit ''Female''),
     set_item2 ''people'' (int_lit 3) (str_lit ''married'') (str_lit ''No''),
     print [str_lit ''people'', name ''people''],
     del_item2 ''people'' (int_lit 3) (str_lit ''name''),
     print [name ''people''],
     del_item ''people'' (int_lit 3),
     del_item ''people'' (int_lit 1),
     print [name ''people''],
     for_in2 ''p_id'' ''p_info'' (iter_of (op1 dict_items (name ''people''))) (loop_body [
       stmt (print [str_lit (CHR 0x0A # '' Person ID:''), name ''p_id'']),
       stmt (for_in ''key'' (iter_of (name ''p_info''))
         (stmt (print [op2 py_add (name ''key'') (str_lit '':''),
                       subscript (name ''p_info'') (name ''key'')])))])]"

section \<open>Tuples (example6.py)\<close>

definition example6 :: "unit py" where
  "example6 = block [
     assign ''tuple1'' (lit (VTuple [])),
     print [name ''tuple1''],
     assign ''tuple2'' (lit (VTuple [VInt 1, VInt 2, VInt 3])),
     print [name ''tuple2''],
     assign ''tuple3'' (lit (VTuple [VStr ''Srinu'', VInt 24, VFloat 200, VBool True])),
     print [name ''tuple3''],
     assign ''tuple4'' (lit (VTuple [VStr ''points'', VList [VInt 1, VInt 4, VInt 3],
                                     VTuple [VInt 7, VInt 8, VInt 6]])),
     print [name ''tuple4''],
     assign ''tuple5'' (lit (VTuple [VInt 101, VStr ''srinu'', VFloat 2000, VStr ''Tech''])),
     print [name ''tuple5''],
     unpack_assign [''empid'', ''empname'', ''empsal'', ''empdept''] (name ''tuple5''),
     print [name ''empid''],
     print [name ''empname''],
     print [name ''empsal''],
     print [name ''empdept''],
     assign ''tuple6'' (lit (VTuple [VStr ''w'', VStr ''e'', VStr ''l'', VStr ''c'', VStr ''o'', VStr ''m'', VStr ''e''])),
     print [name ''tuple6''],
     print [subscript (name ''tuple6'') (int_lit 1)],
     print [subscript (name ''tuple6'') (int_lit 3)],
     print [subscript (name ''tuple6'') (int_lit 5)],
     assign ''nested_tuple'' (lit (VTuple [VStr ''point'', VList [VInt 1, VInt 3, VInt 5],
                                           VTuple [VInt 8, VInt 7, VInt 9]])),
     print [str_lit ''Nested tuple'', name ''nested_tuple''],
     print [subscript (name ''nested_tuple'') (int_lit 0)],
     print [subscript (subscript (name ''nested_tuple'') (int_lit 1)) (int_lit 0)],
     print [subscript (subscript (name ''nested_tuple'') (int_lit 2)) (int_lit 2)],
     assign ''slicing_tuple'' (lit (VTuple [VStr ''w'', VStr ''e'', VStr ''l'', VStr ''c'', VStr ''o'', VStr ''m'', VStr ''e''])),
     print [slice_of (name ''slicing_tuple'') (Some 1) (Some 3)],
     print [slice_of (name ''slicing_tuple'') None (Some (- 3))],
     print [slice_of (name ''slicing_tuple'') (Some 3) None],
     print [slice_of (name ''slicing_tuple'') None None],
     assign ''tuple7'' (lit (VTuple [VStr ''w'', VStr ''e'', VStr ''l'', VStr ''c'', VStr ''o'', VStr ''m'', VStr ''e''])),
     print [name ''tuple7''],
     assign ''tuple7'' (lit (VTuple [VStr ''g'', VStr ''o'', VStr ''o'', VStr ''d'', VStr ''b'', VStr ''y'', VStr ''e''])),
     print [name ''tuple7''],
     assign ''tuple8'' (lit (VTuple [VStr ''w'', VStr ''e'', VStr ''l''])),
     assign ''tuple9'' (lit (VTuple [VStr ''c'', VStr ''o'', VStr ''m'', VStr ''e''])),
     print [op2 py_add (name ''tuple8'') (name ''tuple9'')],
     print [op2 py_mul (lit (VTuple [VStr ''again''])) (int_lit 4)],
     assign ''tuple_to_delete'' (lit (VTuple [VStr ''d'', VStr ''e'', VStr ''l'', VStr ''e'',
                                              VStr ''t'', VStr ''e'', VStr ''m'', VStr ''e''])),
     assign ''tuple10'' (lit (VTuple [VStr ''w'', VStr ''e'', VStr ''l'', VStr ''c'', VStr ''o'',
                                      VStr ''m'', VStr ''e'', VStr ''c''])),
     print [op1 (\<lambda>t. method_count t (VStr ''e'')) (name ''tuple10'')],
     print [op1 (\<lambda>t. method_index t (VStr ''c'')) (name ''tuple10'')],
     print [op2 py_in (str_lit ''c'') (name ''tuple10'')],
     print [op2 py_not_in (str_lit ''c'') (name ''tuple10'')],
     print [op2 py_in (str_lit ''a'') (name ''tuple10'')],
     print [op2 py_not_in (str_lit ''a'') (name ''tuple10'')],
     for_in ''letters'' (iter_of (name ''tuple10''))
       (stmt (print [str_lit ''Letter is:'', name ''letters''])),
     assign ''tuple11'' (lit (VTuple [VInt 22, VInt 33, VInt 55, VInt 44, VInt 77, VInt 66, VInt 11])),
     print [op1 py_max (name ''tuple11'')],
     print [op1 py_min (name ''tuple11'')],
     print [op1 py_sorted (name ''tuple11'')],
     print [len_of (name ''tuple11'')]]"

section \<open>Sets (example7.py)\<close>

definition set_lit :: "pyval list \<Rightarrow> pyval py" where
  "set_lit xs = lift (make_set xs)"

definition example7 :: "unit py" where
  "example7 = block [
     assign ''my_set1'' (set_lit [VInt 11, VInt 33, VInt 66, VInt 55, VInt 44, VInt 22]),
     print [name ''my_set1''],
     assign ''my_set2'' (set_lit [VInt 101, VStr ''agnibha'', VTuple [VInt 21, VInt 2, VInt 1994]]),
     print [name ''my_set2''],
     assign ''my_set3'' (set_lit [VInt 11, VInt 22, VInt 44, VInt 33, VInt 11, VInt 33, VInt 22,
                                  VInt 22, VInt 23]),
     print [name ''my_set3''],
     assign ''my_set5'' (op1 py_set (lit (VList [VInt 1, VInt 2, VInt 3, VInt 2]))),
     print [name ''my_set5''],
     print [type_of (name ''my_set5'')],
     assign ''my_list1'' (op1 py_list (set_lit [VInt 11, VInt 22, VInt 33, VInt 44])),
     print [name ''my_list1''],
     print [type_of (name ''my_list1'')],
     assign ''my_set6'' (set_lit [VInt 11, VInt 33, VInt 44, VInt 66, VInt 55]),
     call_update ''my_set6'' (\<lambda>s. method_add s (VInt 77)),
     print [name ''my_set6''],
     call_update ''my_set6'' (\<lambda>s. method_update s [VList [VInt 23, VInt 36, VInt 6]]),
     print [name ''my_set6''],
     bnd (set_lit [VInt 103, VInt 104, VInt 105]) (\<lambda>arg2.
       call_update ''my_set6'' (\<lambda>s. method_update s [VList [VInt 100, VInt 200], arg2])),
     print [name ''my_set6''],
     call_update ''my_set6'' (\<lambda>s. method_discard s (VInt 4)),
     print [name ''my_set6''],
     call_update ''my_set6'' (\<lambda>s. method_discard s (VInt 100)),
     print [name ''my_set6''],
     call_update ''my_set6'' (\<lambda>s. method_remove s (VInt 200)),
     print [name ''my_set6''],
     print [call_result ''my_set6'' method_pop0],
     print [call_result ''my_set6'' method_pop0],
     call_update ''my_set6'' method_clear,
     print [name ''my_set6''],
     assign ''myset1'' (set_lit [VInt 0, VInt 1, VInt 2, VInt 3, VInt 4, VInt 5]),
     assign ''myset2'' (set_lit [VInt 4, VInt 5, VInt 6, VInt 7, VInt 8, VInt 9]),
     print [op2 (set_operator union_elems) (name ''myset1'') (name ''myset2'')],
     print [op2 (set_operator union_elems) (name ''myset2'') (name ''myset1'')],
     print [op2 (set_method union_elems) (name ''myset1'') (name ''myset2'')],
     print [op2 (set_method union_elems) (name ''myset2'') (name ''myset1'')],
     print [op2 (set_operator inter_elems) (name ''myset1'') (name ''myset2'')],
     print [op2 (set_operator inter_elems) (name ''myset2'') (name ''myset1'')],
     print [op2 (set_method inter_elems) (name ''myset1'') (name ''myset2'')],
     print [op2 (set_method inter_elems) (name ''myset2'') (name ''myset1'')],
     print [op2 (set_operator diff_elems) (name ''myset1'') (name ''myset2'')],
     print [op2 (set_operator diff_elems) (name ''myset2'') (name ''myset1'')],
     print [op2 (set_method diff_elems) (name ''myset1'') (name ''myset2'')],
     print [op2 (set_method diff_elems) (name ''myset2'') (name ''myset1'')],
     print [op2 (set_operator symdiff_elems) (name ''myset1'') (name ''myset2'')],
     print [op2 (set_operator symdiff_elems) (name ''myset2'') (name ''myset1'')],
     print [op2 (set_method symdiff_elems) (name ''myset1'') (name ''myset2'')],
     print [op2 (set_method symdiff_elems) (name ''myset2'') (name ''myset1'')],
     assign ''myset3'' (set_lit [VInt 0, VInt 1, VInt 2, VInt 3, VInt 4, VInt 5]),
     print [op2 py_in (int_lit 2) (name ''myset3'')],
     print [op2 py_in (int_lit 6) (name ''myset3'')],
     print [op2 py_not_in (int_lit 2) (name ''myset3'')],
     print [op2 py_not_in (int_lit 6) (name ''myset3'')],
     for_in ''letter'' (iter_of (op1 py_set (str_lit ''welcome'')))
       (stmt (print [name ''letter''])),
     print [len_of (name ''myset3'')],
     print [op1 py_max (name ''myset3'')],
     print [op1 py_min (name ''myset3'')],
     print [op1 py_sorted (name ''myset3'')],
     assign ''myset4'' (op1 py_frozenset (lit (VList [VInt 1, VInt 2, VInt 3, VInt 4]))),
     assign ''myset5'' (op1 py_frozenset (lit (VList [VInt 3, VInt 4, VInt 5, VInt 6]))),
     print [name ''myset4''],
     print [name ''myset5''],
     print [op2 (set_method diff_elems) (name ''myset4'') (name ''myset5'')],
     print [op2 (set_method union_elems) (name ''myset4'') (name ''myset5'')],
     print [op2 (set_method inter_elems) (name ''myset4'') (name ''myset5'')],
     print [op2 (set_method symdiff_elems) (name ''myset4'') (name ''myset5'')]]"

section \<open>Regular expressions (example38.py)\<close>

text \<open>
  The patterns of the script are made of literal characters and \<open>.\<close>, which matches any
  character but a line break; the model reads every other character of a pattern
  literally. \<open>re.search\<close> gives a match object for the first place where the pattern
  matches, or \<open>None\<close>; \<open>re.findall\<close> gives the matches from left to right, each starting
  after the one before.
\<close>

fun matches_here :: "string \<Rightarrow> string \<Rightarrow> bool" where
  "matches_here [] s = True"
| "matches_here (p # ps) [] = False"
| "matches_here (p # ps) (c # cs) =
     ((if p = CHR ''.'' then c \<noteq> CHR 0x0A else p = c) \<and> matches_here ps cs)"

fun search_from :: "string \<Rightarrow> string \<Rightarrow> nat \<Rightarrow> nat option" where
  "search_from pat [] i = (if matches_here pat [] then Some i else None)"
| "search_from pat (c # cs) i =
     (if matches_here pat (c # cs) then Some i else search_from pat cs (i + 1))"

definition re_search :: "string \<Rightarrow> string \<Rightarrow> pyval" where
  "re_search pat s =
     (case search_from pat s 0 of
        None \<Rightarrow> VNone
      | Some i \<Rightarrow>
          VObject ''Match'' [(''span'', VTuple [VInt (int i), VInt (int (i + length pat))]),
                            (''match'', VStr (take (length pat) (drop i s)))])"

text \<open>\<open>skip\<close> counts the characters of the last match still to be passed over.\<close>

fun findall_from :: "string \<Rightarrow> string \<Rightarrow> nat \<Rightarrow> string list" where
  "findall_from pat [] skip = (if skip = 0 \<and> pat = [] then [[]] else [])"
| "findall_from pat (c # cs) skip =
     (if skip > 0 then findall_from pat cs (skip - 1)
      else if matches_here pat (c # cs) then
        take (length pat) (c # cs) # findall_from pat cs (length pat - 1)
      else findall_from pat cs 0)"

definition re_findall :: "string \<Rightarrow> string \<Rightarrow> pyval" where
  "re_findall pat s = VList (map VStr (findall_from pat s 0))"

definition example38 :: "unit py" where
  "example38 = block [
     import_module ''re'',
     if_then (lit (re_search ''ape'' ''The ape was at the apex''))
       (print [str_lit ''Match for ape found...'']),
     assign ''allApes'' (lit (re_findall ''ape.'' ''The ape was at apex'')),
     for_in ''i'' (iter_of (name ''allApes'')) (stmt (print [name ''i'']))]"

section \<open>Strings (strings11.py)\<close>

text \<open>The body of the loop that counts the letter \<open>m\<close>.\<close>

definition example_strings11_count :: "flow py" where
  "example_strings11_count =
     if_flow (eq_py (name ''letter'') (str_lit ''m''))
       (stmt (assign ''letter_count'' (op2 py_add (name ''letter_count'') (int_lit 1))))"

definition strings11 :: "unit py" where
  "strings11 = block [
     assign ''mystr1'' (str_lit ''welcome''),
     print [name ''mystr1''],
     assign ''mystr2'' (str_lit ''welcome''),
     print [name ''mystr2''],
     assign ''mystr3'' (str_lit ''welcome''),
     print [name ''mystr3''],
     assign ''mystr4'' (str_lit ''welcome''),
     print [name ''mystr4''],
     assign ''mystr5'' (str_lit (''welcome'' @ CHR 0x0A # ''to the world of '' @ CHR 0x0A # ''python programming'')),
     print [name ''mystr5''],
     assign ''my_str'' (str_lit ''language''),
     print [str_lit ''my_str'', name ''my_str''],
     print [str_lit ''my_str[0] = '', subscript (name ''my_str'') (int_lit 0)],
     print [str_lit ''my_str[-1] = '', subscript (name ''my_str'') (int_lit (- 1))],
     print [str_lit ''my_str[1:5] = '', slice_of (name ''my_str'') (Some 1) (Some 5)],
     print [str_lit ''my_str[5:-2] = '', slice_of (name ''my_str'') (Some 5) (Some (- 2))],
     assign ''my_str1'' (str_lit ''language''),
     print [name ''my_str1''],
     assign ''my_str1'' (str_lit ''programming''),
     print [name ''my_str1''],
     print [op2 py_add (name ''my_str1'') (name ''my_str'')],
     print [op2 py_mul (name ''my_str1'') (int_lit 3)],
     assign ''letter_count'' (int_lit 0),
     for_in ''letter'' (iter_of (name ''my_str1'')) example_strings11_count,
     print [str_lit ''Count of letter m in my_str1 is:'', name ''letter_count''],
     print [op2 py_in (str_lit ''l'') (str_lit ''hello'')],
     print [op2 py_not_in (str_lit ''l'') (str_lit ''hello'')],
     print [op2 py_in (str_lit ''b'') (str_lit ''hello'')],
     print [op2 py_not_in (str_lit ''b'') (str_lit ''hello'')],
     assign ''my_str2'' (str_lit ''university''),
     assign ''my_list_enumerate'' (op1 py_list (op1 py_enumerate (name ''my_str2''))),
     print [str_lit ''list(enumerate(my_str2)):'', name ''my_list_enumerate''],
     print [str_lit ''length of my_str2 is:'', len_of (name ''my_str2'')],
     print [str_lit (''tell me '' @ CHR 0x22 # ''what'' @ CHR 0x27 # ''s your name?'' @ [CHR 0x22])],
     print [str_lit (''tell me '' @ CHR 0x22 # ''what'' @ CHR 0x27 # ''s your name?'' @ [CHR 0x22])],
     print [str_lit (''tell me '' @ CHR 0x27 # ''what'' @ CHR 0x27 # ''s your name?'' @ [CHR 0x27])],
     print [str_lit (''tell me '' @ CHR 0x22 # ''what'' @ CHR 0x27 # ''s your name?'' @ [CHR 0x22])],
     print [str_lit (''C:'' @ CHR 0x5C # ''User'' @ CHR 0x5C # ''user'' @ CHR 0x5C # ''mydata.txt'')],
     print [str_lit (''This line is having a new line '' @ CHR 0x0A # ''character'')],
     print [str_lit (''This line is having a tab '' @ CHR 0x09 # ''character'')],
     print [str_lit (''ABC written in '' @ CHR 0x41 # CHR 0x42 # CHR 0x43 # '' (Hex) Representation'')],
     assign ''default_order'' (format ''{} {} {}'' [str_lit ''Today'', str_lit ''is'', str_lit ''sunday'']),
     print [name ''default_order''],
     assign ''positional_order'' (format ''{1} {0} {2}'' [str_lit ''is'', str_lit ''Today'', str_lit ''sunday'']),
     print [name ''positional_order''],
     assign ''keyword_order'' (format_kw ''{t} {i} {s}'' []
        [(''i'', VStr ''is''), (''t'', VStr ''Today''), (''s'', VStr ''sunday'')]),
     print [name ''keyword_order''],
     print [format ''Required binary represntation of {0}is {0:b}'' [int_lit 20]],
     print [format ''Exponent representation : {0:e}'' [lit (VFloat 1566.345)]],
     print [format ''One third is: {0:3f}'' [op2 py_truediv (int_lit 1) (int_lit 3)]]]"

section \<open>Numbers (example13.py)\<close>

text \<open>
  \<open>Decimal(s)\<close> for a string: an optional sign, digits, optionally a point and more
  digits (white space around is dropped); anything else raises \<open>InvalidOperation\<close>.
  Exponents and the special values are not modelled.
\<close>

fun digits_value :: "string \<Rightarrow> nat \<Rightarrow> nat option" where
  "digits_value [] acc = Some acc"
| "digits_value (c # cs) acc =
     (case digit_of c of None \<Rightarrow> None | Some d \<Rightarrow> digits_value cs (10 * acc + d))"

definition decimal_of_str :: "string \<Rightarrow> pyexc + pyval" where
  "decimal_of_str s =
     (let t = strip s;
          neg = (t \<noteq> [] \<and> hd t = CHR ''-'');
          body = (if t \<noteq> [] \<and> (hd t = CHR ''-'' \<or> hd t = CHR ''+'') then tl t else t);
          whole = takeWhile (\<lambda>c. c \<noteq> CHR ''.'') body;
          frac = drop 1 (dropWhile (\<lambda>c. c \<noteq> CHR ''.'') body)
      in if whole @ frac = [] then Inl InvalidOperation
         else
           (case digits_value (whole @ frac) 0 of
              None \<Rightarrow> Inl InvalidOperation
            | Some n \<Rightarrow> Inr (VDecimal (if neg then - int n else int n) (- int (length frac)))))"

definition py_Decimal :: "pyval \<Rightarrow> pyexc + pyval" where
  "py_Decimal v =
     (case v of
        VStr s \<Rightarrow> decimal_of_str s
      | VInt i \<Rightarrow> Inr (VDecimal i 0)
      | VDecimal c e \<Rightarrow> Inr v
      | _ \<Rightarrow> Inl TypeError)"

text \<open>\<open>Fraction(x)\<close> of a number and \<open>Fraction(n, d)\<close> of two integers.\<close>

definition py_Fraction :: "pyval \<Rightarrow> pyexc + pyval" where
  "py_Fraction v =
     (case v of
        VFraction q \<Rightarrow> Inr v
      | _ \<Rightarrow> (case num_of v of None \<Rightarrow> Inl TypeError | Some r \<Rightarrow> Inr (VFraction r)))"

definition py_Fraction2 :: "pyval \<Rightarrow> pyval \<Rightarrow> pyexc + pyval" where
  "py_Fraction2 n d =
     (case (int_of n, int_of d) of
        (Some i, Some j) \<Rightarrow>
          if j = 0 then Inl ZeroDivisionError else Inr (VFraction (of_int i / of_int j))
      | _ \<Rightarrow> Inl TypeError)"

text \<open>
  More of the math module. \<open>log\<close> and \<open>log10\<close> raise \<open>ValueError\<close> outside the positive
  numbers, \<open>factorial\<close> takes a non-negative integer. Results too large for a float
  (\<open>OverflowError\<close>) are not modelled.
\<close>

definition math_log :: "pyval \<Rightarrow> pyexc + pyval" where
  "math_log v =
     (case num_of v of
        None \<Rightarrow> Inl TypeError
      | Some r \<Rightarrow> if r \<le> 0 then Inl ValueError else Inr (VFloat (ln r)))"

definition math_log10 :: "pyval \<Rightarrow> pyexc + pyval" where
  "math_log10 v =
     (case num_of v of
        None \<Rightarrow> Inl TypeError
      | Some r \<Rightarrow> if r \<le> 0 then Inl ValueError else Inr (VFloat (log 10 r)))"

definition math_exp :: "pyval \<Rightarrow> pyexc + pyval" where
  "math_exp v = (case num_of v of None \<Rightarrow> Inl TypeError | Some r \<Rightarrow> Inr (VFloat (exp r)))"

definition math_sinh :: "pyval \<Rightarrow> pyexc + pyval" where
  "math_sinh v = (case num_of v of None \<Rightarrow> Inl TypeError | Some r \<Rightarrow> Inr (VFloat (sinh r)))"

definition math_factorial :: "pyval \<Rightarrow> pyexc + pyval" where
  "math_factorial v =
     (case int_of v of
        None \<Rightarrow> Inl TypeError
      | Some i \<Rightarrow> if i < 0 then Inl ValueError else Inr (VInt (int (fact (nat i)))))"

definition py_abs :: "pyval \<Rightarrow> pyexc + pyval" where
  "py_abs v =
     (case int_of v of
        Some i \<Rightarrow> Inr (VInt \<bar>i\<bar>)
      | None \<Rightarrow>
        (case v of
           VFloat r \<Rightarrow> Inr (VFloat \<bar>r\<bar>)
         | VComplex z \<Rightarrow> Inr (VFloat (cmod z))
         | VFraction q \<Rightarrow> Inr (VFraction \<bar>q\<bar>)
         | VDecimal c e \<Rightarrow> Inr (VDecimal \<bar>c\<bar> e)
         | _ \<Rightarrow> Inl TypeError))"

text \<open>
  The random module draws from the random numbers of the world. \<open>randrange(a, b)\<close>
  raises \<open>ValueError\<close> on an empty range, \<open>choice\<close> \<open>IndexError\<close> on an empty sequence;
  \<open>shuffle\<close> exchanges each element, from the last down to the second, with one at or
  before it; \<open>random()\<close> gives a float at least 0 and below 1.
\<close>

definition draw :: "nat py" where
  "draw = (\<lambda>w. Some (Inr (rnd w 0), w\<lparr>rnd := (\<lambda>n. rnd w (Suc n))\<rparr>))"

definition random_randrange :: "int \<Rightarrow> int \<Rightarrow> pyval py" where
  "random_randrange a b =
     (if b \<le> a then raise ValueError
      else bnd draw (\<lambda>n. ret (VInt (a + int (n mod nat (b - a))))))"

definition random_choice :: "pyval \<Rightarrow> pyval py" where
  "random_choice c =
     (case c of
        VList xs \<Rightarrow> if xs = [] then raise IndexError else bnd draw (\<lambda>n. ret (xs ! (n mod length xs)))
      | VTuple xs \<Rightarrow> if xs = [] then raise IndexError else bnd draw (\<lambda>n. ret (xs ! (n mod length xs)))
      | VStr s \<Rightarrow> if s = [] then raise IndexError else bnd draw (\<lambda>n. ret (VStr [s ! (n mod length s)]))
      | _ \<Rightarrow> raise TypeError)"

fun shuffle_down :: "nat \<Rightarrow> pyval list \<Rightarrow> pyval list py" where
  "shuffle_down 0 xs = ret xs"
| "shuffle_down (Suc k) xs =
     bnd draw (\<lambda>n.
       (let i = Suc k; j = n mod (i + 1)
        in shuffle_down k (xs[i := xs ! j, j := xs ! i])))"

definition random_shuffle :: "string \<Rightarrow> unit py" where
  "random_shuffle x =
     bnd (name x) (\<lambda>c.
       case c of
         VList xs \<Rightarrow> bnd (shuffle_down (length xs - 1) xs) (\<lambda>ys. bind_name x (VList ys))
       | _ \<Rightarrow> raise TypeError)"

definition random_random :: "pyval py" where
  "random_random = bnd draw (\<lambda>n. ret (VFloat (real (n mod 2 ^ 53) / 2 ^ 53)))"

text \<open>The script in the parts its comments head: types and conversions, decimals,
  fractions, the math module, the random module.\<close>

definition example13_types :: "unit py" where
  "example13_types = block [
     assign ''value1'' (int_lit 100),
     print [type_of (name ''value1'')],
     print [isinstance (name ''value1'') ''int''],
     print [isinstance (name ''value1'') ''float''],
     print [isinstance (name ''value1'') ''complex''],
     assign ''value2'' (lit (VFloat 100.24)),
     print [type_of (name ''value2'')],
     print [isinstance (name ''value2'') ''int''],
     print [isinstance (name ''value2'') ''float''],
     print [isinstance (name ''value2'') ''complex''],
     assign ''value3'' (op2 py_add (int_lit 50) (lit (VComplex (Complex 0 6)))),
     print [type_of (name ''value3'')],
     print [isinstance (name ''value3'') ''int''],
     print [isinstance (name ''value3'') ''float''],
     print [isinstance (name ''value3'') ''complex''],
     print [int_lit 13, int_lit 13],
     print [int_lit 171, int_lit 171],
     print [int_lit 19, int_lit 19],
     print [op1 py_int (lit (VFloat 10.5))],
     print [op1 py_int (lit (VFloat (- 20.99)))],
     print [op1 py_float (int_lit 5)]]"

definition example13_decimal :: "unit py" where
  "example13_decimal = block [
     assign ''data1'' (op2 py_add (lit (VFloat 0.1)) (lit (VFloat 0.2))),
     print [name ''data1''],
     assign ''data1'' (op2 py_mul (lit (VFloat 1.20)) (lit (VFloat 2.50))),
     print [name ''data1''],
     from_import_as ''decimal'' ''Decimal'' ''D'',
     print [op2 py_add (op1 py_Decimal (str_lit ''0.1'')) (op1 py_Decimal (str_lit ''0.2''))],
     print [op2 py_mul (op1 py_Decimal (str_lit ''1.2'')) (op1 py_Decimal (str_lit ''2.5''))]]"

definition example13_fractions :: "unit py" where
  "example13_fractions = block [
     from_import_as ''fractions'' ''Fraction'' ''F'',
     print [op1 py_Fraction (lit (VFloat 1.5))],
     print [op1 py_Fraction (int_lit 5)],
     print [op2 py_Fraction2 (int_lit 1) (int_lit 5)]]"

definition example13_math :: "unit py" where
  "example13_math = block [
     import_module ''math'',
     print [lit math_pi],
     print [op1 math_cos (int_lit 10)],
     print [op1 math_log (int_lit 10)],
     print [op1 math_log10 (int_lit 10)],
     print [op1 math_exp (int_lit 10)],
     print [op1 math_factorial (int_lit 5)],
     print [op1 math_sinh (int_lit 10)],
     print [op1 py_abs (lit (VFloat (- 12.34)))]]"

definition example13_random :: "unit py" where
  "example13_random = block [
     import_module ''random'',
     print [str_lit ''Random Number -->'', random_randrange 5 15],
     print [str_lit ''Random Number -->'', random_randrange 5 15],
     assign ''day'' (lit (VList [VStr ''sun'', VStr ''mon'', VStr ''tue'', VStr ''wed'',
                                 VStr ''thurs'', VStr ''fri'', VStr ''sat''])),
     print [bnd (name ''day'') random_choice],
     print [name ''day''],
     random_shuffle ''day'',
     print [name ''day''],
     print [random_random]]"

definition example13 :: "unit py" where
  "example13 = block [
     example13_types,
     example13_decimal,
     example13_fractions,
     example13_math,
     example13_random]"

text \<open>The list that \<open>shuffle_down\<close> returns, as a function of the random numbers.\<close>

fun shuffled :: "nat \<Rightarrow> pyval list \<Rightarrow> (nat \<Rightarrow> nat) \<Rightarrow> pyval list" where
  "shuffled 0 xs r = xs"
| "shuffled (Suc k) xs r =
     (let i = Suc k; j = r 0 mod (i + 1)
      in shuffled k (xs[i := xs ! j, j := xs ! i]) (\<lambda>n. r (Suc n)))"

section \<open>The repository and the behaviour of a script\<close>

text \<open>The scripts of the repository by file name.\<close>

definition repository :: "(string \<times> unit py) list" where
  "repository =
     [(''array_imple3'', array_imple3),
      (''decorators34'', decorators34),
      (''directory_and_filemanage9'', directory_and_filemanage9),
      (''error_and_exception25'', error_and_exception25),
      (''example10'', example10),
      (''example12'', example12),
      (''example13'', example13),
      (''example14'', example14),
      (''example16'', example16),
      (''example17'', example17),
      (''example19'', example19),
      (''example2'', example2),
      (''example21'', example21),
      (''example26'', example26),
      (''example28'', example28),
      (''example29'', example29),
      (''example33'', example33),
      (''example38'', example38),
      (''example5'', example5),
      (''example6'', example6),
      (''example7'', example7),
      (''global_local_nonlocal15'', global_local_nonlocal15),
      (''multiple_inheritance20'', multiple_inheritance20),
      (''statements_and_comments31'', statements_and_comments31),
      (''strings11'', strings11)]"

text \<open>
  A script completes when in every world it returns without an exception. It keeps the
  files when in every world it returns (normally or with an exception) with the file
  system as it was and without a call to the operating system. It ignores the files when
  a different file system, current directory and record of calls change nothing else in
  what it does. It imports the modules \<open>ms\<close> when these are what it adds to the modules
  imported.
\<close>

definition completes :: "unit py \<Rightarrow> bool" where
  "completes s = (\<forall>w. \<exists>w'. s w = Some (Inr (), w'))"

definition keeps_files :: "unit py \<Rightarrow> bool" where
  "keeps_files s =
     (\<forall>w. \<exists>r w'. s w = Some (r, w') \<and> files w' = files w \<and> cwd w' = cwd w \<and> calls w' = calls w)"

definition ignores_files :: "unit py \<Rightarrow> bool" where
  "ignores_files s =
     (\<forall>w f c k. s (w\<lparr>files := f, cwd := c, calls := k\<rparr>) =
        map_option (\<lambda>rw. (fst rw, (snd rw)\<lparr>files := f, cwd := c, calls := k\<rparr>)) (s w))"

definition imports_only :: "unit py \<Rightarrow> string list \<Rightarrow> bool" where
  "imports_only s ms = (\<forall>w. \<exists>r w'. s w = Some (r, w') \<and> imported w' = imported w @ ms)"

text \<open>All four at once, for a script that completes.\<close>

definition behaves :: "unit py \<Rightarrow> string list \<Rightarrow> bool" where
  "behaves s ms = (completes s \<and> keeps_files s \<and> ignores_files s \<and> imports_only s ms)"

section \<open>Properties of the generators\<close>

text \<open>The equations that evaluate a computation on a world.\<close>

lemmas py_defs =
  ret_def raise_def bnd_def then_py_def lit_def lift_def op1_def op2_def
  name_def bind_name_def assign_def del_name_def pass_def expr_stmt_def
  print_def print_values_def try_except_def try_finally_def try_except_finally_def
  except_def except_all_def

lemma my_generator_finished_stays:
  "next_times my_generator_next k MG_finished w = (replicate k (Inl StopIteration), MG_finished, w)"
  by (induction k) simp_all

lemma next_times_add:
  "next_times nxt (j + k) g w =
     (case next_times nxt j g w of (rs, g', w') \<Rightarrow>
        (case next_times nxt k g' w' of (rs', g'', w'') \<Rightarrow> (rs @ rs', g'', w'')))"
  by (induction j arbitrary: g w) (simp_all split: prod.splits)

lemma my_generator_three:
  "next_times my_generator_next 3 my_generator w =
     ([Inr 1, Inr 2, Inr 3], MG_yield3 3,
      emit [VStr ''This is printed third'']
        (emit [VStr ''This is printed second''] (emit [VStr ''This is printed first''] w)))"
  by (simp add: my_generator_def numeral_3_eq_3 Let_def)

lemma for_gen_MG_yield3:
  "for_gen my_generator_next body (MG_yield3 n) w = Some (Inr (), w)"
  by (subst for_gen.simps) simp

lemma for_gen_MG_yield2:
  "for_gen my_generator_next body (MG_yield2 n) w =
     bnd (print_values [VStr ''This is printed third'']) (\<lambda>_. body (n + 1)) w"
  by (subst for_gen.simps)
     (simp add: for_gen_MG_yield3 bnd_def print_values_def Let_def
           split: option.splits sum.splits prod.splits)

lemma for_gen_MG_yield1:
  "for_gen my_generator_next body (MG_yield1 n) w =
     bnd (print_values [VStr ''This is printed second'']) (\<lambda>_.
     bnd (body (n + 1)) (\<lambda>_.
     bnd (print_values [VStr ''This is printed third'']) (\<lambda>_. body (n + 1 + 1)))) w"
  by (subst for_gen.simps)
     (simp add: for_gen_MG_yield2 bnd_def print_values_def Let_def
           split: option.splits sum.splits prod.splits)

lemma my_generator_for:
  "for_gen my_generator_next body my_generator w =
     bnd (print_values [VStr ''This is printed first'']) (\<lambda>_.
     bnd (body 1) (\<lambda>_.
     bnd (print_values [VStr ''This is printed second'']) (\<lambda>_.
     bnd (body 2) (\<lambda>_.
     bnd (print_values [VStr ''This is printed third'']) (\<lambda>_.
     body 3))))) w"
  unfolding my_generator_def
  by (subst for_gen.simps)
     (simp add: for_gen_MG_yield1 bnd_def print_values_def Let_def
           split: option.splits sum.splits prod.splits)


text \<open>
  C5: the first three calls of \<open>next\<close> on \<open>my_generator()\<close> return 1, 2 and 3, every
  later call raises \<open>StopIteration\<close>, and a \<open>for\<close> loop over the generator runs its body
  on exactly 1, 2, 3 in that order (each after the generator's own print), then ends
  normally; with the body \<open>print(item)\<close> of the script this gives the six output lines.
\<close>

theorem my_generator_yields_1_2_3:
  "fst (next_times my_generator_next (3 + Suc k) my_generator w)
     = [Inr 1, Inr 2, Inr 3] @ replicate (Suc k) (Inl StopIteration)
   \<and> for_gen my_generator_next body my_generator w
     = bnd (print_values [VStr ''This is printed first'']) (\<lambda>_.
       bnd (body 1) (\<lambda>_.
       bnd (print_values [VStr ''This is printed second'']) (\<lambda>_.
       bnd (body 2) (\<lambda>_.
       bnd (print_values [VStr ''This is printed third'']) (\<lambda>_.
       body 3))))) w
   \<and> for_gen my_generator_next (\<lambda>item. print_values [VInt item]) my_generator w
     = Some (Inr (), w\<lparr>out := out w @
         [Print [VStr ''This is printed first''], Print [VInt 1],
          Print [VStr ''This is printed second''], Print [VInt 2],
          Print [VStr ''This is printed third''], Print [VInt 3]]\<rparr>)"
proof (intro conjI)
  have "next_times my_generator_next (Suc k) (MG_yield3 3) w' =
          (replicate (Suc k) (Inl StopIteration), MG_finished, w')" for w'
    using my_generator_finished_stays [of k w'] by simp
  then show "fst (next_times my_generator_next (3 + Suc k) my_generator w)
     = [Inr 1, Inr 2, Inr 3] @ replicate (Suc k) (Inl StopIteration)"
    unfolding next_times_add my_generator_three by simp
next
  show "for_gen my_generator_next body my_generator w
     = bnd (print_values [VStr ''This is printed first'']) (\<lambda>_.
       bnd (body 1) (\<lambda>_.
       bnd (print_values [VStr ''This is printed second'']) (\<lambda>_.
       bnd (body 2) (\<lambda>_.
       bnd (print_values [VStr ''This is printed third'']) (\<lambda>_.
       body 3))))) w"
    by (rule my_generator_for)
next
  show "for_gen my_generator_next (\<lambda>item. print_values [VInt item]) my_generator w
     = Some (Inr (), w\<lparr>out := out w @
         [Print [VStr ''This is printed first''], Print [VInt 1],
          Print [VStr ''This is printed second''], Print [VInt 2],
          Print [VStr ''This is printed third''], Print [VInt 3]]\<rparr>)"
    by (simp add: my_generator_for bnd_def print_values_def emit_def)
qed

lemma gen_list_RS_loop_end:
  "i \<le> - 1 \<Longrightarrow> gen_list reverse_string_next (RS_loop s len i) acc w = Some (Inr acc, w)"
  by (subst gen_list.simps) simp

lemma gen_list_RS_loop_step:
  "0 \<le> i \<Longrightarrow> i < int (length s) \<Longrightarrow>
   gen_list reverse_string_next (RS_loop s len i) acc w =
     gen_list reverse_string_next (RS_loop s len (i - 1)) (acc @ [[s ! nat i]]) w"
  by (subst gen_list.simps) (simp add: str_getitem_def)

lemma gen_list_RS_created:
  "gen_list reverse_string_next (RS_created s) acc w =
     gen_list reverse_string_next (RS_loop s (int (length s)) (int (length s) - 1)) acc w"
proof -
  have same: "reverse_string_next (RS_created s) w =
      reverse_string_next (RS_loop s (int (length s)) (int (length s) - 1)) w"
    by (simp add: Let_def)
  show ?thesis
    by (rule trans [OF gen_list.simps], subst same, rule gen_list.simps [symmetric])
qed

lemma gen_list_RS_loop:
  "n \<le> length s \<Longrightarrow>
   gen_list reverse_string_next (RS_loop s len (int n - 1)) acc w =
     Some (Inr (acc @ map (\<lambda>c. [c]) (rev (take n s))), w)"
proof (induction n arbitrary: acc)
  case 0
  show ?case by (simp add: gen_list_RS_loop_end)
next
  case (Suc n)
  have lt: "n < length s" using Suc.prems by simp
  have "gen_list reverse_string_next (RS_loop s len (int n)) acc w =
        gen_list reverse_string_next (RS_loop s len (int n - 1)) (acc @ [[s ! n]]) w"
    using gen_list_RS_loop_step [of "int n" s len acc w] lt by simp
  also have "\<dots> = Some (Inr ((acc @ [[s ! n]]) @ map (\<lambda>c. [c]) (rev (take n s))), w)"
    using Suc.IH [of "acc @ [[s ! n]]"] lt by simp
  finally show ?case
    using lt by (simp add: take_Suc_conv_app_nth)
qed

lemma gen_list_reverse_string:
  "gen_list reverse_string_next (reverse_string s) [] w = Some (Inr (map (\<lambda>c. [c]) (rev s)), w)"
  using gen_list_RS_loop [of "length s" s "int (length s)" "[]" w]
  by (simp add: reverse_string_def gen_list_RS_created)

lemma concat_singletons: "concat (map (\<lambda>c. [c]) xs) = xs"
  by (induction xs) simp_all

lemma join_reverse_string_rev: "join_reverse_string s w = Some (Inr (rev s), w)"
  by (simp add: join_reverse_string_def gen_list_reverse_string concat_singletons)

text \<open>
  C9: the one-character strings yielded by \<open>reverse_string(s)\<close> are the characters of
  \<open>s\<close> in reverse order, the generator ends (no exception, nothing printed), and
  reversing the concatenated yields once more gives \<open>s\<close> back.
\<close>

theorem reverse_string_involution:
  "gen_list reverse_string_next (reverse_string s) [] w = Some (Inr (map (\<lambda>c. [c]) (rev s)), w)
   \<and> join_reverse_string s w = Some (Inr (rev s), w)
   \<and> bnd (join_reverse_string s) join_reverse_string w = Some (Inr s, w)"
  by (simp add: gen_list_reverse_string join_reverse_string_rev bnd_def)

section \<open>Properties of the custom iterator\<close>

lemma py_pow_int_2: "0 \<le> n \<Longrightarrow> py_pow_int 2 n = Inr (VInt (2 ^ nat n))"
  by (simp add: py_pow_int_def)

lemma Pow_of_Two_next_times:
  "int j + int k \<le> mx + 1 \<Longrightarrow>
   next_times Pow_of_Two_next k \<lparr>self_max = mx, self_n = Some (int j)\<rparr> w =
     (map (\<lambda>i. Inr (VInt (2 ^ i))) [j..<j + k], \<lparr>self_max = mx, self_n = Some (int j + int k)\<rparr>, w)"
proof (induction k arbitrary: j)
  case 0
  show ?case by simp
next
  case (Suc k)
  have le: "int j \<le> mx" using Suc.prems by simp
  have first: "Pow_of_Two_next \<lparr>self_max = mx, self_n = Some (int j)\<rparr> w =
      (Inr (VInt (2 ^ j)), \<lparr>self_max = mx, self_n = Some (int (Suc j))\<rparr>, w)"
    using le by (simp add: Pow_of_Two_next_def py_pow_int_2)
  have rest: "next_times Pow_of_Two_next k \<lparr>self_max = mx, self_n = Some (int (Suc j))\<rparr> w =
      (map (\<lambda>i. Inr (VInt (2 ^ i))) [Suc j..<Suc j + k],
       \<lparr>self_max = mx, self_n = Some (int (Suc j) + int k)\<rparr>, w)"
    using Suc.IH [of "Suc j"] Suc.prems by simp
  have lst: "[j..<j + Suc k] = j # [Suc j..<Suc j + k]"
    by (subst upt_rec) simp
  show ?case
    unfolding next_times.simps first rest prod.case lst by simp
qed

lemma Pow_of_Two_exhausted:
  "mx < n \<Longrightarrow>
   Pow_of_Two_next \<lparr>self_max = mx, self_n = Some n\<rparr> w =
     (Inl StopIteration, \<lparr>self_max = mx, self_n = Some n\<rparr>, w)"
  by (simp add: Pow_of_Two_next_def)

lemma gen_list_Pow_of_Two:
  "k = nat (mx + 1 - int j) \<Longrightarrow> int j \<le> mx + 1 \<Longrightarrow>
   gen_list Pow_of_Two_next \<lparr>self_max = mx, self_n = Some (int j)\<rparr> acc w =
     Some (Inr (acc @ map (\<lambda>i. VInt (2 ^ i)) [j..<j + k]), w)"
proof (induction k arbitrary: j acc)
  case 0
  then have "mx < int j" by simp
  then show ?case
    by (subst gen_list.simps) (simp add: Pow_of_Two_exhausted)
next
  case (Suc k)
  have le: "int j \<le> mx" using Suc.prems by simp
  have first: "Pow_of_Two_next \<lparr>self_max = mx, self_n = Some (int j)\<rparr> w =
      (Inr (VInt (2 ^ j)), \<lparr>self_max = mx, self_n = Some (int (Suc j))\<rparr>, w)"
    using le by (simp add: Pow_of_Two_next_def py_pow_int_2)
  have k: "k = nat (mx + 1 - int (Suc j))" "int (Suc j) \<le> mx + 1"
    using Suc.prems by simp_all
  have rest: "gen_list Pow_of_Two_next \<lparr>self_max = mx, self_n = Some (int (Suc j))\<rparr>
        (acc @ [VInt (2 ^ j)]) w =
      Some (Inr ((acc @ [VInt (2 ^ j)]) @ map (\<lambda>i. VInt (2 ^ i)) [Suc j..<Suc j + k]), w)"
    by (rule Suc.IH [OF k])
  have unfold: "gen_list Pow_of_Two_next \<lparr>self_max = mx, self_n = Some (int j)\<rparr> acc w =
      gen_list Pow_of_Two_next \<lparr>self_max = mx, self_n = Some (int (Suc j))\<rparr>
        (acc @ [VInt (2 ^ j)]) w"
    by (subst gen_list.simps) (simp only: first prod.case sum.case)
  have lst: "[j..<j + Suc k] = j # [Suc j..<Suc j + k]"
    by (subst upt_rec) simp
  show ?case
    unfolding unfold rest lst by simp
qed

lemma Pow_of_Two_run:
  assumes "0 \<le> mx"
  shows "fst (next_times Pow_of_Two_next (nat mx + 2) (Pow_of_Two_iter (Pow_of_Two_init mx)) w)
           = map (\<lambda>i. Inr (VInt (2 ^ i))) [0..<nat mx + 1] @ [Inl StopIteration]"
    and "gen_list Pow_of_Two_next (Pow_of_Two_iter (Pow_of_Two_init mx)) [] w
           = Some (Inr (map (\<lambda>i. VInt (2 ^ i)) [0..<nat mx + 1]), w)"
proof -
  have start: "Pow_of_Two_iter (Pow_of_Two_init mx) = \<lparr>self_max = mx, self_n = Some (int 0)\<rparr>"
    by (simp add: Pow_of_Two_iter_def Pow_of_Two_init_def)
  have run: "next_times Pow_of_Two_next (nat mx + 1) \<lparr>self_max = mx, self_n = Some (int 0)\<rparr> w =
      (map (\<lambda>i. Inr (VInt (2 ^ i))) [0..<0 + (nat mx + 1)],
       \<lparr>self_max = mx, self_n = Some (int 0 + int (nat mx + 1))\<rparr>, w)"
    by (rule Pow_of_Two_next_times) (use assms in simp)
  have last: "next_times Pow_of_Two_next 1 \<lparr>self_max = mx, self_n = Some (int 0 + int (nat mx + 1))\<rparr> w =
      ([Inl StopIteration], \<lparr>self_max = mx, self_n = Some (int 0 + int (nat mx + 1))\<rparr>, w)"
    using assms by (simp add: Pow_of_Two_exhausted)
  have eq2: "nat mx + 2 = (nat mx + 1) + 1" by simp
  have "next_times Pow_of_Two_next (nat mx + 2) \<lparr>self_max = mx, self_n = Some (int 0)\<rparr> w =
      (map (\<lambda>i. Inr (VInt (2 ^ i))) [0..<0 + (nat mx + 1)] @ [Inl StopIteration],
       \<lparr>self_max = mx, self_n = Some (int 0 + int (nat mx + 1))\<rparr>, w)"
    by (subst eq2, subst next_times_add) (simp only: run last prod.case)
  then show "fst (next_times Pow_of_Two_next (nat mx + 2) (Pow_of_Two_iter (Pow_of_Two_init mx)) w)
           = map (\<lambda>i. Inr (VInt (2 ^ i))) [0..<nat mx + 1] @ [Inl StopIteration]"
    unfolding start by simp
  show "gen_list Pow_of_Two_next (Pow_of_Two_iter (Pow_of_Two_init mx)) [] w
           = Some (Inr (map (\<lambda>i. VInt (2 ^ i)) [0..<nat mx + 1]), w)"
  proof -
    have k: "nat mx + 1 = nat (mx + 1 - int 0)" and j: "int 0 \<le> mx + 1"
      using assms by simp_all
    show ?thesis
      unfolding start using gen_list_Pow_of_Two [OF k j, of "[]" w] by simp
  qed
qed

text \<open>
  C8: for \<open>max \<ge> 0\<close>, after \<open>iter()\<close> the first \<open>max + 1\<close> calls of \<open>next\<close> return
  \<open>2^0, ..., 2^max\<close> in order and call number \<open>max + 2\<close> raises \<open>StopIteration\<close>; a loop
  over the object collects exactly these values and ends.
\<close>

theorem Pow_of_Two_yields_powers:
  "0 \<le> mx \<Longrightarrow>
   fst (next_times Pow_of_Two_next (nat mx + 2) (Pow_of_Two_iter (Pow_of_Two_init mx)) w)
     = map (\<lambda>i. Inr (VInt (2 ^ i))) [0..<nat mx + 1] @ [Inl StopIteration]
   \<and> gen_list Pow_of_Two_next (Pow_of_Two_iter (Pow_of_Two_init mx)) [] w
     = Some (Inr (map (\<lambda>i. VInt (2 ^ i)) [0..<nat mx + 1]), w)"
  using Pow_of_Two_run [of mx w] by simp

text \<open>The object of the script, \<open>Pow_of_Two(4)\<close>: 1, 2, 4, 8, 16, then \<open>StopIteration\<close>.\<close>

theorem Pow_of_Two_yields_powers_witness:
  "\<forall>w. (0::int) \<le> 4
     \<and> fst (next_times Pow_of_Two_next 6 (Pow_of_Two_iter (Pow_of_Two_init 4)) w)
       = [Inr (VInt 1), Inr (VInt 2), Inr (VInt 4), Inr (VInt 8), Inr (VInt 16),
          Inl StopIteration]
     \<and> gen_list Pow_of_Two_next (Pow_of_Two_iter (Pow_of_Two_init 4)) [] w
       = Some (Inr [VInt 1, VInt 2, VInt 4, VInt 8, VInt 16], w)"
proof
  fix w
  have h: "(0::int) \<le> 4" by simp
  show "(0::int) \<le> 4
     \<and> fst (next_times Pow_of_Two_next 6 (Pow_of_Two_iter (Pow_of_Two_init 4)) w)
       = [Inr (VInt 1), Inr (VInt 2), Inr (VInt 4), Inr (VInt 8), Inr (VInt 16),
          Inl StopIteration]
     \<and> gen_list Pow_of_Two_next (Pow_of_Two_iter (Pow_of_Two_init 4)) [] w
       = Some (Inr [VInt 1, VInt 2, VInt 4, VInt 8, VInt 16], w)"
    using Pow_of_Two_yields_powers [OF h, of w] by (simp add: upt_rec)
qed

section \<open>Properties of the decorated division\<close>






section \<open>Properties of the exception-handling scripts\<close>





section \<open>Properties of whole scripts\<close>

lemmas stmt_defs =
  eq_py_def is_same_def not_py_def and_py_def or_py_def assert_def stmt_def
  for_in_def py_range_def break_loop_def continue_loop_def if_flow_def if_else_def
  if_then_def import_as_def import_module_def from_import_as_def from_import_def
  load_module_def repo_modules_def stdlib_modules_def

lemmas op_defs =
  py_add_def py_sub_def py_mul_def arith_def is_decimal_def dec_of_def py_gt_def py_lt_def
  eq_value_def cnum_of_def py_truediv_def repeat_def py_in_def py_not_in_def

lemmas seq_defs =
  norm_index_def slice_bound_def slice_def py_slice_def py_getitem_def py_setitem_def
  py_delitem_def py_len_def py_iter_def iter_of_def update_name_def set_item_def
  del_item_def set_item2_def del_item2_def

text \<open>
  \<open>example5.py\<close> in any world: eleven lines are printed, \<open>math\<close> is imported, and the
  statement \<open>assert 5 > 5\<close> of line 31 raises \<open>AssertionError\<close>, which nothing catches;
  no later statement runs.
\<close>

lemma example5_runs:
  "example5 w =
     Some (Inl AssertionError,
       w\<lparr>imported := imported w @ [''math''],
         globals := (globals w)(''x'' \<mapsto> VNone, ''myMath'' \<mapsto> VModule ''math''),
         out := out w @
           [Print [VBool True], Print [VBool False], Print [VBool False],
            Print [VBool False], Print [VBool False], Print [VBool True],
            Print [VNone], Print [VBool False], Print [VBool True],
            Print [VBool False], Print [VFloat (- 1)]]\<rparr>)"
  by (simp add: example5_def py_defs stmt_defs op_defs a_void_function_def
        math_cos_def math_pi_def emit_def)

lemmas method_defs =
  int_lit_def str_lit_def subscript_def slice_of_def len_of_def method_append_def
  method_remove_def method_pop_def method_pop0_def method_popitem_def method_clear_def
  method_get_def call_update_def call_result_def

lemmas obj_defs =
  mro_of_def invoke_def invoke_super_def construct_def call_method_def py_getattr_def
  attr_def py_setattr_def set_attr_def plain_method_def

lemmas fmt_defs = format_def str_format_def check_spec_def is_digit_def digit_of_def



lemma array_imple3_runs:
  "array_imple3 w =
    Some
     (Inr (),
      w\<lparr>globals :=
          (globals w)
          (''arr'' \<mapsto> VList [VInt 10, VInt 20, VInt 30, VInt 40, VInt 50],
             ''brands_length'' \<mapsto> VInt 5,
             ''brands'' \<mapsto>
             VList [VStr ''banana'', VStr ''Google'', VStr ''mango''],
             ''concat'' \<mapsto>
             VList [VInt 1, VInt 2, VInt 3, VInt 4, VInt 5, VInt 6],
             ''repeat'' \<mapsto> VList (replicate 5 (VStr ''a'')),
             ''fruits'' \<mapsto>
             VList
              [VStr ''Apple'', VStr ''Banana'', VStr ''Mango'',
               VStr ''Grapes'', VStr ''Orange''],
             ''multd'' \<mapsto>
             VList
              [VList [VInt 1, VInt 2], VList [VInt 3, VInt 4],
               VList [VInt 5, VInt 6], VList [VInt 7, VInt 8]]),
          out :=
            out w @
            [Print [VList [VInt 10, VInt 20, VInt 30, VInt 40, VInt 50]],
             Print [VInt 10, VInt 20, VInt 30, VInt 50, VInt 40],
             Print [VInt 5],
             Print
              [VList
                [VStr ''Coke'', VStr ''Apple'', VStr ''Google'',
                 VStr ''Microsoft'', VStr ''Toyota'', VStr ''Intel'']],
             Print
              [VList
                [VStr ''Apple'', VStr ''Google'', VStr ''Microsoft'',
                 VStr ''Toyota'', VStr ''Intel'']],
             Print
              [VList
                [VStr ''Apple'', VStr ''Google'', VStr ''Microsoft'',
                 VStr ''Toyota'']],
             Print
              [VList [VStr ''Apple'', VStr ''Google'', VStr ''Microsoft'']],
             Print
              [VList [VStr ''banana'', VStr ''Google'', VStr ''mango'']],
             Print [VList [VInt 1, VInt 2, VInt 3, VInt 4, VInt 5, VInt 6]],
             Print [VList (replicate 5 (VStr ''a''))],
             Print
              [VList [VStr ''Banana'', VStr ''Mango'', VStr ''Grapes'']],
             Print
              [VList [VStr ''Apple'', VStr ''Banana'', VStr ''Mango'']],
             Print
              [VList
                [VStr ''Banana'', VStr ''Mango'', VStr ''Grapes'',
                 VStr ''Orange'']],
             Print [VList [VStr ''Mango'', VStr ''Grapes'']],
             Print
              [VList
                [VList [VInt 1, VInt 2], VList [VInt 3, VInt 4],
                 VList [VInt 5, VInt 6], VList [VInt 7, VInt 8]]],
             Print [VList [VInt 1, VInt 2]], Print [VList [VInt 7, VInt 8]],
             Print [VInt 8], Print [VInt 5]]\<rparr>)"
  by (simp add: array_imple3_def py_defs op_defs seq_defs method_defs emit_def)

lemma example2_runs:
  "example2 w =
    Some
     (Inr (),
      w\<lparr>globals :=
          (globals w)
          (''cmplx1'' \<mapsto>
             VObject ''MyComplexNumber''
              [(''real_part'', VInt 40), (''imag_part'', VInt 50)],
             ''cmplx2'' \<mapsto>
             VObject ''MyComplexNumber''
              [(''real_part'', VInt 10), (''imag_part'', VInt 20),
               (''my_property'', VInt 30)]),
          out :=
            out w @
            [Print [VStr ''My Complex Number Constructor Executing...''],
             Print [VFormat ''{0} + {1}j'' [VInt 40, VInt 50] []],
             Print [VStr ''My Complex Number Constructor Executing...''],
             Print
              [VObject ''MyComplexNumber''
                [(''real_part'', VInt 10), (''imag_part'', VInt 20),
                 (''my_property'', VInt 30)],
               VInt 10, VInt 30]]\<rparr>)"
  by (simp add: example2_def py_defs method_defs seq_defs obj_defs fmt_defs emit_def
        example2_classes_def example2_methods_def MyComplexNumber_init_def
        MyComplexNumber_displayComplex_def)

lemma multiple_inheritance20_runs:
  "multiple_inheritance20 w =
    Some
     (Inr (),
      w\<lparr>out :=
          out w @
          [Print [VStr ''multiDerived function is executing...''],
           Print [VStr ''Fun1 is executing...''],
           Print [VStr ''Fun2 in executing...''],
           Print [VStr ''Fun3 is executing...'']],
          globals := (globals w)(''md1'' \<mapsto> VObject ''MultiDerived'' [])\<rparr>)"
  by (simp add: multiple_inheritance20_def py_defs method_defs obj_defs emit_def
        multiple_inheritance20_classes_def multiple_inheritance20_methods_def
        Base1_fun1_def Base2_fun2_def Base3_fun3_def MultiDerived_multiDerived_def)

lemma example19_runs:
  "example19 w =
    Some
     (Inr (),
      w\<lparr>globals :=
          (globals w)
          (''pg1'' \<mapsto> VObject ''myPenguin'' [],
             ''bird_parrot'' \<mapsto> VObject ''MyParrot'' [],
             ''bird_penguin'' \<mapsto> VObject ''MyPenguin'' []),
          out :=
            out w @
            [Print [VStr ''myBird class constructor is executing...''],
             Print [VStr ''myPenguin class constructor is executing...''],
             Print [VStr ''I can run faster...''],
             Print [VStr ''I can Swim...''],
             Print [VStr ''I am a Bird...''],
             Print [VStr ''I am Penguin...''],
             Print [VStr ''Parrot can fly...''],
             Print [VStr ''Parrot Cannot Swim...''],
             Print [VStr ''Penguin cannot fly...''],
             Print [VStr ''Penguin can swim...'']]\<rparr>)"
  by (simp add: example19_def py_defs method_defs obj_defs emit_def example19_classes_def example19_methods_def myBird_methods_def myBird_init_def myBird_whatType_def myBird_canSwim_def myPenguin_init_def myPenguin_whoisThis_def myPenguin_canRun_def MyParrot_canFly_def MyParrot_canSwim_def MyPenguin_canFly_def MyPenguin_canSwim_def flying_bird_test_def)

lemma example28_runs:
  "example28 w =
    Some
     (Inr (),
      w\<lparr>out :=
          out w @
          [Print [VStr ''myParrot class constructor is executing...''],
           Print [VStr ''myParrot class constructor is executing...''],
           Print [VFormat ''mp1 is {}'' [VStr ''bird''] []],
           Print [VFormat ''mp2 is also a {}'' [VStr ''bird''] []],
           Print
            [VFormat ''{} is {} years of age'' [VStr ''MyParrpt1'', VInt 10]
              []],
           Print
            [VFormat ''{} is {} years of age'' [VStr ''MyParrot2'', VInt 12]
              []],
           Print
            [VFormat ''{} can sing {}'' [VStr ''MyParrpt1'', VStr ''chirp'']
              []],
           Print [VStr ''myBird class constructor is executing...''],
           Print [VStr ''Penguin is ready''],
           Print [VStr ''I am Penguin.''], Print [VStr ''I can Swim...''],
           Print [VStr ''I can run faster.''],
           Print [VFormat ''selling price: {}'' [VInt 20000] []],
           Print [VFormat ''selling price: {}'' [VInt 30000] []],
           Print [VFormat ''selling price: {}'' [VInt 40000] []]],
          globals :=
            (globals w)
            (''mp2'' \<mapsto>
               VObject ''myParrot''
                [(''name'', VStr ''MyParrot2''), (''age'', VInt 12)],
               ''mp1'' \<mapsto>
               VObject ''myParrot''
                [(''name'', VStr ''MyParrpt1''), (''age'', VInt 10)],
               ''pg1'' \<mapsto> VObject ''myPenguin'' [],
               ''pc'' \<mapsto>
               VObject ''personalComputer''
                [(''maxComputerPrice'', VInt 40000)])\<rparr>)"
  by (simp add: example28_def py_defs method_defs seq_defs obj_defs fmt_defs emit_def example28_classes_def example28_methods_def myBird_methods_def myBird_init_def myBird_whatType_def myBird_canSwim_def myParrot_init_def myParrot_canSing_def myPenguin28_init_def myPenguin28_whoIsThis_def myPenguin28_canRun_def personalComputer_init_def personalComputer_mySell_def personalComputer_setMaxComputerPrice_def)

lemma example12_runs:
  "example12 w =
    Some
     (Inr (),
      w\<lparr>globals :=
          (globals w)
          (''num_int'' \<mapsto> VInt 123, ''num_float'' \<mapsto> VFloat (123 / 100),
             ''new_num'' \<mapsto> VFloat (12423 / 100), ''num_int1'' \<mapsto> VInt 123,
             ''num_str1'' \<mapsto> VInt 123, ''num_sum'' \<mapsto> VInt 246),
          out :=
            out w @
            [Print
              [VStr ''Interger Number:'', VInt 123, VStr ''Type:'',
               VType ''int''],
             Print
              [VStr ''Float Number:'', VFloat (123 / 100), VStr ''Type:'',
               VType ''float''],
             Print
              [VStr ''Added New Number:'', VFloat (12423 / 100),
               VStr ''Type:'', VType ''float''],
             Print
              [VStr ''Integer data type:'', VInt 123, VStr ''Type:'',
               VType ''int''],
             Print
              [VStr ''String data type:'', VStr ''123'', VStr ''Type:'',
               VType ''str''],
             Print
              [VStr ''Data type of the string after Type casting'',
               VType ''int''],
             Print
              [VStr ''Sum of num_str1 & num_int1:'', VInt 246,
               VStr ''Type:'', VType ''int'']]\<rparr>)"
  by (simp add: example12_def py_defs method_defs op_defs type_of_def emit_def int_of_str_def strip_def is_space_def digit_of_def)

lemma example14_runs:
  "example14 w =
    Some
     (Inr (),
      w\<lparr>globals := (globals w)(''b'' \<mapsto> VInt 2, ''a'' \<mapsto> VInt 30),
          out :=
            out w @
            [Print [VStr ''id(2)'', VInt (int (address w (VInt 2)))],
             Print [VStr ''id(a)'', VInt (int (address w (VInt 2)))],
             Print [VInt (int (address w (VInt 2)))],
             Print [VInt (int (address w (VInt 3)))],
             Print [VInt (int (address w (VInt 3)))],
             Print [VInt (int (address w (VInt 2)))],
             Print [VInt (int (address w (VInt 2)))], Print [VInt 10],
             Print [VStr ''a value:'', VInt 30],
             Print [VStr ''a value:'', VInt 30], Print [VInt 30]]\<rparr>)"
  by (simp add: example14_def py_defs method_defs op_defs id_of_def emit_def outer_func14_def outer_func14_inner_func_def)

lemma example21_runs:
  "example21 w =
    Some
     (Inr (),
      w\<lparr>out :=
          out w @
          [Print [VStr ''Max of 10 and 20 is:'', VInt 20],
           Print
            [VStr ''Hello'', VStr ''srinu'',
             VStr
              [CHR '','', CHR '' '', CHR ''W'', CHR ''h'', CHR ''a'',
               CHR ''t'', CHR 0x27, CHR ''s'', CHR '' '', CHR ''u'',
               CHR ''p'', CHR ''?'']],
           Print
            [VStr ''Hello'', VStr ''stranger'', VStr '', how are you?''],
           Print
            [VStr ''Sum of all Integers between 1 and 5 is:'', VInt 15],
           Print
            [VFormat ''a = {}, b = {}, c = {}...''
              [VInt 10, VInt 20, VInt 30] []],
           Print
            [VFormat ''a = {}, b = {}, c = {}...''
              [VInt 10, VInt 20, VInt 0] []],
           Print
            [VFormat ''a = {}, b = {}, c = {}...'' [VInt 10, VInt 0, VInt 0]
              []],
           Print
            [VFormat ''a = {}, b = {}, c = {}...'' [VInt 0, VInt 0, VInt 0]
              []],
           Print
            [VFormat ''a = {}, b = {}, c = {}...''
              [VInt 111, VInt 222, VInt 333] []]]\<rparr>)"
  by (simp add: example21_def py_defs stmt_defs method_defs op_defs fmt_defs emit_def findMax_def hello_def hello_msg_def sumAll_def defaultArg_def)

lemma example16_runs:
  "example16 w =
    Some
     (Inr (),
      w\<lparr>globals := (globals w)(''x'' \<mapsto> VInt 25),
          out :=
            out w @
            [Print [VStr ''Before calling function2:'', VInt 20],
             Print [VStr ''Calling func2 now...''],
             Print [VStr ''After calling func2:'', VInt 20],
             Print [VStr ''Global x'', VInt 25]]\<rparr>)"
  by (simp add: example16_def py_defs method_defs emit_def func1_def func1_func2_def Let_def)

lemma global_local_nonlocal15_runs:
  "global_local_nonlocal15 w =
    Some
     (Inr (),
      w\<lparr>globals :=
          (globals w)(''x'' \<mapsto> VStr ''globalglobal'', ''a'' \<mapsto> VInt 5),
          out :=
            out w @
            [Print [VStr ''Global x:'', VStr ''global''],
             Print [VStr ''globalglobal''], Print [VStr ''local''],
             Print
              [VStr ''Global x after funct1 invocation:'',
               VStr ''globalglobal''],
             Print [VStr ''Global a:'', VInt 5],
             Print [VStr ''Local variable a:'', VInt 10],
             Print [VStr ''Global a:'', VInt 5],
             Print [VStr ''Outer b:'', VStr ''local''],
             Print [VStr ''Inner b:'', VStr ''nonlocal''],
             Print [VStr ''Outer b:'', VStr ''nonlocal'']]\<rparr>)"
  by (simp add: global_local_nonlocal15_def py_defs method_defs op_defs emit_def funct1_def func2_def outer_def outer_inner_def Let_def eval_nat_numeral)

lemma statements_and_comments31_runs:
  "statements_and_comments31 w =
    Some
     (Inr (),
      w\<lparr>globals :=
          (globals w)
          (''a'' \<mapsto> VInt 1, ''b'' \<mapsto> VInt 21, ''c'' \<mapsto> VInt 21, ''d'' \<mapsto> VInt 2,
             ''e'' \<mapsto> VInt 1, ''f'' \<mapsto> VInt 0, ''i'' \<mapsto> VInt 5),
          out :=
            out w @
            [Print [VInt 1], Print [VInt 2], Print [VInt 3], Print [VInt 4],
             Print [VInt 5], Print [VStr ''End of the program...'']]\<rparr>)"
  by (simp add: statements_and_comments31_def py_defs stmt_defs method_defs op_defs emit_def upt_rec)

lemma decorators34_runs:
  "decorators34 w =
    Some
     (Inr (),
      w\<lparr>out :=
          out w @
          [Print [VStr ''I got decorated.''],
           Print [VStr ''I am a simple function''],
           Print [VStr ''I got decorated.''],
           Print [VStr ''I am a simple function''],
           Print [VStr ''I am dividing x, and y''],
           Print [VStr ''20/2'', VFloat 10]]\<rparr>)"
  by (simp add: decorators34_def py_defs method_defs op_defs emit_def make_decorated_def simple_func_def go_divide_def my_smart_div_def go_divide_undecorated_def)

lemma example17_runs:
  "example17 w =
    Some
     (Inr (),
      w\<lparr>out :=
          out w @
          [Print [VInt 44], Print [VInt 77], Print [VInt 11],
           Print [VInt 33],
           Print
            [VStr ''class to implement an iterator \<newline>    of power of two''],
           Print [VInt 1], Print [VInt 2], Print [VInt 4],
           Print [VStr ''Infinite Iterator to return all\<newline>    odd numbers''],
           Print [VInt 1], Print [VInt 3], Print [VInt 5],
           Print [VInt 7]]\<rparr>)"
  by (simp add: example17_def py_defs next_of_def print_next_def list_iter_def list_iter_next_def Pow_of_Two_doc_def Infinite_Iter_doc_def Pow_of_Two_init_def Pow_of_Two_iter_def Pow_of_Two_next_def Infinite_Iter_init_def Infinite_Iter_iter_def Infinite_Iter_next_def py_pow_int_def emit_def Let_def)

lemma example33_runs:
  "example33 w =
    Some
     (Inr (),
      w\<lparr>globals := (globals w)(''item'' \<mapsto> VInt 3, ''char'' \<mapsto> VStr ''W''),
          out :=
            out w @
            [Print [VStr ''This is printed first''],
             Print [VStr ''This is printed second''],
             Print [VStr ''This is printed third''],
             Print [VStr ''Using for loop...''],
             Print [VStr ''This is printed first''], Print [VInt 1],
             Print [VStr ''This is printed second''], Print [VInt 2],
             Print [VStr ''This is printed third''], Print [VInt 3],
             Print [VStr ''d''], Print [VStr ''l''], Print [VStr ''r''],
             Print [VStr ''o''], Print [VStr ''W'']]\<rparr>)"
  by (simp add: example33_def py_defs method_defs next_of_def my_generator_def my_generator_for emit_def Let_def for_gen.simps reverse_string_def str_getitem_def)

lemma example10_runs:
  "example10 w =
    Some
     (Inr (),
      w\<lparr>globals :=
          (globals w)
          (''new_dict'' \<mapsto>
             VDict
              [(VInt 1, VStr ''Hey''), (VInt 2, VStr ''Hi''),
               (VInt 3, VStr ''Hola''), (VInt 4, VStr ''Namste'')],
             ''squares'' := None,
             ''squares1'' \<mapsto>
             VDict
              [(VInt 0, VInt 0), (VInt 1, VInt 1), (VInt 2, VInt 4),
               (VInt 3, VInt 9), (VInt 4, VInt 16), (VInt 5, VInt 25)],
             ''squares2'' \<mapsto>
             VDict
              [(VInt 1, VInt 1), (VInt 3, VInt 9), (VInt 5, VInt 25),
               (VInt 7, VInt 49), (VInt 9, VInt 81)],
             ''i'' \<mapsto> VInt 9),
          out :=
            out w @
            [Print
              [VDict
                [(VInt 1, VStr ''Hello''), (VInt 2, VStr ''Hi''),
                 (VInt 3, VStr ''Hola'')]],
             Print [VStr ''Hello''], Print [VStr ''Hi''],
             Print
              [VDict
                [(VInt 1, VStr ''Hey''), (VInt 2, VStr ''Hi''),
                 (VInt 3, VStr ''Hola'')]],
             Print
              [VDict
                [(VInt 1, VStr ''Hey''), (VInt 2, VStr ''Hi''),
                 (VInt 3, VStr ''Hola''), (VInt 4, VStr ''Namste'')]],
             Print
              [VDict
                [(VInt 1, VInt 1), (VInt 2, VInt 4), (VInt 3, VInt 9),
                 (VInt 4, VInt 16), (VInt 5, VInt 25)]],
             Print [VInt 16],
             Print
              [VDict
                [(VInt 1, VInt 1), (VInt 2, VInt 4), (VInt 3, VInt 9),
                 (VInt 5, VInt 25)]],
             Print [VTuple [VInt 5, VInt 25]],
             Print
              [VDict
                [(VInt 1, VInt 1), (VInt 2, VInt 4), (VInt 3, VInt 9)]],
             Print [VDict [(VInt 2, VInt 4), (VInt 3, VInt 9)]],
             Print [VDict []],
             Print
              [VDict
                [(VInt 0, VInt 0), (VInt 1, VInt 1), (VInt 2, VInt 4),
                 (VInt 3, VInt 9), (VInt 4, VInt 16), (VInt 5, VInt 25)]],
             Print [VBool True], Print [VBool True], Print [VBool False],
             Print [VInt 1], Print [VInt 9], Print [VInt 25],
             Print [VInt 49], Print [VInt 81], Print [VInt 5],
             Print [VList [VInt 1, VInt 3, VInt 5, VInt 7, VInt 9]]]\<rparr>)"
  by (simp add: example10_def py_defs stmt_defs method_defs op_defs seq_defs emit_def squares1_item_def py_sorted_def upt_rec)

lemma example29_runs:
  "example29 w =
    Some
     (Inr (),
      w\<lparr>globals :=
          (globals w)
          (''people'' \<mapsto>
             VDict
              [(VInt 2,
                VDict
                 [(VStr ''name'', VStr ''Marie''),
                  (VStr ''age'', VStr ''25''),
                  (VStr ''sex'', VStr ''Female'')])],
             ''p_id'' \<mapsto> VInt 2,
             ''p_info'' \<mapsto>
             VDict
              [(VStr ''name'', VStr ''Marie''), (VStr ''age'', VStr ''25''),
               (VStr ''sex'', VStr ''Female'')],
             ''key'' \<mapsto> VStr ''sex''),
          out :=
            out w @
            [Print
              [VDict
                [(VInt 1,
                  VDict
                   [(VStr ''name'', VStr ''John''),
                    (VStr ''age'', VStr ''24''),
                    (VStr ''sex'', VStr ''Male'')]),
                 (VInt 2,
                  VDict
                   [(VStr ''name'', VStr ''Marie''),
                    (VStr ''age'', VStr ''25''),
                    (VStr ''sex'', VStr ''Female'')])]],
             Print [VStr ''Marie''],
             Print
              [VDict
                [(VStr ''name'', VStr ''John''),
                 (VStr ''age'', VStr ''24''),
                 (VStr ''sex'', VStr ''Male'')]],
             Print [VStr ''John''], Print [VStr ''24''],
             Print [VStr ''Male''],
             Print
              [VStr ''people'',
               VDict
                [(VInt 1,
                  VDict
                   [(VStr ''name'', VStr ''John''),
                    (VStr ''age'', VStr ''24''),
                    (VStr ''sex'', VStr ''Male'')]),
                 (VInt 2,
                  VDict
                   [(VStr ''name'', VStr ''Marie''),
                    (VStr ''age'', VStr ''25''),
                    (VStr ''sex'', VStr ''Female'')]),
                 (VInt 3,
                  VDict
                   [(VStr ''name'', VStr ''Luna''),
                    (VStr ''age'', VStr ''24''),
                    (VStr ''sex'', VStr ''Female''),
                    (VStr ''married'', VStr ''No'')])]],
             Print
              [VDict
                [(VInt 1,
                  VDict
                   [(VStr ''name'', VStr ''John''),
                    (VStr ''age'', VStr ''24''),
                    (VStr ''sex'', VStr ''Male'')]),
                 (VInt 2,
                  VDict
                   [(VStr ''name'', VStr ''Marie''),
                    (VStr ''age'', VStr ''25''),
                    (VStr ''sex'', VStr ''Female'')]),
                 (VInt 3,
                  VDict
                   [(VStr ''age'', VStr ''24''),
                    (VStr ''sex'', VStr ''Female''),
                    (VStr ''married'', VStr ''No'')])]],
             Print
              [VDict
                [(VInt 2,
                  VDict
                   [(VStr ''name'', VStr ''Marie''),
                    (VStr ''age'', VStr ''25''),
                    (VStr ''sex'', VStr ''Female'')])]],
             Print [VStr ''\<newline> Person ID:'', VInt 2],
             Print [VStr ''name:'', VStr ''Marie''],
             Print [VStr ''age:'', VStr ''25''],
             Print [VStr ''sex:'', VStr ''Female'']]\<rparr>)"
  by (simp add: example29_def py_defs stmt_defs method_defs op_defs seq_defs emit_def dict_items_def for_in2_def unpack_def)

lemma example6_runs:
  "example6 w =
    Some
     (Inr (),
      w\<lparr>globals :=
          (globals w)
          (''tuple1'' \<mapsto> VTuple [],
             ''tuple2'' \<mapsto> VTuple [VInt 1, VInt 2, VInt 3],
             ''tuple3'' \<mapsto>
             VTuple [VStr ''Srinu'', VInt 24, VFloat 200, VBool True],
             ''tuple4'' \<mapsto>
             VTuple
              [VStr ''points'', VList [VInt 1, VInt 4, VInt 3],
               VTuple [VInt 7, VInt 8, VInt 6]],
             ''tuple5'' \<mapsto>
             VTuple [VInt 101, VStr ''srinu'', VFloat 2000, VStr ''Tech''],
             ''empid'' \<mapsto> VInt 101, ''empname'' \<mapsto> VStr ''srinu'',
             ''empsal'' \<mapsto> VFloat 2000, ''empdept'' \<mapsto> VStr ''Tech'',
             ''tuple6'' \<mapsto>
             VTuple
              [VStr ''w'', VStr ''e'', VStr ''l'', VStr ''c'', VStr ''o'',
               VStr ''m'', VStr ''e''],
             ''nested_tuple'' \<mapsto>
             VTuple
              [VStr ''point'', VList [VInt 1, VInt 3, VInt 5],
               VTuple [VInt 8, VInt 7, VInt 9]],
             ''slicing_tuple'' \<mapsto>
             VTuple
              [VStr ''w'', VStr ''e'', VStr ''l'', VStr ''c'', VStr ''o'',
               VStr ''m'', VStr ''e''],
             ''tuple7'' \<mapsto>
             VTuple
              [VStr ''g'', VStr ''o'', VStr ''o'', VStr ''d'', VStr ''b'',
               VStr ''y'', VStr ''e''],
             ''tuple8'' \<mapsto> VTuple [VStr ''w'', VStr ''e'', VStr ''l''],
             ''tuple9'' \<mapsto>
             VTuple [VStr ''c'', VStr ''o'', VStr ''m'', VStr ''e''],
             ''tuple_to_delete'' \<mapsto>
             VTuple
              [VStr ''d'', VStr ''e'', VStr ''l'', VStr ''e'', VStr ''t'',
               VStr ''e'', VStr ''m'', VStr ''e''],
             ''tuple10'' \<mapsto>
             VTuple
              [VStr ''w'', VStr ''e'', VStr ''l'', VStr ''c'', VStr ''o'',
               VStr ''m'', VStr ''e'', VStr ''c''],
             ''letters'' \<mapsto> VStr ''c'',
             ''tuple11'' \<mapsto>
             VTuple
              [VInt 22, VInt 33, VInt 55, VInt 44, VInt 77, VInt 66,
               VInt 11]),
          out :=
            out w @
            [Print [VTuple []], Print [VTuple [VInt 1, VInt 2, VInt 3]],
             Print
              [VTuple [VStr ''Srinu'', VInt 24, VFloat 200, VBool True]],
             Print
              [VTuple
                [VStr ''points'', VList [VInt 1, VInt 4, VInt 3],
                 VTuple [VInt 7, VInt 8, VInt 6]]],
             Print
              [VTuple
                [VInt 101, VStr ''srinu'', VFloat 2000, VStr ''Tech'']],
             Print [VInt 101], Print [VStr ''srinu''], Print [VFloat 2000],
             Print [VStr ''Tech''],
             Print
              [VTuple
                [VStr ''w'', VStr ''e'', VStr ''l'', VStr ''c'', VStr ''o'',
                 VStr ''m'', VStr ''e'']],
             Print [VStr ''e''], Print [VStr ''c''], Print [VStr ''m''],
             Print
              [VStr ''Nested tuple'',
               VTuple
                [VStr ''point'', VList [VInt 1, VInt 3, VInt 5],
                 VTuple [VInt 8, VInt 7, VInt 9]]],
             Print [VStr ''point''], Print [VInt 1], Print [VInt 9],
             Print [VTuple [VStr ''e'', VStr ''l'']],
             Print
              [VTuple [VStr ''w'', VStr ''e'', VStr ''l'', VStr ''c'']],
             Print
              [VTuple [VStr ''c'', VStr ''o'', VStr ''m'', VStr ''e'']],
             Print
              [VTuple
                [VStr ''w'', VStr ''e'', VStr ''l'', VStr ''c'', VStr ''o'',
                 VStr ''m'', VStr ''e'']],
             Print
              [VTuple
                [VStr ''w'', VStr ''e'', VStr ''l'', VStr ''c'', VStr ''o'',
                 VStr ''m'', VStr ''e'']],
             Print
              [VTuple
                [VStr ''g'', VStr ''o'', VStr ''o'', VStr ''d'', VStr ''b'',
                 VStr ''y'', VStr ''e'']],
             Print
              [VTuple
                [VStr ''w'', VStr ''e'', VStr ''l'', VStr ''c'', VStr ''o'',
                 VStr ''m'', VStr ''e'']],
             Print
              [VTuple
                [VStr ''again'', VStr ''again'', VStr ''again'',
                 VStr ''again'']],
             Print [VInt 2], Print [VInt 3], Print [VBool True],
             Print [VBool False], Print [VBool False], Print [VBool True],
             Print [VStr ''Letter is:'', VStr ''w''],
             Print [VStr ''Letter is:'', VStr ''e''],
             Print [VStr ''Letter is:'', VStr ''l''],
             Print [VStr ''Letter is:'', VStr ''c''],
             Print [VStr ''Letter is:'', VStr ''o''],
             Print [VStr ''Letter is:'', VStr ''m''],
             Print [VStr ''Letter is:'', VStr ''e''],
             Print [VStr ''Letter is:'', VStr ''c''], Print [VInt 77],
             Print [VInt 11],
             Print
              [VList
                [VInt 11, VInt 22, VInt 33, VInt 44, VInt 55, VInt 66,
                 VInt 77]],
             Print [VInt 7]]\<rparr>)"
  by (simp add: example6_def py_defs stmt_defs method_defs op_defs seq_defs emit_def unpack_assign_def unpack_def method_count_def method_index_def seq_elems_def py_max_def py_min_def py_sorted_def eval_nat_numeral)

text \<open>
  \<open>example7.py\<close> ends normally: only the namespace and the output change. (Which
  elements \<open>pop\<close> takes from a set and the order in which a set is printed are the
  model's; the statement does not depend on them.)
\<close>

lemma example7_runs:
  "\<exists>g evs. example7 w = Some (Inr (), w\<lparr>globals := g, out := out w @ evs\<rparr>)"
proof -
  have "example7 w =
    Some
     (Inr (),
      w\<lparr>globals :=
          (globals w)
          (''my_set1'' \<mapsto>
             VSet [VInt 11, VInt 33, VInt 66, VInt 55, VInt 44, VInt 22],
             ''my_set2'' \<mapsto>
             VSet
              [VInt 101, VStr ''agnibha'',
               VTuple [VInt 21, VInt 2, VInt 1994]],
             ''my_set3'' \<mapsto>
             VSet [VInt 11, VInt 22, VInt 44, VInt 33, VInt 23],
             ''my_set5'' \<mapsto> VSet [VInt 1, VInt 2, VInt 3],
             ''my_list1'' \<mapsto> VList [VInt 11, VInt 22, VInt 33, VInt 44],
             ''my_set6'' \<mapsto> VSet [],
             ''myset1'' \<mapsto>
             VSet [VInt 0, VInt 1, VInt 2, VInt 3, VInt 4, VInt 5],
             ''myset2'' \<mapsto>
             VSet [VInt 4, VInt 5, VInt 6, VInt 7, VInt 8, VInt 9],
             ''myset3'' \<mapsto>
             VSet [VInt 0, VInt 1, VInt 2, VInt 3, VInt 4, VInt 5],
             ''letter'' \<mapsto> VStr ''m'',
             ''myset4'' \<mapsto> VFrozenset [VInt 1, VInt 2, VInt 3, VInt 4],
             ''myset5'' \<mapsto> VFrozenset [VInt 3, VInt 4, VInt 5, VInt 6]),
          out :=
            out w @
            [Print
              [VSet [VInt 11, VInt 33, VInt 66, VInt 55, VInt 44, VInt 22]],
             Print
              [VSet
                [VInt 101, VStr ''agnibha'',
                 VTuple [VInt 21, VInt 2, VInt 1994]]],
             Print [VSet [VInt 11, VInt 22, VInt 44, VInt 33, VInt 23]],
             Print [VSet [VInt 1, VInt 2, VInt 3]], Print [VType ''set''],
             Print [VList [VInt 11, VInt 22, VInt 33, VInt 44]],
             Print [VType ''list''],
             Print
              [VSet [VInt 11, VInt 33, VInt 44, VInt 66, VInt 55, VInt 77]],
             Print
              [VSet
                [VInt 11, VInt 33, VInt 44, VInt 66, VInt 55, VInt 77,
                 VInt 23, VInt 36, VInt 6]],
             Print
              [VSet
                [VInt 11, VInt 33, VInt 44, VInt 66, VInt 55, VInt 77,
                 VInt 23, VInt 36, VInt 6, VInt 100, VInt 200, VInt 103,
                 VInt 104, VInt 105]],
             Print
              [VSet
                [VInt 11, VInt 33, VInt 44, VInt 66, VInt 55, VInt 77,
                 VInt 23, VInt 36, VInt 6, VInt 100, VInt 200, VInt 103,
                 VInt 104, VInt 105]],
             Print
              [VSet
                [VInt 11, VInt 33, VInt 44, VInt 66, VInt 55, VInt 77,
                 VInt 23, VInt 36, VInt 6, VInt 200, VInt 103, VInt 104,
                 VInt 105]],
             Print
              [VSet
                [VInt 11, VInt 33, VInt 44, VInt 66, VInt 55, VInt 77,
                 VInt 23, VInt 36, VInt 6, VInt 103, VInt 104, VInt 105]],
             Print [VInt 11], Print [VInt 33], Print [VSet []],
             Print
              [VSet
                [VInt 0, VInt 1, VInt 2, VInt 3, VInt 4, VInt 5, VInt 6,
                 VInt 7, VInt 8, VInt 9]],
             Print
              [VSet
                [VInt 4, VInt 5, VInt 6, VInt 7, VInt 8, VInt 9, VInt 0,
                 VInt 1, VInt 2, VInt 3]],
             Print
              [VSet
                [VInt 0, VInt 1, VInt 2, VInt 3, VInt 4, VInt 5, VInt 6,
                 VInt 7, VInt 8, VInt 9]],
             Print
              [VSet
                [VInt 4, VInt 5, VInt 6, VInt 7, VInt 8, VInt 9, VInt 0,
                 VInt 1, VInt 2, VInt 3]],
             Print [VSet [VInt 4, VInt 5]], Print [VSet [VInt 4, VInt 5]],
             Print [VSet [VInt 4, VInt 5]], Print [VSet [VInt 4, VInt 5]],
             Print [VSet [VInt 0, VInt 1, VInt 2, VInt 3]],
             Print [VSet [VInt 6, VInt 7, VInt 8, VInt 9]],
             Print [VSet [VInt 0, VInt 1, VInt 2, VInt 3]],
             Print [VSet [VInt 6, VInt 7, VInt 8, VInt 9]],
             Print
              [VSet
                [VInt 0, VInt 1, VInt 2, VInt 3, VInt 6, VInt 7, VInt 8,
                 VInt 9]],
             Print
              [VSet
                [VInt 6, VInt 7, VInt 8, VInt 9, VInt 0, VInt 1, VInt 2,
                 VInt 3]],
             Print
              [VSet
                [VInt 0, VInt 1, VInt 2, VInt 3, VInt 6, VInt 7, VInt 8,
                 VInt 9]],
             Print
              [VSet
                [VInt 6, VInt 7, VInt 8, VInt 9, VInt 0, VInt 1, VInt 2,
                 VInt 3]],
             Print [VBool True], Print [VBool False], Print [VBool False],
             Print [VBool True], Print [VStr ''w''], Print [VStr ''e''],
             Print [VStr ''l''], Print [VStr ''c''], Print [VStr ''o''],
             Print [VStr ''m''], Print [VInt 6], Print [VInt 5],
             Print [VInt 0],
             Print [VList [VInt 0, VInt 1, VInt 2, VInt 3, VInt 4, VInt 5]],
             Print [VFrozenset [VInt 1, VInt 2, VInt 3, VInt 4]],
             Print [VFrozenset [VInt 3, VInt 4, VInt 5, VInt 6]],
             Print [VFrozenset [VInt 1, VInt 2]],
             Print
              [VFrozenset [VInt 1, VInt 2, VInt 3, VInt 4, VInt 5, VInt 6]],
             Print [VFrozenset [VInt 3, VInt 4]],
             Print [VFrozenset [VInt 1, VInt 2, VInt 5, VInt 6]]]\<rparr>)"
    by (simp add: example7_def py_defs stmt_defs method_defs op_defs seq_defs emit_def set_lit_def make_set_def py_set_def py_list_def py_frozenset_def type_of_def set_elems_def same_kind_def union_elems_def inter_elems_def diff_elems_def symdiff_elems_def set_operator_def set_method_def method_add_def method_update_def method_discard_def py_max_def py_min_def py_sorted_def)
  then show ?thesis by blast
qed

lemma example38_runs:
  "example38 w =
    Some
     (Inr (),
      w\<lparr>imported := imported w @ [''re''],
          globals :=
            (globals w)
            (''re'' \<mapsto> VModule ''re'',
               ''allApes'' \<mapsto> VList [VStr ''ape '', VStr ''apex''],
               ''i'' \<mapsto> VStr ''apex''),
          out :=
            out w @
            [Print [VStr ''Match for ape found...''], Print [VStr ''ape ''],
             Print [VStr ''apex'']]\<rparr>)"
  by (simp add: example38_def py_defs stmt_defs method_defs seq_defs emit_def re_search_def re_findall_def)

lemma strings11_runs:
  "strings11 w =
    Some
     (Inr (),
      w\<lparr>globals :=
          (globals w)
          (''mystr1'' \<mapsto> VStr ''welcome'', ''mystr2'' \<mapsto> VStr ''welcome'',
             ''mystr3'' \<mapsto> VStr ''welcome'', ''mystr4'' \<mapsto> VStr ''welcome'',
             ''mystr5'' \<mapsto>
             VStr ''welcome\<newline>to the world of \<newline>python programming'',
             ''my_str'' \<mapsto> VStr ''language'',
             ''my_str1'' \<mapsto> VStr ''programming'', ''letter_count'' \<mapsto> VInt 2,
             ''letter'' \<mapsto> VStr ''g'', ''my_str2'' \<mapsto> VStr ''university'',
             ''my_list_enumerate'' \<mapsto>
             VList
              [VTuple [VInt 0, VStr ''u''], VTuple [VInt 1, VStr ''n''],
               VTuple [VInt 2, VStr ''i''], VTuple [VInt 3, VStr ''v''],
               VTuple [VInt 4, VStr ''e''], VTuple [VInt 5, VStr ''r''],
               VTuple [VInt 6, VStr ''s''], VTuple [VInt 7, VStr ''i''],
               VTuple [VInt 8, VStr ''t''], VTuple [VInt 9, VStr ''y'']],
             ''default_order'' \<mapsto>
             VFormat ''{} {} {}''
              [VStr ''Today'', VStr ''is'', VStr ''sunday''] [],
             ''positional_order'' \<mapsto>
             VFormat ''{1} {0} {2}''
              [VStr ''is'', VStr ''Today'', VStr ''sunday''] [],
             ''keyword_order'' \<mapsto>
             VFormat ''{t} {i} {s}'' []
              [(''i'', VStr ''is''), (''t'', VStr ''Today''),
               (''s'', VStr ''sunday'')]),
          out :=
            out w @
            [Print [VStr ''welcome''], Print [VStr ''welcome''],
             Print [VStr ''welcome''], Print [VStr ''welcome''],
             Print [VStr ''welcome\<newline>to the world of \<newline>python programming''],
             Print [VStr ''my_str'', VStr ''language''],
             Print [VStr ''my_str[0] = '', VStr ''l''],
             Print [VStr ''my_str[-1] = '', VStr ''e''],
             Print [VStr ''my_str[1:5] = '', VStr ''angu''],
             Print [VStr ''my_str[5:-2] = '', VStr ''a''],
             Print [VStr ''language''], Print [VStr ''programming''],
             Print [VStr ''programminglanguage''],
             Print [VStr ''programmingprogrammingprogramming''],
             Print [VStr ''Count of letter m in my_str1 is:'', VInt 2],
             Print [VBool True], Print [VBool False], Print [VBool False],
             Print [VBool True],
             Print
              [VStr ''list(enumerate(my_str2)):'',
               VList
                [VTuple [VInt 0, VStr ''u''], VTuple [VInt 1, VStr ''n''],
                 VTuple [VInt 2, VStr ''i''], VTuple [VInt 3, VStr ''v''],
                 VTuple [VInt 4, VStr ''e''], VTuple [VInt 5, VStr ''r''],
                 VTuple [VInt 6, VStr ''s''], VTuple [VInt 7, VStr ''i''],
                 VTuple [VInt 8, VStr ''t''], VTuple [VInt 9, VStr ''y'']]],
             Print [VStr ''length of my_str2 is:'', VInt 10],
             Print
              [VStr
                [CHR ''t'', CHR ''e'', CHR ''l'', CHR ''l'', CHR '' '',
                 CHR ''m'', CHR ''e'', CHR '' '', CHR 0x22, CHR ''w'',
                 CHR ''h'', CHR ''a'', CHR ''t'', CHR 0x27, CHR ''s'',
                 CHR '' '', CHR ''y'', CHR ''o'', CHR ''u'', CHR ''r'',
                 CHR '' '', CHR ''n'', CHR ''a'', CHR ''m'', CHR ''e'',
                 CHR ''?'', CHR 0x22]],
             Print
              [VStr
                [CHR ''t'', CHR ''e'', CHR ''l'', CHR ''l'', CHR '' '',
                 CHR ''m'', CHR ''e'', CHR '' '', CHR 0x22, CHR ''w'',
                 CHR ''h'', CHR ''a'', CHR ''t'', CHR 0x27, CHR ''s'',
                 CHR '' '', CHR ''y'', CHR ''o'', CHR ''u'', CHR ''r'',
                 CHR '' '', CHR ''n'', CHR ''a'', CHR ''m'', CHR ''e'',
                 CHR ''?'', CHR 0x22]],
             Print
              [VStr
                [CHR ''t'', CHR ''e'', CHR ''l'', CHR ''l'', CHR '' '',
                 CHR ''m'', CHR ''e'', CHR '' '', CHR 0x27, CHR ''w'',
                 CHR ''h'', CHR ''a'', CHR ''t'', CHR 0x27, CHR ''s'',
                 CHR '' '', CHR ''y'', CHR ''o'', CHR ''u'', CHR ''r'',
                 CHR '' '', CHR ''n'', CHR ''a'', CHR ''m'', CHR ''e'',
                 CHR ''?'', CHR 0x27]],
             Print
              [VStr
                [CHR ''t'', CHR ''e'', CHR ''l'', CHR ''l'', CHR '' '',
                 CHR ''m'', CHR ''e'', CHR '' '', CHR 0x22, CHR ''w'',
                 CHR ''h'', CHR ''a'', CHR ''t'', CHR 0x27, CHR ''s'',
                 CHR '' '', CHR ''y'', CHR ''o'', CHR ''u'', CHR ''r'',
                 CHR '' '', CHR ''n'', CHR ''a'', CHR ''m'', CHR ''e'',
                 CHR ''?'', CHR 0x22]],
             Print
              [VStr
                [CHR ''C'', CHR '':'', CHR 0x5C, CHR ''U'', CHR ''s'',
                 CHR ''e'', CHR ''r'', CHR 0x5C, CHR ''u'', CHR ''s'',
                 CHR ''e'', CHR ''r'', CHR 0x5C, CHR ''m'', CHR ''y'',
                 CHR ''d'', CHR ''a'', CHR ''t'', CHR ''a'', CHR ''.'',
                 CHR ''t'', CHR ''x'', CHR ''t'']],
             Print [VStr ''This line is having a new line \<newline>character''],
             Print
              [VStr
                [CHR ''T'', CHR ''h'', CHR ''i'', CHR ''s'', CHR '' '',
                 CHR ''l'', CHR ''i'', CHR ''n'', CHR ''e'', CHR '' '',
                 CHR ''i'', CHR ''s'', CHR '' '', CHR ''h'', CHR ''a'',
                 CHR ''v'', CHR ''i'', CHR ''n'', CHR ''g'', CHR '' '',
                 CHR ''a'', CHR '' '', CHR ''t'', CHR ''a'', CHR ''b'',
                 CHR '' '', CHR 0x09, CHR ''c'', CHR ''h'', CHR ''a'',
                 CHR ''r'', CHR ''a'', CHR ''c'', CHR ''t'', CHR ''e'',
                 CHR ''r'']],
             Print [VStr ''ABC written in ABC (Hex) Representation''],
             Print
              [VFormat ''{} {} {}''
                [VStr ''Today'', VStr ''is'', VStr ''sunday''] []],
             Print
              [VFormat ''{1} {0} {2}''
                [VStr ''is'', VStr ''Today'', VStr ''sunday''] []],
             Print
              [VFormat ''{t} {i} {s}'' []
                [(''i'', VStr ''is''), (''t'', VStr ''Today''),
                 (''s'', VStr ''sunday'')]],
             Print
              [VFormat ''Required binary represntation of {0}is {0:b}''
                [VInt 20] []],
             Print
              [VFormat ''Exponent representation : {0:e}''
                [VFloat (313269 / 200)] []],
             Print
              [VFormat ''One third is: {0:3f}'' [VFloat (1 / 3)] []]]\<rparr>)"
  by (simp add: strings11_def py_defs stmt_defs method_defs op_defs seq_defs fmt_defs emit_def example_strings11_count_def py_list_def py_enumerate_def format_kw_def eval_nat_numeral upt_rec)

end
